(* ===== verification/Prelude.thy ===== *)
theory Prelude
  imports Main
begin

text \<open>
  Shared vocabulary of the development. The script \<open>src/load_csv_to_mysql.py\<close>
  signals every failure by a Python exception that ends the process; here an
  exception is a value of \<open>py_exc\<close> and a computation that may raise returns
  \<open>py_exc + 'a\<close> (\<open>Inl\<close> the exception). \<open>bind_res\<close> sequences two such
  computations the way consecutive statements of the script do: the first
  exception stops the rest. The collection \<open>res_simps\<close> gathers the rewrite
  rules for these results that the component proofs share.
\<close>

named_theorems res_simps "rewrite rules for exception results"
named_theorems pres_rules "introduction rules for state invariants preserved by statements"

datatype py_exc =
    ArgError string      \<comment> \<open>\<open>arg_parser.error(msg)\<close>: usage message, exit status 2\<close>
  | KeyError string      \<comment> \<open>\<open>dict[key]\<close> on a missing key\<close>
  | ValueError string    \<comment> \<open>\<open>int(s)\<close> on a string that is no integer; bad chunksize\<close>
  | TypeError string     \<comment> \<open>\<open>int(None)\<close>\<close>
  | JSONDecodeError      \<comment> \<open>\<open>json.loads\<close> on a malformed secret string\<close>
  | ClientError string   \<comment> \<open>boto3 / S3 client failure (secret or object not found)\<close>
  | DbError string       \<comment> \<open>pymysql error raised by the server or the connection\<close>
  | EmptyDataFrame       \<comment> \<open>awswrangler refuses to write an empty frame\<close>
  | HelpExit             \<comment> \<open>argparse printed the usage for \<open>-h\<close>/\<open>--help\<close>: exit status 0\<close>

type_synonym 'a res = "py_exc + 'a"

definition bind_res :: "'a res \<Rightarrow> ('a \<Rightarrow> 'b res) \<Rightarrow> 'b res" where
  "bind_res r f = (case r of Inl e \<Rightarrow> Inl e | Inr a \<Rightarrow> f a)"

text \<open>
  Statements that change the world and may raise: a state transformer returning the
  new state together with the value or the exception. The state reached when an
  exception is raised is kept, because what the script already did to the database
  stays done when it dies.
\<close>

type_synonym ('a, 's) st = "'s \<Rightarrow> 'a res \<times> 's"

definition return_st :: "'a \<Rightarrow> ('a, 's) st" where
  "return_st a s = (Inr a, s)"

definition raise_st :: "py_exc \<Rightarrow> ('a, 's) st" where
  "raise_st e s = (Inl e, s)"

definition bind_st :: "('a, 's) st \<Rightarrow> ('a \<Rightarrow> ('b, 's) st) \<Rightarrow> ('b, 's) st" where
  "bind_st m f s = (case m s of (Inl e, s') \<Rightarrow> (Inl e, s') | (Inr a, s') \<Rightarrow> f a s')"

definition lift_res :: "'a res \<Rightarrow> ('a, 's) st" where
  "lift_res r s = (r, s)"

text \<open>
  \<open>preserves P m\<close>: whatever \<open>m\<close> returns or raises, a state satisfying \<open>P\<close>
  is taken to a state satisfying \<open>P\<close>. The rules of \<open>pres_rules\<close> build such
  facts for a composed statement from facts about its parts.
\<close>

definition preserves :: "('s \<Rightarrow> bool) \<Rightarrow> ('a, 's) st \<Rightarrow> bool" where
  "preserves P m \<longleftrightarrow> (\<forall>s. P s \<longrightarrow> P (snd (m s)))"

lemma bind_res_Inl [simp, res_simps]: "bind_res (Inl e) f = Inl e"
  by (simp add: bind_res_def)

lemma bind_res_Inr [simp, res_simps]: "bind_res (Inr a) f = f a"
  by (simp add: bind_res_def)

lemma bind_res_eq_Inr [res_simps]:
  "bind_res r f = Inr b \<longleftrightarrow> (\<exists>a. r = Inr a \<and> f a = Inr b)"
  by (cases r) simp_all

lemma bind_res_eq_Inl [res_simps]:
  "bind_res r f = Inl e \<longleftrightarrow> r = Inl e \<or> (\<exists>a. r = Inr a \<and> f a = Inl e)"
  by (cases r) simp_all

lemma bind_res_assoc [simp]:
  "bind_res (bind_res r f) g = bind_res r (\<lambda>a. bind_res (f a) g)"
  by (cases r) simp_all

lemma bind_st_return [simp, res_simps]: "bind_st (return_st a) f = f a"
  by (simp add: bind_st_def return_st_def fun_eq_iff)

lemma bind_st_raise [simp, res_simps]: "bind_st (raise_st e) f = raise_st e"
  by (simp add: bind_st_def raise_st_def fun_eq_iff)

lemma bind_st_apply [res_simps]:
  "bind_st m f s = (case m s of (Inl e, s') \<Rightarrow> (Inl e, s') | (Inr a, s') \<Rightarrow> f a s')"
  by (simp add: bind_st_def)

lemma bind_st_assoc [simp]:
  "bind_st (bind_st m f) g = bind_st m (\<lambda>a. bind_st (f a) g)"
  by (auto simp: bind_st_def fun_eq_iff split: prod.splits sum.splits)

lemma lift_res_Inr [simp, res_simps]: "lift_res (Inr a) = return_st a"
  by (simp add: lift_res_def return_st_def fun_eq_iff)

lemma lift_res_Inl [simp, res_simps]: "lift_res (Inl e) = raise_st e"
  by (simp add: lift_res_def raise_st_def fun_eq_iff)

lemma preservesD: "preserves P m \<Longrightarrow> P s \<Longrightarrow> P (snd (m s))"
  by (simp add: preserves_def)

lemma preserves_return [pres_rules]: "preserves P (return_st a)"
  by (simp add: preserves_def return_st_def)

lemma preserves_raise [pres_rules]: "preserves P (raise_st e)"
  by (simp add: preserves_def raise_st_def)

lemma preserves_lift [pres_rules]: "preserves P (lift_res r)"
  by (simp add: preserves_def lift_res_def)

lemma preserves_bind [pres_rules]:
  "preserves P m \<Longrightarrow> (\<And>a. preserves P (f a)) \<Longrightarrow> preserves P (bind_st m f)"
  by (auto simp: preserves_def bind_st_def split: prod.splits sum.splits)

lemma preserves_bind_lift:
  "(\<And>a. r = Inr a \<Longrightarrow> preserves P (f a)) \<Longrightarrow> preserves P (bind_st (lift_res r) f)"
  by (cases r) (simp_all add: preserves_raise)

text \<open>The continuation need only preserve \<open>P\<close> for the values the first step can return.\<close>

lemma preserves_bind_ret:
  "preserves P m \<Longrightarrow> (\<And>a s s'. m s = (Inr a, s') \<Longrightarrow> preserves P (f a)) \<Longrightarrow> preserves P (bind_st m f)"
  by (auto simp: preserves_def bind_st_def split: prod.splits sum.splits)

lemma preserves_if [pres_rules]:
  "preserves P a \<Longrightarrow> preserves P b \<Longrightarrow> preserves P (if c then a else b)"
  by simp

lemma preserves_case_option [pres_rules]:
  "preserves P a \<Longrightarrow> (\<And>x. preserves P (f x)) \<Longrightarrow> preserves P (case opt of None \<Rightarrow> a | Some x \<Rightarrow> f x)"
  by (cases opt) simp_all

end
