(* ===== verification/Dtypes.thy ===== *)
theory Dtypes
  imports Prelude "HOL-Library.Option_ord"
begin

text \<open>
  The data the script moves. \<open>wr.s3.read_csv\<close> (line 116) yields pandas frames
  whose cells are already parsed: empty fields are missing values, the others
  booleans, integers, decimal floats or strings (\<open>cell\<close>; a float is kept as the
  decimal \<open>m * 10^e\<close> that the CSV text spells). \<open>df.convert_dtypes()\<close>
  (line 150) gives every column the best-fitting nullable type (\<open>coltype\<close>):
  this is pandas, modelled from spec 4.3 and 9. Column types form a join
  semilattice (an instance of the library class \<open>semilattice_sup\<close>): integers
  widen to floats, any other mix is text; a float column whose values are all
  integral becomes an integer column, and a column with no value at all becomes
  an integer column, as \<open>convert_dtypes\<close> does with an all-NaN float column.
  The inference of a column is the join of the kinds of its cells
  (\<open>infer_opt\<close>); the lemmas show that this is the least upper bound of the
  observed kinds, that it does not depend on the order of the rows, and that the
  inference over a whole file is the join of the inferences over its chunks.
\<close>

datatype cell = CNull | CBool bool | CInt int | CFloat int int | CStr string

datatype coltype = TBool | TInt | TFloat | TString

instantiation coltype :: semilattice_sup
begin

fun sup_coltype :: "coltype \<Rightarrow> coltype \<Rightarrow> coltype" where
  "sup_coltype TInt TFloat = TFloat"
| "sup_coltype TFloat TInt = TFloat"
| "sup_coltype a b = (if a = b then a else TString)"

definition less_eq_coltype :: "coltype \<Rightarrow> coltype \<Rightarrow> bool" where
  "less_eq_coltype a b \<longleftrightarrow> sup a b = b"

definition less_coltype :: "coltype \<Rightarrow> coltype \<Rightarrow> bool" where
  "less_coltype a b \<longleftrightarrow> sup a b = b \<and> a \<noteq> b"

instance
proof
  fix x y z :: coltype
  show "x < y \<longleftrightarrow> x \<le> y \<and> \<not> y \<le> x"
    by (cases x; cases y) (simp_all add: less_eq_coltype_def less_coltype_def)
  show "x \<le> x"
    by (cases x) (simp_all add: less_eq_coltype_def)
  show "x \<le> y \<Longrightarrow> y \<le> z \<Longrightarrow> x \<le> z"
    by (cases x; cases y; cases z) (simp_all add: less_eq_coltype_def)
  show "x \<le> y \<Longrightarrow> y \<le> x \<Longrightarrow> x = y"
    by (cases x; cases y) (simp_all add: less_eq_coltype_def)
  show "x \<le> sup x y"
    by (cases x; cases y) (simp_all add: less_eq_coltype_def)
  show "y \<le> sup x y"
    by (cases x; cases y) (simp_all add: less_eq_coltype_def)
  show "y \<le> x \<Longrightarrow> z \<le> x \<Longrightarrow> sup y z \<le> x"
    by (cases x; cases y; cases z) (simp_all add: less_eq_coltype_def)
qed

end

definition decimal_integral :: "int \<Rightarrow> int \<Rightarrow> bool" where
  "decimal_integral m e \<longleftrightarrow> 0 \<le> e \<or> m mod 10 ^ nat (- e) = 0"

fun cell_kind :: "cell \<Rightarrow> coltype option" where
  "cell_kind CNull = None"
| "cell_kind (CBool _) = Some TBool"
| "cell_kind (CInt _) = Some TInt"
| "cell_kind (CFloat m e) = Some (if decimal_integral m e then TInt else TFloat)"
| "cell_kind (CStr _) = Some TString"

definition infer_opt :: "cell list \<Rightarrow> coltype option" where
  "infer_opt cs = foldr (\<lambda>c acc. sup (cell_kind c) acc) cs None"

definition infer_column :: "cell list \<Rightarrow> coltype" where
  "infer_column cs = (case infer_opt cs of None \<Rightarrow> TInt | Some t \<Rightarrow> t)"

record frame =
  header :: "string list"
  rows :: "cell list list"

definition cell_at :: "cell list \<Rightarrow> nat \<Rightarrow> cell" where
  "cell_at r i = (if i < length r then r ! i else CNull)"

definition column :: "cell list list \<Rightarrow> nat \<Rightarrow> cell list" where
  "column rs i = map (\<lambda>r. cell_at r i) rs"

definition convert_dtypes :: "frame \<Rightarrow> (string \<times> coltype) list" where
  "convert_dtypes f = map (\<lambda>(i, n). (n, infer_column (column (rows f) i))) (enumerate 0 (header f))"

definition observed_kinds :: "cell list \<Rightarrow> coltype set" where
  "observed_kinds cs = {t. \<exists>c \<in> set cs. cell_kind c = Some t}"

lemma infer_opt_Nil [simp]: "infer_opt [] = None"
  by (simp add: infer_opt_def)

lemma infer_opt_Cons [simp]: "infer_opt (c # cs) = sup (cell_kind c) (infer_opt cs)"
  by (simp add: infer_opt_def)

theorem infer_opt_append: "infer_opt (xs @ ys) = sup (infer_opt xs) (infer_opt ys)"
  by (induction xs) (simp_all add: sup_assoc)

theorem infer_opt_concat: "infer_opt (concat css) = foldr (\<lambda>cs acc. sup (infer_opt cs) acc) css None"
  by (induction css) (simp_all add: infer_opt_append)

lemma observed_kinds_Cons:
  "observed_kinds (c # cs) = (case cell_kind c of None \<Rightarrow> observed_kinds cs | Some t \<Rightarrow> insert t (observed_kinds cs))"
  by (auto simp: observed_kinds_def split: option.splits)

lemma finite_observed_kinds [simp]: "finite (observed_kinds cs)"
proof -
  have "observed_kinds cs \<subseteq> UNIV" by simp
  moreover have "finite (UNIV :: coltype set)"
  proof -
    have u: "(UNIV :: coltype set) = {TBool, TInt, TFloat, TString}"
      using coltype.exhaust by blast
    show ?thesis by (subst u) simp
  qed
  ultimately show ?thesis by (rule finite_subset)
qed

theorem infer_opt_Sup_fin:
  "infer_opt cs = (if observed_kinds cs = {} then None else Some (Sup_fin (observed_kinds cs)))"
proof (induction cs)
  case Nil
  then show ?case by (simp add: observed_kinds_def)
next
  case (Cons c cs)
  show ?case
  proof (cases "cell_kind c")
    case None
    with Cons show ?thesis by (simp add: observed_kinds_Cons)
  next
    case (Some t)
    show ?thesis
    proof (cases "observed_kinds cs = {}")
      case True
      with Cons Some show ?thesis by (simp add: observed_kinds_Cons)
    next
      case False
      with Cons Some show ?thesis by (simp add: observed_kinds_Cons Sup_fin.insert)
    qed
  qed
qed

corollary infer_column_set:
  "set xs = set ys \<Longrightarrow> infer_column xs = infer_column ys"
proof -
  assume "set xs = set ys"
  then have "observed_kinds xs = observed_kinds ys" by (simp add: observed_kinds_def)
  then show ?thesis by (simp add: infer_column_def infer_opt_Sup_fin)
qed


lemma sup_TString_right [simp]: "sup t TString = TString"
  by (cases t) simp_all

lemma sup_TString_left [simp]: "sup TString t = TString"
  by (cases t) simp_all

lemma infer_opt_TString: "CStr s \<in> set cs \<Longrightarrow> infer_opt cs = Some TString"
proof (induction cs)
  case (Cons c cs)
  show ?case
  proof (cases "c = CStr s")
    case True
    then show ?thesis by (cases "infer_opt cs") simp_all
  next
    case False
    with Cons have "infer_opt cs = Some TString" by simp
    then show ?thesis by (cases "cell_kind c") simp_all
  qed
qed simp

lemma infer_column_TString: "CStr s \<in> set cs \<Longrightarrow> infer_column cs = TString"
  by (simp add: infer_column_def infer_opt_TString)

lemma length_convert_dtypes [simp]: "length (convert_dtypes f) = length (header f)"
  by (simp add: convert_dtypes_def)

lemma nth_convert_dtypes:
  "i < length (header f) \<Longrightarrow> convert_dtypes f ! i = (header f ! i, infer_column (column (rows f) i))"
  by (simp add: convert_dtypes_def nth_enumerate_eq)

lemma frame_eta [simp]: "\<lparr>header = header f, rows = rows f\<rparr> = f"
  by (cases f) simp

lemma infer_opt_replicate [simp]: "infer_opt (replicate n c) = (if n = 0 then None else cell_kind c)"
  by (induction n) (auto simp: sup_option_def split: option.splits)

text \<open>
  C14. The column types \<open>convert_dtypes\<close> (line 150) gives a frame
  depend only on its header and on the set of its rows: reordering the rows or
  repeating one changes no column's type.
\<close>

theorem convert_dtypes_row_order:
  assumes "header f = header g" "set (rows f) = set (rows g)"
  shows "convert_dtypes f = convert_dtypes g"
proof -
  have "infer_column (column (rows f) i) = infer_column (column (rows g) i)" for i
    by (rule infer_column_set) (simp add: column_def assms(2))
  then show ?thesis by (simp add: convert_dtypes_def assms(1))
qed

theorem convert_dtypes_row_order_witness:
  "convert_dtypes \<lparr>header = [''a'', ''b''], rows = [[CInt 1, CStr ''x''], [CFloat 15 (-1), CNull], [CInt 1, CStr ''x'']]\<rparr> =
   convert_dtypes \<lparr>header = [''a'', ''b''], rows = [[CFloat 15 (-1), CNull], [CInt 1, CStr ''x'']]\<rparr>"
  by (rule convert_dtypes_row_order) auto

lemma cell_kind_le_infer_opt: "c \<in> set cs \<Longrightarrow> cell_kind c \<le> infer_opt cs"
  by (induction cs) (auto intro: le_supI2)

lemma infer_opt_least: "\<forall>c \<in> set cs. cell_kind c \<le> Some t \<Longrightarrow> infer_opt cs \<le> Some t"
  by (induction cs) simp_all

lemma infer_opt_None: "infer_opt cs = None \<longleftrightarrow> (\<forall>c \<in> set cs. cell_kind c = None)"
  by (induction cs) (auto simp: sup_option_def split: option.splits)

text \<open>
  C15. The type \<open>convert_dtypes\<close> (line 150) gives a column, and that
  \<open>to_sql\<close> creates the MySQL column with, is its principal type: every value of the
  column has a kind below it, and it is below every type that admits all the values,
  as soon as one value is not null.
\<close>

theorem convert_dtypes_principal:
  assumes "i < length (header f)" "convert_dtypes f ! i = (n, t)"
  shows "n = header f ! i \<and>
         (\<forall>c \<in> set (column (rows f) i). cell_kind c \<le> Some t) \<and>
         (\<forall>t'. (\<forall>c \<in> set (column (rows f) i). cell_kind c \<le> Some t') \<longrightarrow>
               (\<exists>c \<in> set (column (rows f) i). cell_kind c \<noteq> None) \<longrightarrow> t \<le> t')"
proof -
  let ?cs = "column (rows f) i"
  from assms have n: "n = header f ! i" and t: "t = infer_column ?cs"
    by (simp_all add: nth_convert_dtypes)
  have up: "cell_kind c \<le> Some t" if "c \<in> set ?cs" for c
  proof (cases "infer_opt ?cs")
    case None
    with that show ?thesis by (simp add: infer_opt_None)
  next
    case (Some u)
    with t cell_kind_le_infer_opt [OF that] show ?thesis by (simp add: infer_column_def)
  qed
  have least: "t \<le> t'" if "\<forall>c \<in> set ?cs. cell_kind c \<le> Some t'" "\<exists>c \<in> set ?cs. cell_kind c \<noteq> None" for t'
  proof -
    from that(2) obtain u where u: "infer_opt ?cs = Some u" by (cases "infer_opt ?cs") (auto simp: infer_opt_None)
    with infer_opt_least [OF that(1)] t show ?thesis by (simp add: infer_column_def)
  qed
  from n up least show ?thesis by blast
qed

theorem convert_dtypes_principal_witness:
  "convert_dtypes \<lparr>header = [''price''], rows = [[CInt 3], [CFloat 25 (-1)], [CNull]]\<rparr> ! 0 = (''price'', TFloat) \<and>
   cell_kind (CFloat 25 (-1)) \<le> Some TFloat \<and> TFloat \<le> TString"
proof -
  let ?f = "\<lparr>header = [''price''], rows = [[CInt 3], [CFloat 25 (-1)], [CNull]]\<rparr>"
  have e: "convert_dtypes ?f ! 0 = (''price'', TFloat)"
    by (simp add: convert_dtypes_def column_def cell_at_def infer_column_def decimal_integral_def sup_option_def)
  have h: "0 < length (header ?f)" by simp
  have all: "\<forall>c \<in> set (column (rows ?f) 0). cell_kind c \<le> Some TString"
    by (simp add: column_def cell_at_def less_eq_coltype_def)
  have some: "\<exists>c \<in> set (column (rows ?f) 0). cell_kind c \<noteq> None"
    by (simp add: column_def cell_at_def)
  have kinds: "\<forall>c \<in> set (column (rows ?f) 0). cell_kind c \<le> Some TFloat"
    using convert_dtypes_principal [OF h e] by blast
  have "TFloat \<le> TString"
    using convert_dtypes_principal [OF h e] all some by blast
  moreover have "cell_kind (CFloat 25 (-1)) \<le> Some TFloat"
    using kinds by (simp add: column_def cell_at_def)
  ultimately show ?thesis using e by simp
qed

end
