(* ===== verification/PyStr.thy ===== *)
theory PyStr
  imports Prelude
begin

text \<open>
  The Python string builtins the script applies to its inputs: \<open>str.strip()\<close> and
  \<open>str.upper()\<close> on the delete mode (line 78 and again line 136 of
  \<open>src/load_csv_to_mysql.py\<close>), \<open>int(...)\<close> on the port of the secret
  (line 100), and \<open>str(n)\<close> on the counts that the log lines format (lines 152,
  169, 170). They are builtins, not code of the repository, and are modelled from
  the Python language reference on the ASCII subset: \<open>char\<close> is a byte, so a
  non-ASCII code point is several \<open>char\<close>s and is left unchanged by \<open>py_upper\<close>
  and never counts as white space. The lemmas show that normalising twice is
  normalising once, and that \<open>py_int\<close> reads back what \<open>py_str_int\<close> prints.
\<close>

definition py_isspace :: "char \<Rightarrow> bool" where
  "py_isspace c \<longleftrightarrow> of_char c \<in> {9, 10, 11, 12, 13, 28, 29, 30, 31, 32 :: nat}"

definition py_strip :: "string \<Rightarrow> string" where
  "py_strip s = rev (dropWhile py_isspace (rev (dropWhile py_isspace s)))"

definition py_upper_char :: "char \<Rightarrow> char" where
  "py_upper_char c =
     (if 97 \<le> (of_char c :: nat) \<and> (of_char c :: nat) \<le> 122 then char_of (of_char c - 32 :: nat) else c)"

definition py_upper :: "string \<Rightarrow> string" where
  "py_upper s = map py_upper_char s"

definition py_isdigit :: "char \<Rightarrow> bool" where
  "py_isdigit c \<longleftrightarrow> 48 \<le> (of_char c :: nat) \<and> (of_char c :: nat) \<le> 57"

definition digit_val :: "char \<Rightarrow> nat" where
  "digit_val c = of_char c - (48 :: nat)"

text \<open>
  \<open>int(s)\<close>: surrounding white space is ignored, an optional sign, then decimal
  digits in which single underscores may separate digits (\<open>int('1_000')\<close> is
  1000). Anything else raises \<open>ValueError\<close>, here \<open>None\<close>.
\<close>

fun digits_ok :: "string \<Rightarrow> bool" where
  "digits_ok [] = False"
| "digits_ok [c] = py_isdigit c"
| "digits_ok (c # d # cs) =
     (py_isdigit c \<and> (if d = CHR ''_'' then cs \<noteq> [] \<and> hd cs \<noteq> CHR ''_'' \<and> digits_ok cs
                        else digits_ok (d # cs)))"

fun digits_value :: "nat \<Rightarrow> string \<Rightarrow> nat" where
  "digits_value acc [] = acc"
| "digits_value acc (c # cs) =
     (if c = CHR ''_'' then digits_value acc cs else digits_value (10 * acc + digit_val c) cs)"

definition py_int_unsigned :: "string \<Rightarrow> int option" where
  "py_int_unsigned ds = (if digits_ok ds then Some (int (digits_value 0 ds)) else None)"

definition py_int :: "string \<Rightarrow> int option" where
  "py_int s =
     (case py_strip s of
        [] \<Rightarrow> None
      | c # ds \<Rightarrow>
          if c = CHR ''-'' then map_option uminus (py_int_unsigned ds)
          else if c = CHR ''+'' then py_int_unsigned ds
          else py_int_unsigned (c # ds))"

text \<open>\<open>str(n)\<close> for a Python \<open>int\<close>: decimal digits, a leading minus when negative.\<close>

fun nat_digits :: "nat \<Rightarrow> string" where
  "nat_digits n =
     (if n < 10 then [char_of (48 + n)] else nat_digits (n div 10) @ [char_of (48 + n mod 10)])"

declare nat_digits.simps [simp del]

definition py_str_int :: "int \<Rightarrow> string" where
  "py_str_int i = (if i < 0 then CHR ''-'' # nat_digits (nat (- i)) else nat_digits (nat i))"

subsection \<open>Normalisation: strip and upper\<close>

text \<open>
  Trimming white space from both ends is idempotent, and so is upper-casing; the two
  commute because upper-casing maps white space to white space.
\<close>

lemma rev_dropWhile_rev_prefix:
  "\<exists>t. a = rev (dropWhile P (rev a)) @ t"
proof -
  have "rev a = takeWhile P (rev a) @ dropWhile P (rev a)" by simp
  then have "a = rev (dropWhile P (rev a)) @ rev (takeWhile P (rev a))"
    by (metis rev_append rev_rev_ident)
  then show ?thesis by blast
qed

lemma trim_both_idem:
  "let b = rev (dropWhile P (rev (dropWhile P s))) in
   rev (dropWhile P (rev (dropWhile P b))) = b"
proof -
  define a where "a = dropWhile P s"
  define b where "b = rev (dropWhile P (rev a))"
  obtain t where at: "a = b @ t" unfolding b_def using rev_dropWhile_rev_prefix by blast
  have db: "dropWhile P b = b"
  proof (cases "b = []")
    case False
    with at have "a \<noteq> []" and "hd a = hd b" by simp_all
    then have "\<not> P (hd b)" unfolding a_def using hd_dropWhile by metis
    then show ?thesis by (simp add: dropWhile_eq_self_iff)
  qed simp
  have "rev (dropWhile P (rev b)) = b" by (simp add: b_def)
  with db show ?thesis by (simp add: a_def b_def Let_def)
qed

lemma py_strip_idem: "py_strip (py_strip s) = py_strip s"
  using trim_both_idem [of py_isspace s] by (simp add: py_strip_def Let_def)

lemma py_upper_char_idem: "py_upper_char (py_upper_char c) = py_upper_char c"
  by (auto simp: py_upper_char_def)

lemma py_upper_idem: "py_upper (py_upper s) = py_upper s"
  by (simp add: py_upper_def py_upper_char_idem)

lemma py_isspace_upper: "py_isspace (py_upper_char c) = py_isspace c"
  by (auto simp: py_upper_char_def py_isspace_def)

lemma py_strip_decomp:
  "\<exists>pre suf. s = pre @ py_strip s @ suf \<and> list_all py_isspace pre \<and> list_all py_isspace suf"
proof -
  let ?r = "dropWhile py_isspace s"
  have l: "s = takeWhile py_isspace s @ ?r" by simp
  have "rev ?r = takeWhile py_isspace (rev ?r) @ dropWhile py_isspace (rev ?r)" by simp
  then have r: "?r = py_strip s @ rev (takeWhile py_isspace (rev ?r))"
    unfolding py_strip_def by (metis rev_append rev_rev_ident)
  have "list_all py_isspace (takeWhile py_isspace s)" by (auto simp: list_all_iff dest: set_takeWhileD)
  moreover have "list_all py_isspace (rev (takeWhile py_isspace (rev ?r)))"
    by (auto simp: list_all_iff dest: set_takeWhileD)
  ultimately show ?thesis using l r by (metis append.assoc)
qed

lemma py_strip_pad:
  assumes "list_all py_isspace pre" "list_all py_isspace suf" "list_all (\<lambda>c. \<not> py_isspace c) core"
  shows "py_strip (pre @ core @ suf) = core"
proof (cases "core = []")
  case True
  with assms show ?thesis by (auto simp: py_strip_def list_all_iff dropWhile_eq_Nil_conv dest: set_dropWhileD)
next
  case False
  have "dropWhile py_isspace (pre @ core @ suf) = core @ suf"
    using assms False by (simp add: dropWhile_append2 list_all_iff) (cases core; simp)
  moreover have "dropWhile py_isspace (rev suf @ rev core) = dropWhile py_isspace (rev core)"
    using assms(2) by (intro dropWhile_append2) (simp add: list_all_iff)
  moreover have "dropWhile py_isspace (rev core) = rev core"
    using assms(3) False by (cases "rev core") (auto simp: list_all_iff dest: arg_cong [where f = set])
  ultimately show ?thesis by (simp add: py_strip_def)
qed

lemma py_strip_upper: "py_strip (py_upper s) = py_upper (py_strip s)"
  by (simp add: py_strip_def py_upper_def dropWhile_map rev_map comp_def py_isspace_upper)

subsection \<open>Printing and parsing integers\<close>

text \<open>
  \<open>int(str(n)) == n\<close>: the decimal rendering of every integer is read back by
  \<open>py_int\<close> as that integer.
\<close>

lemma digit_char_not_underscore: "(d :: nat) < 10 \<Longrightarrow> char_of (48 + d) \<noteq> CHR ''_''"
  by (simp add: char_of_eq_iff take_bit_eq_mod)

lemma nat_digits_isdigit: "c \<in> set (nat_digits n) \<Longrightarrow> py_isdigit c"
proof (induction n rule: nat_digits.induct)
  case (1 n)
  then show ?case
    by (auto simp: nat_digits.simps [of n] py_isdigit_def split: if_splits)
qed

lemma nat_digits_not_Nil: "nat_digits n \<noteq> []"
  by (simp add: nat_digits.simps [of n])

lemma isdigit_not_underscore: "py_isdigit c \<Longrightarrow> c \<noteq> CHR ''_''"
  by (auto simp: py_isdigit_def)

lemma digits_ok_all_digits:
  "xs \<noteq> [] \<Longrightarrow> \<forall>c \<in> set xs. py_isdigit c \<Longrightarrow> digits_ok xs"
  by (induction xs rule: digits_ok.induct) (auto dest: isdigit_not_underscore)

lemma digits_value_snoc:
  "digits_value acc (xs @ [c]) =
     (if c = CHR ''_'' then digits_value acc xs else 10 * digits_value acc xs + digit_val c)"
proof (cases "c = CHR ''_''")
  case True
  then show ?thesis by (induction xs arbitrary: acc) simp_all
next
  case False
  then show ?thesis by (induction xs arbitrary: acc) simp_all
qed

lemma digits_value_nat_digits: "digits_value 0 (nat_digits n) = n"
proof (induction n rule: nat_digits.induct)
  case (1 n)
  show ?case
  proof (cases "n < 10")
    case True
    then show ?thesis by (simp add: nat_digits.simps [of n] digit_val_def digit_char_not_underscore)
  next
    case False
    have "char_of (48 + n mod 10) \<noteq> CHR ''_''"
      by (simp add: digit_char_not_underscore)
    with False "1.IH" show ?thesis
      by (simp add: nat_digits.simps [of n] digits_value_snoc digit_val_def)
  qed
qed

lemma py_strip_no_space:
  assumes "\<forall>c \<in> set s. \<not> py_isspace c"
  shows "py_strip s = s"
proof -
  from assms have "dropWhile py_isspace s = s" by (intro dropWhile_id) simp
  moreover from assms have "dropWhile py_isspace (rev s) = rev s" by (intro dropWhile_id) simp
  ultimately show ?thesis by (simp add: py_strip_def)
qed

lemma isdigit_not_space: "py_isdigit c \<Longrightarrow> \<not> py_isspace c"
  by (auto simp: py_isdigit_def py_isspace_def)

lemma py_int_unsigned_nat_digits: "py_int_unsigned (nat_digits n) = Some (int n)"
  using nat_digits_not_Nil nat_digits_isdigit
  by (simp add: py_int_unsigned_def digits_ok_all_digits digits_value_nat_digits)

lemma py_int_nat_digits_shape:
  "\<exists>c ds. nat_digits n = c # ds \<and> c \<noteq> CHR ''-'' \<and> c \<noteq> CHR ''+''"
proof -
  obtain c ds where cd: "nat_digits n = c # ds" using nat_digits_not_Nil by (cases "nat_digits n") auto
  then have "py_isdigit c" using nat_digits_isdigit by (metis list.set_intros(1))
  then have "c \<noteq> CHR ''-'' \<and> c \<noteq> CHR ''+''" by (auto simp: py_isdigit_def)
  with cd show ?thesis by blast
qed

text \<open>
  Printing a Python integer in decimal and reading it back with
  \<open>int()\<close> gives the integer again.
\<close>

theorem py_int_py_str_int: "py_int (py_str_int i) = Some i"
proof -
  have strip: "py_strip (py_str_int i) = py_str_int i"
    using nat_digits_isdigit isdigit_not_space
    by (intro py_strip_no_space) (auto simp: py_str_int_def py_isspace_def)
  show ?thesis
  proof (cases "i < 0")
    case True
    then have "py_str_int i = CHR ''-'' # nat_digits (nat (- i))"
      by (simp add: py_str_int_def)
    with True strip show ?thesis
      using py_int_unsigned_nat_digits [of "nat (- i)"] by (simp add: py_int_def)
  next
    case False
    then have s: "py_str_int i = nat_digits (nat i)"
      by (simp add: py_str_int_def)
    obtain c ds where cd: "nat_digits (nat i) = c # ds" "c \<noteq> CHR ''-''" "c \<noteq> CHR ''+''"
      using py_int_nat_digits_shape by blast
    from False strip s cd show ?thesis
      using py_int_unsigned_nat_digits [of "nat i"] by (simp add: py_int_def)
  qed
qed

end
