(* ===== verification/Config.thy ===== *)
theory Config
  imports PyStr "HOL-Library.Sublist"
begin

text \<open>
  The configuration part of \<open>src/load_csv_to_mysql.py\<close> (lines 42--105): the
  parsed arguments, the normalisation and validation of the delete mode, and the
  credential resolver that fills unset connection fields from a Secrets Manager
  bundle and then insists that user, password, host and database name are set.
  The fetch of the secret itself is I/O and lives in \<open>Script\<close>; here the merge is
  the pure function of (explicit fields, bundle) that it performs.
\<close>

subsection \<open>Arguments\<close>

text \<open>
  \<open>vars(arg_parser.parse_args())\<close> (lines 42--65): one field per option the script
  reads; options that are not given are \<open>None\<close> or their default. The five options
  that Glue passes (lines 58--62) are never read, but they are part of the dictionary
  that line 66 logs, so they have fields too (argparse turns \<open>-\<close> into \<open>_\<close>).
\<close>

record args =
  s3_object :: string
  db_host :: "string option"
  db_port :: "int option"
  db_name :: "string option"
  db_user :: "string option"
  db_password :: "string option"
  db_secret_arn :: "string option"
  table_name :: string
  drop_table :: bool
  delete_rows :: bool
  delete_mode :: string
  chunk_size :: int
  ssl_ca_url :: string
  extra_py_files :: "string option"
  scriptLocation :: "string option"
  job_bookmark_option :: "string option"
  job_language :: "string option"
  connection_names :: "string option"

definition default_args :: "string \<Rightarrow> string \<Rightarrow> args" where
  "default_args obj tbl =
     \<lparr>s3_object = obj, db_host = None, db_port = None, db_name = None, db_user = None,
      db_password = None, db_secret_arn = None, table_name = tbl, drop_table = False,
      delete_rows = False, delete_mode = ''TRUNCATE'', chunk_size = 10000,
      ssl_ca_url = ''https://s3.amazonaws.com/rds-downloads/rds-combined-ca-bundle.pem'',
      extra_py_files = None, scriptLocation = None, job_bookmark_option = None, job_language = None,
      connection_names = None\<rparr>"

text \<open>
  The values of \<open>vars(args)\<close> as Python objects, and the dictionary itself in the
  order argparse fills it (the order of the \<open>add_argument\<close> calls). Line 66 logs it
  without the \<open>db_password\<close> entry.
\<close>

datatype pyval = PStr string | PInt int | PBool bool | PNone

definition py_opt_str :: "string option \<Rightarrow> pyval" where
  "py_opt_str v = (case v of None \<Rightarrow> PNone | Some s \<Rightarrow> PStr s)"

definition args_dict :: "args \<Rightarrow> (string \<times> pyval) list" where
  "args_dict a =
     [(''s3_object'', PStr (s3_object a)), (''db_host'', py_opt_str (db_host a)),
      (''db_port'', case db_port a of None \<Rightarrow> PNone | Some p \<Rightarrow> PInt p),
      (''db_name'', py_opt_str (db_name a)), (''db_user'', py_opt_str (db_user a)),
      (''db_password'', py_opt_str (db_password a)), (''db_secret_arn'', py_opt_str (db_secret_arn a)),
      (''table_name'', PStr (table_name a)), (''drop_table'', PBool (drop_table a)),
      (''delete_rows'', PBool (delete_rows a)), (''delete_mode'', PStr (delete_mode a)),
      (''chunk_size'', PInt (chunk_size a)), (''ssl_ca_url'', PStr (ssl_ca_url a)),
      (''extra_py_files'', py_opt_str (extra_py_files a)), (''scriptLocation'', py_opt_str (scriptLocation a)),
      (''job_bookmark_option'', py_opt_str (job_bookmark_option a)), (''job_language'', py_opt_str (job_language a)),
      (''connection_names'', py_opt_str (connection_names a))]"

definition logged_args :: "args \<Rightarrow> (string \<times> pyval) list" where
  "logged_args a = filter (\<lambda>(i, _). i \<notin> set [''db_password'']) (args_dict a)"

subsection \<open>Delete mode (lines 78--79)\<close>

definition normalize_delete_mode :: "string \<Rightarrow> string" where
  "normalize_delete_mode m = py_upper (py_strip m)"

definition valid_delete_mode :: "string \<Rightarrow> bool" where
  "valid_delete_mode m \<longleftrightarrow> m = ''TRUNCATE'' \<or> m = ''DELETE''"

definition check_delete_mode :: "string \<Rightarrow> string res" where
  "check_delete_mode raw =
     (let m = normalize_delete_mode raw in
      if valid_delete_mode m then Inr m
      else Inl (ArgError (m @ '' is not a valid delete mode'')))"

subsection \<open>Connection parameters\<close>

text \<open>
  The five module globals \<open>DB_HOST\<close>, \<open>DB_PORT\<close>, \<open>DB_NAME\<close>, \<open>DB_USER\<close>,
  \<open>DB_PASSWORD\<close> (lines 69--73), \<open>None\<close> when unset.
\<close>

record creds =
  c_host :: "string option"
  c_port :: "int option"
  c_name :: "string option"
  c_user :: "string option"
  c_password :: "string option"

definition creds_of_args :: "args \<Rightarrow> creds" where
  "creds_of_args a =
     \<lparr>c_host = db_host a, c_port = db_port a, c_name = db_name a,
      c_user = db_user a, c_password = db_password a\<rparr>"

text \<open>
  The configuration the rest of the script reads (lines 68--81): the arguments with
  the delete mode normalised.
\<close>

record config =
  cfg_object :: string
  cfg_creds :: creds
  cfg_arn :: "string option"
  cfg_table :: string
  cfg_drop :: bool
  cfg_delete :: bool
  cfg_mode :: string
  cfg_chunk :: int
  cfg_ssl_ca :: string

definition load_config :: "args \<Rightarrow> config res" where
  "load_config a =
     bind_res (check_delete_mode (delete_mode a)) (\<lambda>m.
       Inr \<lparr>cfg_object = s3_object a, cfg_creds = creds_of_args a, cfg_arn = db_secret_arn a,
            cfg_table = table_name a, cfg_drop = drop_table a, cfg_delete = delete_rows a,
            cfg_mode = m, cfg_chunk = chunk_size a, cfg_ssl_ca = ssl_ca_url a\<rparr>)"

subsection \<open>The secret bundle (lines 95--100)\<close>

text \<open>
  \<open>json.loads\<close> of the secret string: a JSON object whose values the script reads
  as strings; JSON \<open>null\<close> becomes Python \<open>None\<close>. Other JSON values are not
  modelled.
\<close>

datatype jval = JStr string | JNull

type_synonym secret_bundle = "string \<rightharpoonup> jval"

definition py_of_jval :: "jval \<Rightarrow> string option" where
  "py_of_jval v = (case v of JStr s \<Rightarrow> Some s | JNull \<Rightarrow> None)"

text \<open>\<open>db_credentials[key]\<close>: \<open>KeyError\<close> when the key is absent.\<close>

definition secret_get :: "secret_bundle \<Rightarrow> string \<Rightarrow> string option res" where
  "secret_get b k = (case b k of None \<Rightarrow> Inl (KeyError k) | Some v \<Rightarrow> Inr (py_of_jval v))"

text \<open>\<open>if X is None: X = db_credentials[key]\<close>\<close>

definition fill_field :: "string option \<Rightarrow> secret_bundle \<Rightarrow> string \<Rightarrow> string option res" where
  "fill_field x b k = (case x of None \<Rightarrow> secret_get b k | Some v \<Rightarrow> Inr (Some v))"

text \<open>
  Line 100, \<open>if DB_PORT is None: int(db_credentials.get('port', 0))\<close>: the value is
  converted and then discarded, so the only effect is the exception that \<open>int\<close>
  may raise.
\<close>

definition port_probe :: "int option \<Rightarrow> secret_bundle \<Rightarrow> unit res" where
  "port_probe p b =
     (case p of
        Some _ \<Rightarrow> Inr ()
      | None \<Rightarrow>
          (case b ''port'' of
             None \<Rightarrow> Inr ()
           | Some JNull \<Rightarrow> Inl (TypeError ''int() argument must be a string, not NoneType'')
           | Some (JStr s) \<Rightarrow>
               (case py_int s of
                  Some _ \<Rightarrow> Inr ()
                | None \<Rightarrow> Inl (ValueError ''invalid literal for int() with base 10''))))"

definition merge_secret :: "creds \<Rightarrow> secret_bundle \<Rightarrow> creds res" where
  "merge_secret c b =
     bind_res (fill_field (c_user c) b ''username'') (\<lambda>u.
     bind_res (fill_field (c_password c) b ''password'') (\<lambda>pw.
     bind_res (fill_field (c_host c) b ''host'') (\<lambda>h.
     bind_res (fill_field (c_name c) b ''dbname'') (\<lambda>n.
     bind_res (port_probe (c_port c) b) (\<lambda>_.
       Inr (c\<lparr>c_user := u, c_password := pw, c_host := h, c_name := n\<rparr>))))))"

subsection \<open>Required fields (lines 102--105)\<close>

text \<open>
  The messages are the Python literals as the interpreter joins them: the doubled
  quotes of the source end one literal and start the next, so no quote survives.
\<close>

definition msg_user :: string where
  "msg_user = ''Database username must be specified either in --db_user argument or as username in secrets manager secret.''"

definition msg_password :: string where
  "msg_password = ''Database password must be specified either in --db_password argument or as password in secrets manager secret.''"

definition msg_host :: string where
  "msg_host = ''Database hostname must be specified either in --db_host argument or as host in secrets manager secret.''"

definition msg_name :: string where
  "msg_name = ''Database hostname must be specified either in --db_name argument or as dbname in secrets manager secret.''"

definition require_creds :: "creds \<Rightarrow> creds res" where
  "require_creds c =
     (if c_user c = None then Inl (ArgError msg_user)
      else if c_password c = None then Inl (ArgError msg_password)
      else if c_host c = None then Inl (ArgError msg_host)
      else if c_name c = None then Inl (ArgError msg_name)
      else Inr c)"

definition resolve_creds :: "creds \<Rightarrow> secret_bundle option \<Rightarrow> creds res" where
  "resolve_creds c ob =
     bind_res (case ob of None \<Rightarrow> Inr c | Some b \<Rightarrow> merge_secret c b) require_creds"

subsection \<open>The resolver's contract\<close>

text \<open>
  What the resolver promises (spec 4.1): every connection field is the explicit
  argument when one is given and the bundle's value otherwise. \<open>first_set\<close> is
  that precedence; \<open>spec_resolve\<close> applies it to all five fields, the port
  included, whose bundle value is the integer \<open>int()\<close> reads.
\<close>

definition first_set :: "'a option \<Rightarrow> 'a option \<Rightarrow> 'a option" where
  "first_set x y = (case x of Some v \<Rightarrow> Some v | None \<Rightarrow> y)"

definition bundle_field :: "secret_bundle \<Rightarrow> string \<Rightarrow> string option" where
  "bundle_field b k = (case b k of Some v \<Rightarrow> py_of_jval v | None \<Rightarrow> None)"

definition bundle_port :: "secret_bundle \<Rightarrow> int option" where
  "bundle_port b = (case b ''port'' of Some (JStr s) \<Rightarrow> py_int s | _ \<Rightarrow> None)"

definition spec_resolve :: "creds \<Rightarrow> secret_bundle \<Rightarrow> creds" where
  "spec_resolve c b =
     \<lparr>c_host = first_set (c_host c) (bundle_field b ''host''),
      c_port = first_set (c_port c) (bundle_port b),
      c_name = first_set (c_name c) (bundle_field b ''dbname''),
      c_user = first_set (c_user c) (bundle_field b ''username''),
      c_password = first_set (c_password c) (bundle_field b ''password'')\<rparr>"

subsection \<open>Lemmas\<close>

lemma fill_field_Inr:
  "fill_field x b k = Inr y \<longleftrightarrow> y = first_set x (bundle_field b k) \<and> (x = None \<longrightarrow> k \<in> dom b)"
  by (auto simp: fill_field_def secret_get_def first_set_def bundle_field_def split: option.splits)

lemma fill_field_Inl:
  "fill_field x b k = Inl e \<longleftrightarrow> x = None \<and> b k = None \<and> e = KeyError k"
  by (auto simp: fill_field_def secret_get_def split: option.splits)

lemma port_probe_Inr_iff:
  "port_probe p b = Inr u \<longleftrightarrow>
     p \<noteq> None \<or> b ''port'' = None \<or> (\<exists>s. b ''port'' = Some (JStr s) \<and> py_int s \<noteq> None)"
  by (auto simp: port_probe_def split: option.splits jval.splits)

lemmas merge_simps = merge_secret_def bind_res_eq_Inr fill_field_Inr

lemma normalize_delete_mode_idem:
  "normalize_delete_mode (normalize_delete_mode m) = normalize_delete_mode m"
  by (simp add: normalize_delete_mode_def py_strip_upper py_strip_idem py_upper_idem)

lemmas str_eval =
  normalize_delete_mode_def py_upper_def py_strip_def py_isspace_def py_upper_char_def
  char_of_eq_iff valid_delete_mode_def

text \<open>
  C21. Where the merge succeeds, user, password, host and database
  name are exactly what the resolver's contract gives: the explicit argument when
  there is one, the bundle's value otherwise. The port is the one field where the
  code departs from the contract (next claim).
\<close>

theorem merge_secret_refines:
  assumes "merge_secret c b = Inr c'"
  shows "c' = (spec_resolve c b)\<lparr>c_port := c_port c\<rparr>"
  using assms by (auto simp: merge_simps spec_resolve_def)

theorem merge_secret_refines_witness:
  "merge_secret \<lparr>c_host = None, c_port = None, c_name = None, c_user = Some ''etl'', c_password = None\<rparr>
     [''username'' \<mapsto> JStr ''admin'', ''password'' \<mapsto> JStr ''pw'', ''host'' \<mapsto> JStr ''db.example.com'',
      ''dbname'' \<mapsto> JStr ''sales'']
   = Inr ((spec_resolve \<lparr>c_host = None, c_port = None, c_name = None, c_user = Some ''etl'', c_password = None\<rparr>
     [''username'' \<mapsto> JStr ''admin'', ''password'' \<mapsto> JStr ''pw'', ''host'' \<mapsto> JStr ''db.example.com'',
      ''dbname'' \<mapsto> JStr ''sales''])\<lparr>c_port := None\<rparr>)
   \<and> c_user (spec_resolve \<lparr>c_host = None, c_port = None, c_name = None, c_user = Some ''etl'', c_password = None\<rparr>
     [''username'' \<mapsto> JStr ''admin'', ''password'' \<mapsto> JStr ''pw'', ''host'' \<mapsto> JStr ''db.example.com'',
      ''dbname'' \<mapsto> JStr ''sales'']) = Some ''etl''"
proof -
  let ?c = "\<lparr>c_host = None, c_port = None, c_name = None, c_user = Some ''etl'', c_password = None\<rparr>"
  let ?b = "[''username'' \<mapsto> JStr ''admin'', ''password'' \<mapsto> JStr ''pw'', ''host'' \<mapsto> JStr ''db.example.com'',
      ''dbname'' \<mapsto> JStr ''sales'']"
  have h: "merge_secret ?c ?b = Inr \<lparr>c_host = Some ''db.example.com'', c_port = None, c_name = Some ''sales'',
                                      c_user = Some ''etl'', c_password = Some ''pw''\<rparr>"
    by (simp add: merge_secret_def fill_field_def secret_get_def py_of_jval_def port_probe_def)
  show ?thesis
    using merge_secret_refines [OF h] h by (simp add: spec_resolve_def first_set_def)
qed

lemma merge_secret_port_name:
  assumes "merge_secret c b = Inr c'"
  shows "c_port c' = c_port c \<and> c_name c' = first_set (c_name c) (bundle_field b ''dbname'')"
  using assms by (auto simp: merge_simps)

text \<open>
  C25. The merge succeeds exactly when every field left unset by
  the arguments has its key in the bundle and, when no port was given, the bundle's
  port is absent or a string \<open>int()\<close> accepts.
\<close>

theorem merge_secret_succeeds:
  "(\<exists>c'. merge_secret c b = Inr c') \<longleftrightarrow>
     (c_user c = None \<longrightarrow> ''username'' \<in> dom b) \<and>
     (c_password c = None \<longrightarrow> ''password'' \<in> dom b) \<and>
     (c_host c = None \<longrightarrow> ''host'' \<in> dom b) \<and>
     (c_name c = None \<longrightarrow> ''dbname'' \<in> dom b) \<and>
     port_probe (c_port c) b = Inr ()"
  by (auto simp: merge_simps)

theorem merge_secret_succeeds_witness:
  "(\<exists>c'. merge_secret \<lparr>c_host = Some ''h'', c_port = Some 3306, c_name = Some ''d'', c_user = None, c_password = None\<rparr>
          [''username'' \<mapsto> JStr ''u'', ''password'' \<mapsto> JNull]
        = Inr c')"
  using merge_secret_succeeds [of "\<lparr>c_host = Some ''h'', c_port = Some 3306, c_name = Some ''d'', c_user = None, c_password = None\<rparr>"
                                  "[''username'' \<mapsto> JStr ''u'', ''password'' \<mapsto> JNull]"]
  by (simp add: port_probe_def)

text \<open>
  C26. When the user is neither an argument nor a key of the
  bundle, the merge stops with Python's \<open>KeyError('username')\<close> from line 96,
  not with the configuration error of line 102 that names both sources.
\<close>

theorem merge_secret_missing_user:
  "c_user c = None \<Longrightarrow> b ''username'' = None \<Longrightarrow> merge_secret c b = Inl (KeyError ''username'')"
  by (simp add: merge_secret_def fill_field_def secret_get_def)

theorem merge_secret_missing_user_witness:
  "merge_secret \<lparr>c_host = None, c_port = None, c_name = None, c_user = None, c_password = None\<rparr>
     [''user'' \<mapsto> JStr ''admin''] = Inl (KeyError ''username'')"
  by (rule merge_secret_missing_user) simp_all

text \<open>
  C27. The required-field check passes a parameter set through
  unchanged exactly when user, password, host and database name are all set.
\<close>

theorem require_creds_Inr:
  "require_creds c = Inr c' \<longleftrightarrow>
     c' = c \<and> c_user c \<noteq> None \<and> c_password c \<noteq> None \<and> c_host c \<noteq> None \<and> c_name c \<noteq> None"
  by (auto simp: require_creds_def)

text \<open>
  C28. When only the database name is missing, the
  error of line 105 begins "Database hostname", the wording of line 104, and never
  mentions the database name as the missing field.
\<close>

theorem require_creds_name_says_hostname:
  assumes "c_user c \<noteq> None" "c_password c \<noteq> None" "c_host c \<noteq> None" "c_name c = None"
  shows "\<exists>m. require_creds c = Inl (ArgError m) \<and> prefix ''Database hostname'' m \<and>
             \<not> prefix ''Database name'' m"
  by (simp add: assms require_creds_def msg_name_def)

theorem require_creds_name_says_hostname_witness:
  "\<exists>m. require_creds \<lparr>c_host = Some ''h'', c_port = None, c_name = None, c_user = Some ''u'', c_password = Some ''p''\<rparr>
        = Inl (ArgError m) \<and> prefix ''Database hostname'' m \<and> \<not> prefix ''Database name'' m"
  by (rule require_creds_name_says_hostname) simp_all

lemma upper_mode_no_space:
  "py_upper core = ''TRUNCATE'' \<or> py_upper core = ''DELETE'' \<Longrightarrow> list_all (\<lambda>c. \<not> py_isspace c) core"
proof -
  assume m: "py_upper core = ''TRUNCATE'' \<or> py_upper core = ''DELETE''"
  have "list_all (\<lambda>c. \<not> py_isspace c) (py_upper core)"
    using m by (auto simp: py_isspace_def)
  then show ?thesis by (simp add: py_upper_def list_all_iff py_isspace_upper)
qed

text \<open>
  C29. The delete mode is accepted exactly when the raw value is white space, then
  a case variant of \<open>TRUNCATE\<close> or \<open>DELETE\<close>, then white space (line 78
  strips and upper-cases, line 79 tests membership); the accepted value is that
  upper-case word.
\<close>

theorem check_delete_mode_Inr:
  "check_delete_mode raw = Inr m \<longleftrightarrow>
     (m = ''TRUNCATE'' \<or> m = ''DELETE'') \<and>
     (\<exists>pre core suf. raw = pre @ core @ suf \<and> list_all py_isspace pre \<and> list_all py_isspace suf \<and>
        py_upper core = m)"
proof
  assume "check_delete_mode raw = Inr m"
  then have m: "m = py_upper (py_strip raw)" "m = ''TRUNCATE'' \<or> m = ''DELETE''"
    by (auto simp: check_delete_mode_def normalize_delete_mode_def valid_delete_mode_def Let_def split: if_splits)
  obtain pre suf where "raw = pre @ py_strip raw @ suf" "list_all py_isspace pre" "list_all py_isspace suf"
    using py_strip_decomp by blast
  with m show "(m = ''TRUNCATE'' \<or> m = ''DELETE'') \<and>
     (\<exists>pre core suf. raw = pre @ core @ suf \<and> list_all py_isspace pre \<and> list_all py_isspace suf \<and>
        py_upper core = m)" by blast
next
  assume "(m = ''TRUNCATE'' \<or> m = ''DELETE'') \<and>
     (\<exists>pre core suf. raw = pre @ core @ suf \<and> list_all py_isspace pre \<and> list_all py_isspace suf \<and>
        py_upper core = m)"
  then obtain pre core suf where m: "m = ''TRUNCATE'' \<or> m = ''DELETE''" and raw: "raw = pre @ core @ suf"
    and sp: "list_all py_isspace pre" "list_all py_isspace suf" and up: "py_upper core = m" by blast
  have "py_strip raw = core" using raw py_strip_pad [OF sp upper_mode_no_space] m up by simp
  with m up show "check_delete_mode raw = Inr m"
    by (simp add: check_delete_mode_def normalize_delete_mode_def valid_delete_mode_def)
qed

theorem check_delete_mode_Inr_witness:
  "check_delete_mode '' delete\<newline>'' = Inr ''DELETE''"
proof -
  have "'' delete\<newline>'' = '' '' @ ''delete'' @ ''\<newline>'' \<and> list_all py_isspace '' '' \<and>
        list_all py_isspace ''\<newline>'' \<and> py_upper ''delete'' = ''DELETE''"
    by (simp add: py_isspace_def py_upper_def py_upper_char_def char_of_eq_iff)
  then show ?thesis using check_delete_mode_Inr [of "'' delete\<newline>''" "''DELETE''"] by blast
qed

end
