(* ===== verification/Database.thy ===== *)
theory Database
  imports Dtypes Config
begin

text \<open>
  The MySQL side of \<open>src/load_csv_to_mysql.py\<close>: one pymysql connection (line 108),
  opened with pymysql's default \<open>autocommit=False\<close>, so every statement runs in an
  open transaction. The server keeps the \<open>committed\<close> tables; the connection sees
  its \<open>work\<close>ing view, which is \<open>committed\<close> plus its uncommitted changes. A DDL
  statement (DROP, TRUNCATE, CREATE) commits implicitly; DML (DELETE, INSERT) stays
  pending until COMMIT; closing the connection (line 168) discards what is pending.
  Tables are keyed by (database, table name); a table has typed columns and rows.

  The script's own statements are \<open>table_exists\<close> (lines 122--128) and the
  pre-load disposition \<open>prepare_table\<close> (lines 130--145); \<open>count_rows\<close> and
  \<open>close_conn\<close> are lines 164--168. \<open>to_sql\<close> is awswrangler's
  \<open>wr.mysql.to_sql(mode="append")\<close> (line 153), modelled from its contract in spec
  4.3: refuse an empty frame, create the table from the frame's converted dtypes if
  it is absent, insert the rows positionally, commit, and on any error roll back and
  re-raise. MySQL in strict mode refuses a non-numeric string for a numeric column
  (\<open>storable\<close>) and a row whose width differs from the table's. The flag
  \<open>fail\<close> of \<open>insert_st\<close> stands for a server error the model does not
  otherwise explain (a lost connection), so that every database failure of spec 4.3 is
  a branch of the model.

  Every effect of the program is an \<open>event\<close> appended to the \<open>trace\<close> of the
  \<open>world\<close>: the statements sent, the log lines, the fetches. The lemmas give the
  effect of each operation on the tables on every branch, the order of the
  statements, and what stays committed when an insert fails.
\<close>


record table =
  tbl_cols :: "(string \<times> coltype) list"
  tbl_rows :: "cell list list"

type_synonym tables = "string \<times> string \<rightharpoonup> table"

record db =
  committed :: tables
  work :: tables

datatype stmt =
    SelectExists string string
  | DropIfExists string string
  | Truncate string string
  | DeleteFrom string string
  | TableCheck string string
  | CreateTable string string "(string \<times> coltype) list"
  | InsertRows string string "cell list list"
  | SelectCount string string
  | Commit
  | Rollback

datatype qresult = QNone | QExists bool | QCount nat

definition no_table :: py_exc where
  "no_table = DbError ''1146 table does not exist''"

definition bad_value :: py_exc where
  "bad_value = DbError ''1366 incorrect value for column''"

definition bad_count :: py_exc where
  "bad_count = DbError ''1136 column count does not match value count''"

definition ddl :: "(tables \<Rightarrow> tables) \<Rightarrow> db \<Rightarrow> db" where
  "ddl f d = \<lparr>committed = f (work d), work = f (work d)\<rparr>"

definition dml :: "(tables \<Rightarrow> tables) \<Rightarrow> db \<Rightarrow> db" where
  "dml f d = d\<lparr>work := f (work d)\<rparr>"

definition storable :: "cell \<Rightarrow> coltype \<Rightarrow> bool" where
  "storable c t \<longleftrightarrow> (case c of CStr _ \<Rightarrow> t = TString | _ \<Rightarrow> True)"

definition rows_fit :: "(string \<times> coltype) list \<Rightarrow> cell list list \<Rightarrow> bool" where
  "rows_fit cols rs \<longleftrightarrow> list_all (\<lambda>r. length r = length cols) rs"

definition rows_storable :: "(string \<times> coltype) list \<Rightarrow> cell list list \<Rightarrow> bool" where
  "rows_storable cols rs \<longleftrightarrow> list_all (\<lambda>r. list_all (\<lambda>(c, (_, t)). storable c t) (zip r cols)) rs"

fun exec_stmt :: "stmt \<Rightarrow> db \<Rightarrow> qresult res \<times> db" where
  "exec_stmt (SelectExists d t) s = (Inr (QExists (work s (d, t) \<noteq> None)), s)"
| "exec_stmt (TableCheck d t) s = (Inr (QExists (work s (d, t) \<noteq> None)), s)"
| "exec_stmt (DropIfExists d t) s = (Inr QNone, ddl (\<lambda>ts. ts((d, t) := None)) s)"
| "exec_stmt (Truncate d t) s =
     (case work s (d, t) of
        None \<Rightarrow> (Inl no_table, ddl id s)
      | Some tb \<Rightarrow> (Inr QNone, ddl (\<lambda>ts. ts((d, t) \<mapsto> tb\<lparr>tbl_rows := []\<rparr>)) s))"
| "exec_stmt (DeleteFrom d t) s =
     (case work s (d, t) of
        None \<Rightarrow> (Inl no_table, s)
      | Some tb \<Rightarrow> (Inr QNone, dml (\<lambda>ts. ts((d, t) \<mapsto> tb\<lparr>tbl_rows := []\<rparr>)) s))"
| "exec_stmt (CreateTable d t cols) s =
     (Inr QNone,
      ddl (\<lambda>ts. case ts (d, t) of
                  None \<Rightarrow> ts((d, t) \<mapsto> \<lparr>tbl_cols = cols, tbl_rows = []\<rparr>)
                | Some _ \<Rightarrow> ts) s)"
| "exec_stmt (InsertRows d t rs) s =
     (case work s (d, t) of
        None \<Rightarrow> (Inl no_table, s)
      | Some tb \<Rightarrow>
          if \<not> rows_fit (tbl_cols tb) rs then (Inl bad_count, s)
          else if \<not> rows_storable (tbl_cols tb) rs then (Inl bad_value, s)
          else (Inr QNone, dml (\<lambda>ts. ts((d, t) \<mapsto> tb\<lparr>tbl_rows := tbl_rows tb @ rs\<rparr>)) s))"
| "exec_stmt (SelectCount d t) s =
     (case work s (d, t) of
        None \<Rightarrow> (Inl no_table, s)
      | Some tb \<Rightarrow> (Inr (QCount (length (tbl_rows tb))), s))"
| "exec_stmt Commit s = (Inr QNone, s\<lparr>committed := work s\<rparr>)"
| "exec_stmt Rollback s = (Inr QNone, s\<lparr>work := committed s\<rparr>)"

definition close_db :: "db \<Rightarrow> db" where
  "close_db s = s\<lparr>work := committed s\<rparr>"

datatype logmsg =
    LogArgs "(string \<times> pyval) list"
  | LogGetCA
  | LogCAError
  | LogFetchSecret string
  | LogRetrievedSecret
  | LogDrop string string
  | LogTruncate string string
  | LogDelete string string
  | LogSkipDelete
  | LogInserting nat
  | LogDbCount nat
  | LogCsvCount nat
  | LogFinished

datatype event =
    Sql stmt
  | Log logmsg
  | FetchCA string
  | FetchSecret string
  | Connect string int string string string
  | ReadChunk nat
  | CloseConn

record world =
  wdb :: db
  trace :: "event list"

definition emit :: "event \<Rightarrow> (unit, world) st" where
  "emit e w = (Inr (), w\<lparr>trace := trace w @ [e]\<rparr>)"

definition sql :: "stmt \<Rightarrow> (qresult, world) st" where
  "sql s w = (case exec_stmt s (wdb w) of (r, d) \<Rightarrow> (r, w\<lparr>wdb := d, trace := trace w @ [Sql s]\<rparr>))"

definition table_exists :: "string \<Rightarrow> string \<Rightarrow> (bool, world) st" where
  "table_exists tbl dbn =
     bind_st (sql (SelectExists dbn tbl)) (\<lambda>q. return_st (q = QExists True))"

definition prepare_table :: "bool \<Rightarrow> bool \<Rightarrow> string \<Rightarrow> string \<Rightarrow> string \<Rightarrow> (unit, world) st" where
  "prepare_table drop_tbl del_rows mode dbn tbl =
     (if drop_tbl then
        bind_st (emit (Log (LogDrop dbn tbl))) (\<lambda>_.
        bind_st (sql (DropIfExists dbn tbl)) (\<lambda>_. return_st ()))
      else if del_rows then
        bind_st (table_exists tbl dbn) (\<lambda>ex.
          if ex then
            (if normalize_delete_mode mode = ''TRUNCATE'' then
               bind_st (emit (Log (LogTruncate dbn tbl))) (\<lambda>_.
               bind_st (sql (Truncate dbn tbl)) (\<lambda>_. return_st ()))
             else
               bind_st (emit (Log (LogDelete dbn tbl))) (\<lambda>_.
               bind_st (sql (DeleteFrom dbn tbl)) (\<lambda>_. return_st ())))
          else emit (Log LogSkipDelete))
      else return_st ())"

definition frame_rows :: "frame \<Rightarrow> cell list list" where
  "frame_rows f = map (\<lambda>r. map (cell_at r) [0..<length (header f)]) (rows f)"

definition insert_st :: "bool \<Rightarrow> string \<Rightarrow> string \<Rightarrow> cell list list \<Rightarrow> (qresult, world) st" where
  "insert_st fail dbn tbl rs w =
     (if fail then (Inl (DbError ''2013 lost connection during query''),
                    w\<lparr>trace := trace w @ [Sql (InsertRows dbn tbl rs)]\<rparr>)
      else sql (InsertRows dbn tbl rs) w)"

definition rollback_on_error :: "('a, world) st \<Rightarrow> ('a, world) st" where
  "rollback_on_error m w =
     (case m w of
        (Inl e, w') \<Rightarrow> bind_st (sql Rollback) (\<lambda>_. raise_st e) w'
      | r \<Rightarrow> r)"

definition to_sql :: "bool \<Rightarrow> frame \<Rightarrow> string \<Rightarrow> string \<Rightarrow> (unit, world) st" where
  "to_sql fail f tbl dbn =
     (if rows f = [] then raise_st EmptyDataFrame
      else rollback_on_error
        (bind_st (sql (TableCheck dbn tbl)) (\<lambda>q.
         bind_st (if q = QExists True then return_st QNone
                  else sql (CreateTable dbn tbl (convert_dtypes f))) (\<lambda>_.
         bind_st (insert_st fail dbn tbl (frame_rows f)) (\<lambda>_.
         bind_st (sql Commit) (\<lambda>_. return_st ()))))))"

definition count_rows :: "string \<Rightarrow> string \<Rightarrow> (nat, world) st" where
  "count_rows dbn tbl =
     bind_st (sql (SelectCount dbn tbl)) (\<lambda>q.
       return_st (case q of QCount n \<Rightarrow> n | _ \<Rightarrow> 0))"

definition close_conn :: "(unit, world) st" where
  "close_conn w = (Inr (), w\<lparr>wdb := close_db (wdb w), trace := trace w @ [CloseConn]\<rparr>)"

definition start :: "tables \<Rightarrow> world" where
  "start ts = \<lparr>wdb = \<lparr>committed = ts, work = ts\<rparr>, trace = []\<rparr>"

definition tables_after_prepare :: "bool \<Rightarrow> bool \<Rightarrow> string \<Rightarrow> string \<Rightarrow> tables \<Rightarrow> tables" where
  "tables_after_prepare drop_tbl del_rows dbn tbl ts =
     (if drop_tbl then ts((dbn, tbl) := None)
      else if del_rows then
        (case ts (dbn, tbl) of None \<Rightarrow> ts | Some tb \<Rightarrow> ts((dbn, tbl) \<mapsto> tb\<lparr>tbl_rows := []\<rparr>))
      else ts)"

subsection \<open>Lemmas\<close>

lemmas world_simps = emit_def sql_def return_st_def raise_st_def bind_st_def ddl_def dml_def

text \<open>
  C12. \<open>table_exists\<close> (lines 122--128) sends one query and answers
  whether the table is present in the database the connection sees; it changes no
  table.
\<close>

theorem table_exists_spec:
  "table_exists tbl dbn w =
     (Inr (work (wdb w) (dbn, tbl) \<noteq> None), w\<lparr>trace := trace w @ [Sql (SelectExists dbn tbl)]\<rparr>)"
  by (simp add: table_exists_def world_simps)

lemma prepare_table_drop:
  "prepare_table True del_rows mode dbn tbl w =
     (Inr (), w\<lparr>wdb := \<lparr>committed = (work (wdb w))((dbn, tbl) := None), work = (work (wdb w))((dbn, tbl) := None)\<rparr>,
              trace := trace w @ [Log (LogDrop dbn tbl), Sql (DropIfExists dbn tbl)]\<rparr>)"
  by (simp add: prepare_table_def world_simps)

text \<open>
  C5. The disposition of lines 130--145 never raises and leaves the
  tables as follows: with \<open>--drop_table\<close> the table is gone; otherwise with
  \<open>--delete_rows\<close> an existing table keeps its columns and loses its rows and an
  absent one stays absent; with neither flag nothing changes.
\<close>

theorem prepare_table_work:
  "fst (prepare_table drop_tbl del_rows mode dbn tbl w) = Inr () \<and>
   work (wdb (snd (prepare_table drop_tbl del_rows mode dbn tbl w))) =
     tables_after_prepare drop_tbl del_rows dbn tbl (work (wdb w))"
  by (auto simp: prepare_table_def table_exists_def tables_after_prepare_def world_simps
           split: option.splits)

text \<open>
  C11. What the disposition leaves committed: DROP and TRUNCATE
  commit at once, but \<open>DELETE FROM\<close> (mode DELETE) stays pending in the open
  transaction, so the committed tables are those from before.
\<close>

theorem prepare_table_committed:
  "committed (wdb (snd (prepare_table drop_tbl del_rows mode dbn tbl w))) =
     (if drop_tbl \<or> (del_rows \<and> work (wdb w) (dbn, tbl) \<noteq> None \<and> normalize_delete_mode mode = ''TRUNCATE'')
      then tables_after_prepare drop_tbl del_rows dbn tbl (work (wdb w))
      else committed (wdb w))"
  by (auto simp: prepare_table_def table_exists_def tables_after_prepare_def world_simps
           split: option.splits)

lemma rollback_on_error_apply:
  "rollback_on_error m w =
     (case m w of
        (Inl e, w') \<Rightarrow> (Inl e, w'\<lparr>wdb := (wdb w')\<lparr>work := committed (wdb w')\<rparr>, trace := trace w' @ [Sql Rollback]\<rparr>)
      | r \<Rightarrow> r)"
  by (simp add: rollback_on_error_def world_simps split: prod.splits sum.splits)

lemma insert_st_apply:
  "insert_st fail dbn tbl rs w =
     (if fail then (Inl (DbError ''2013 lost connection during query''),
                    w\<lparr>trace := trace w @ [Sql (InsertRows dbn tbl rs)]\<rparr>)
      else sql (InsertRows dbn tbl rs) w)"
  by (simp add: insert_st_def)

lemmas to_sql_simps = to_sql_def rollback_on_error_apply insert_st_apply world_simps

theorem to_sql_no_pending:
  assumes "rows f \<noteq> []" "to_sql fail f tbl dbn w = (r, w')"
  shows "work (wdb w') = committed (wdb w')"
  using assms by (auto simp: to_sql_simps split: option.splits if_splits)

theorem to_sql_append:
  assumes "rows f \<noteq> []" "\<not> fail" "work (wdb w) (dbn, tbl) = Some tb"
    "rows_fit (tbl_cols tb) (frame_rows f)" "rows_storable (tbl_cols tb) (frame_rows f)"
  shows "\<exists>w'. to_sql fail f tbl dbn w = (Inr (), w') \<and>
           committed (wdb w') = (work (wdb w))((dbn, tbl) \<mapsto> tb\<lparr>tbl_rows := tbl_rows tb @ frame_rows f\<rparr>)"
  using assms by (simp add: to_sql_simps)

lemma to_sql_rollback:
  assumes "rows f \<noteq> []" "work (wdb w) (dbn, tbl) \<noteq> None" "to_sql fail f tbl dbn w = (Inl e, w')"
  shows "committed (wdb w') = committed (wdb w)"
  using assms by (auto simp: to_sql_simps split: if_splits)

lemma convert_dtypes_fit: "rows_fit (convert_dtypes f) (frame_rows f)"
  by (simp add: rows_fit_def frame_rows_def list_all_iff)

lemma convert_dtypes_storable: "rows_storable (convert_dtypes f) (frame_rows f)"
  unfolding rows_storable_def list_all_iff
proof (intro ballI)
  fix r p
  assume r: "r \<in> set (frame_rows f)" and p: "p \<in> set (zip r (convert_dtypes f))"
  from r obtain r0 where r0: "r0 \<in> set (rows f)" and req: "r = map (cell_at r0) [0..<length (header f)]"
    by (auto simp: frame_rows_def)
  from p obtain i where i: "i < length (header f)" and pi: "p = (cell_at r0 i, convert_dtypes f ! i)"
    by (auto simp: req in_set_zip)
  have mem: "cell_at r0 i \<in> set (column (rows f) i)"
    using r0 by (auto simp: column_def)
  have "storable (cell_at r0 i) (infer_column (column (rows f) i))"
  proof (cases "cell_at r0 i")
    case (CStr s)
    with mem show ?thesis by (simp add: storable_def infer_column_TString)
  qed (simp_all add: storable_def)
  with i pi show "case p of (c, _, t) \<Rightarrow> storable c t"
    by (simp add: nth_convert_dtypes)
qed

text \<open>
  C6. With \<open>--drop_table\<close> set, whatever
  \<open>--delete_rows\<close> says, the disposition logs and issues the DROP and nothing else:
  no existence check, no TRUNCATE, no DELETE.
\<close>

theorem prepare_table_drop_only:
  assumes "drop_tbl"
  shows "trace (snd (prepare_table drop_tbl del_rows mode dbn tbl w)) =
           trace w @ [Log (LogDrop dbn tbl), Sql (DropIfExists dbn tbl)]"
  using assms by (simp add: prepare_table_drop)

theorem prepare_table_drop_only_witness:
  "trace (snd (prepare_table True True ''TRUNCATE'' ''shop'' ''sales'' (start Map.empty))) =
     [Log (LogDrop ''shop'' ''sales''), Sql (DropIfExists ''shop'' ''sales'')]"
  using prepare_table_drop_only [of True True "''TRUNCATE''" "''shop''" "''sales''" "start Map.empty"]
  by (simp add: start_def)

end
