(* ===== verification/Chunks.thy ===== *)
theory Chunks
  imports Prelude
begin

text \<open>
  \<open>wr.s3.read_csv(path=[S3_OBJECT], chunksize=CHUNK_SIZE)\<close> (line 116) returns a
  lazy iterator of frames of at most \<open>CHUNK_SIZE\<close> rows each, in file order. This is
  awswrangler and pandas, not code of the repository, and is modelled from spec 3 and
  4.3: \<open>chunks k xs\<close> cuts \<open>xs\<close> into consecutive slices of \<open>k\<close> rows, the last
  possibly shorter; \<open>read_chunks\<close> adds pandas' refusal of a chunk size below 1 and
  its one empty frame for a file with a header and no rows (the C parser returns the
  empty first chunk instead of stopping). The
  recursion terminates because every call drops \<open>k > 0\<close> rows (the measure is the
  length of the remaining rows). The lemmas show that the chunks partition the rows in
  order, that each is non-empty and at most \<open>k\<close> long, how many there are and
  which rows each holds.
\<close>

function chunks :: "nat \<Rightarrow> 'a list \<Rightarrow> 'a list list" where
  "chunks k xs = (if k = 0 \<or> xs = [] then [] else take k xs # chunks k (drop k xs))"
  by pat_completeness auto
termination
  by (relation "measure (\<lambda>(k, xs). length xs)") auto

declare chunks.simps [simp del]

definition read_chunks :: "int \<Rightarrow> 'a list \<Rightarrow> 'a list list res" where
  "read_chunks cs rows =
     (if cs < 1 then Inl (ValueError ''chunksize must be an integer >=1'')
      else Inr (if rows = [] then [[]] else chunks (nat cs) rows))"

lemma chunks_Nil [simp]: "chunks k [] = []"
  by (simp add: chunks.simps)

lemma chunks_step:
  "0 < k \<Longrightarrow> xs \<noteq> [] \<Longrightarrow> chunks k xs = take k xs # chunks k (drop k xs)"
  by (simp add: chunks.simps [of k xs])

theorem concat_chunks: "0 < k \<Longrightarrow> concat (chunks k xs) = xs"
proof (induction k xs rule: chunks.induct)
  case (1 k xs)
  show ?case
  proof (cases "xs = []")
    case False
    with "1.prems" "1.IH" show ?thesis by (simp add: chunks_step)
  qed simp
qed

theorem chunks_bounded: "c \<in> set (chunks k xs) \<Longrightarrow> c \<noteq> [] \<and> length c \<le> k"
proof (induction k xs rule: chunks.induct)
  case (1 k xs)
  show ?case
  proof (cases "k = 0 \<or> xs = []")
    case True
    with "1.prems" show ?thesis by (simp add: chunks.simps [of k xs])
  next
    case False
    with "1.prems" "1.IH" show ?thesis by (auto simp: chunks.simps [of k xs])
  qed
qed

theorem length_chunks: "0 < k \<Longrightarrow> length (chunks k xs) = (length xs + (k - 1)) div k"
proof (induction k xs rule: chunks.induct)
  case (1 k xs)
  show ?case
  proof (cases "xs = []")
    case True
    with "1.prems" show ?thesis by simp
  next
    case False
    then have n: "0 < length xs" by simp
    from False "1.prems" "1.IH"
    have rec: "length (chunks k xs) = Suc ((length xs - k + (k - 1)) div k)"
      by (simp add: chunks_step)
    show ?thesis
    proof (cases "length xs \<le> k")
      case True
      have a: "k * 1 \<le> length xs + (k - 1)" using n by linarith
      have "length xs + (k - 1) < k + k" using n True by linarith
      then have b: "length xs + (k - 1) < k * Suc 1" by simp
      have one: "(length xs + (k - 1)) div k = 1" using a b by (rule div_nat_eqI)
      have "length xs - k + (k - 1) < k" using True "1.prems" by linarith
      then have "(length xs - k + (k - 1)) div k = 0" by (rule div_less)
      with rec one show ?thesis by (simp only:)
    next
      case False
      then have "length xs + (k - 1) = (length xs - k + (k - 1)) + k" by linarith
      then have "(length xs + (k - 1)) div k = Suc ((length xs - k + (k - 1)) div k)"
        using "1.prems" by (simp only: div_add_self2 [of k] Suc_eq_plus1)
      with rec show ?thesis by (simp only:)
    qed
  qed
qed

theorem nth_chunks:
  "0 < k \<Longrightarrow> i < length (chunks k xs) \<Longrightarrow> chunks k xs ! i = take k (drop (i * k) xs)"
proof (induction k xs arbitrary: i rule: chunks.induct)
  case (1 k xs)
  then have ne: "xs \<noteq> []" by (auto simp: chunks.simps [of k xs])
  show ?case
  proof (cases i)
    case 0
    with "1.prems" ne show ?thesis by (simp add: chunks_step)
  next
    case (Suc j)
    with "1.prems" ne have "j < length (chunks k (drop k xs))" by (simp add: chunks_step)
    with "1.IH" "1.prems" ne Suc show ?thesis by (simp add: chunks_step drop_drop add.commute)
  qed
qed

lemma chunks_char:
  assumes pos: "0 < k"
  shows "cs = chunks k xs \<longleftrightarrow>
     concat cs = xs \<and> (\<forall>c \<in> set cs. c \<noteq> [] \<and> length c \<le> k) \<and>
     length cs = (length xs + (k - 1)) div k \<and> (\<forall>i < length cs. cs ! i = take k (drop (i * k) xs))"
proof
  assume cs: "cs = chunks k xs"
  then have "\<forall>c \<in> set cs. c \<noteq> [] \<and> length c \<le> k" using chunks_bounded by blast
  with cs pos show "concat cs = xs \<and> (\<forall>c \<in> set cs. c \<noteq> [] \<and> length c \<le> k) \<and>
     length cs = (length xs + (k - 1)) div k \<and> (\<forall>i < length cs. cs ! i = take k (drop (i * k) xs))"
    by (simp add: concat_chunks length_chunks nth_chunks)
next
  assume r: "concat cs = xs \<and> (\<forall>c \<in> set cs. c \<noteq> [] \<and> length c \<le> k) \<and>
     length cs = (length xs + (k - 1)) div k \<and> (\<forall>i < length cs. cs ! i = take k (drop (i * k) xs))"
  show "cs = chunks k xs"
  proof (rule nth_equalityI)
    from r have l: "length cs = (length xs + (k - 1)) div k" by blast
    show len: "length cs = length (chunks k xs)" by (simp only: l length_chunks [OF pos])
    fix i assume "i < length cs"
    with r pos len show "cs ! i = chunks k xs ! i" by (simp add: nth_chunks)
  qed
qed

text \<open>
  C13. The chunked reader of line 116 accepts exactly the chunk sizes of at
  least 1. A file with rows then yields the one list of chunks that partitions the
  rows in order into non-empty slices of at most \<open>k\<close> rows, the \<open>i\<close>-th holding
  rows \<open>i*k\<close> to \<open>i*k+k-1\<close>, and \<open>ceil(n/k)\<close> of them; a file with no rows
  yields one empty chunk.
\<close>

theorem read_chunks_Inr_iff:
  "read_chunks k xs = Inr cs \<longleftrightarrow>
     1 \<le> k \<and> (xs = [] \<longrightarrow> cs = [[]]) \<and>
     (xs \<noteq> [] \<longrightarrow> concat cs = xs \<and> (\<forall>c \<in> set cs. c \<noteq> [] \<and> length c \<le> nat k) \<and>
        length cs = (length xs + (nat k - 1)) div nat k \<and>
        (\<forall>i < length cs. cs ! i = take (nat k) (drop (i * nat k) xs)))"
proof (cases "1 \<le> k")
  case k: True
  then have pos: "0 < nat k" by simp
  have r: "read_chunks k xs = Inr cs \<longleftrightarrow> cs = (if xs = [] then [[]] else chunks (nat k) xs)"
    using k by (auto simp: read_chunks_def)
  show ?thesis
  proof (cases "xs = []")
    case True
    with r k show ?thesis by simp
  next
    case False
    with r k chunks_char [OF pos, of cs xs] show ?thesis by simp
  qed
qed (simp add: read_chunks_def)

theorem read_chunks_Inr_iff_witness:
  "read_chunks 2 [1, 2, 3 :: nat] = Inr [[1, 2], [3]]"
proof (subst read_chunks_Inr_iff)
  have "\<forall>i < 2. [[1, 2], [3 :: nat]] ! i = take (nat 2) (drop (i * nat 2) [1, 2, 3])"
    by (simp add: numeral_2_eq_2 All_less_Suc)
  then show "1 \<le> (2::int) \<and> ([1, 2, 3 :: nat] = [] \<longrightarrow> [[1, 2], [3 :: nat]] = [[]]) \<and>
     ([1, 2, 3 :: nat] \<noteq> [] \<longrightarrow> concat [[1, 2], [3 :: nat]] = [1, 2, 3] \<and>
     (\<forall>c \<in> set [[1, 2], [3 :: nat]]. c \<noteq> [] \<and> length c \<le> nat 2) \<and>
     length [[1, 2], [3 :: nat]] = (length [1, 2, 3 :: nat] + (nat 2 - 1)) div nat 2 \<and>
     (\<forall>i < length [[1, 2], [3 :: nat]]. [[1, 2], [3 :: nat]] ! i = take (nat 2) (drop (i * nat 2) [1, 2, 3])))"
    by simp
qed

end
