(* ===== verification/Ingest.thy ===== *)
theory Ingest
  imports Database Chunks
begin

text \<open>
  The chunked ingest loop of \<open>src/load_csv_to_mysql.py\<close> (lines 121 and 149--161)
  and the verification step (lines 164--172). Each iteration fetches the next chunk
  from the lazy reader (event \<open>ReadChunk\<close>), adds its length to
  \<open>row_count\<close>, logs it, and appends it with \<open>to_sql\<close>; the conversion of line
  150 is the \<open>convert_dtypes\<close> that \<open>to_sql\<close> reads the column types from. The
  first exception ends the loop (spec 4.3: no retry, no skip).

  The lemmas show that the returned \<open>row_count\<close> is the number of rows read; that
  whatever happens, the committed table holds its earlier rows followed by the rows of
  a prefix of the chunks, the whole list exactly when the loop succeeds, with nothing
  left pending and no other table touched (no rollback across chunks); and that with
  no server failure and chunks that fit the table, every row is committed. In DELETE
  mode a failure of the first append rolls the pending deletion back with it.
\<close>

definition chunk_frame :: "string list \<Rightarrow> cell list list \<Rightarrow> frame" where
  "chunk_frame hdr c = \<lparr>header = hdr, rows = c\<rparr>"

fun ingest :: "(nat \<Rightarrow> bool) \<Rightarrow> nat \<Rightarrow> string list \<Rightarrow> cell list list list \<Rightarrow> string \<Rightarrow> string \<Rightarrow> nat
               \<Rightarrow> (nat, world) st" where
  "ingest fails i hdr [] tbl dbn rc = return_st rc"
| "ingest fails i hdr (c # cs) tbl dbn rc =
     bind_st (emit (ReadChunk i)) (\<lambda>_.
     bind_st (emit (Log (LogInserting (length c)))) (\<lambda>_.
     bind_st (to_sql (fails i) (chunk_frame hdr c) tbl dbn) (\<lambda>_.
     ingest fails (Suc i) hdr cs tbl dbn (rc + length c))))"

definition rows_of :: "tables \<Rightarrow> string \<times> string \<Rightarrow> cell list list" where
  "rows_of ts k = (case ts k of None \<Rightarrow> [] | Some tb \<Rightarrow> tbl_rows tb)"

definition chunk_fits :: "(string \<times> coltype) list \<Rightarrow> string list \<Rightarrow> cell list list \<Rightarrow> bool" where
  "chunk_fits cols hdr c \<longleftrightarrow>
     rows_fit cols (frame_rows (chunk_frame hdr c)) \<and> rows_storable cols (frame_rows (chunk_frame hdr c))"

text \<open>
  Lines 164--172: count the rows the connection sees, close the connection (which
  discards whatever is still uncommitted), then log both counts. The count is not
  compared with anything: the step only logs (spec 4.4).
\<close>

definition verify :: "string \<Rightarrow> string \<Rightarrow> nat \<Rightarrow> (unit, world) st" where
  "verify dbn tbl rc =
     bind_st (count_rows dbn tbl) (\<lambda>n.
     bind_st close_conn (\<lambda>_.
     bind_st (emit (Log (LogDbCount n))) (\<lambda>_.
     bind_st (emit (Log (LogCsvCount rc))) (\<lambda>_.
     emit (Log LogFinished)))))"

definition reads :: "event list \<Rightarrow> nat list" where
  "reads tr = concat (map (\<lambda>ev. case ev of ReadChunk j \<Rightarrow> [j] | _ \<Rightarrow> []) tr)"

subsection \<open>Lemmas\<close>

text \<open>
  C3. When the loop finishes, the \<open>row_count\<close> it returns is the
  count it started from plus the number of rows in all chunks.
\<close>

theorem ingest_row_count:
  "ingest fails i hdr cs tbl dbn rc w = (Inr n, w') \<Longrightarrow> n = rc + length (concat cs)"
proof (induction cs arbitrary: i rc w)
  case Nil
  then show ?case by (simp add: return_st_def)
next
  case (Cons c cs)
  from Cons.prems obtain w1 where "to_sql (fails i) (chunk_frame hdr c) tbl dbn
        (w\<lparr>trace := trace w @ [ReadChunk i, Log (LogInserting (length c))]\<rparr>) = (Inr (), w1)"
      and "ingest fails (Suc i) hdr cs tbl dbn (rc + length c) w1 = (Inr n, w')"
    by (auto simp: bind_st_def emit_def split: prod.splits sum.splits)
  then show ?case using Cons.IH by fastforce
qed

lemma to_sql_clean:
  assumes "rows f \<noteq> []" "work (wdb w) = committed (wdb w)" "to_sql fail f tbl dbn w = (r, w')"
  shows "work (wdb w') = committed (wdb w') \<and> committed (wdb w') (dbn, tbl) \<noteq> None \<and>
         (\<forall>k. k \<noteq> (dbn, tbl) \<longrightarrow> committed (wdb w') k = committed (wdb w) k) \<and>
         rows_of (committed (wdb w')) (dbn, tbl) =
           rows_of (committed (wdb w)) (dbn, tbl) @ (case r of Inr _ \<Rightarrow> frame_rows f | Inl _ \<Rightarrow> [])"
  using assms
  by (auto simp: to_sql_simps rows_of_def split: option.splits if_splits)


lemma ingest_Cons_apply:
  "ingest fails i hdr (c # cs) tbl dbn rc w =
     (case to_sql (fails i) (chunk_frame hdr c) tbl dbn
             (w\<lparr>trace := trace w @ [ReadChunk i, Log (LogInserting (length c))]\<rparr>) of
        (Inl e, w2) \<Rightarrow> (Inl e, w2)
      | (Inr _, w2) \<Rightarrow> ingest fails (Suc i) hdr cs tbl dbn (rc + length c) w2)"
  by (simp add: bind_st_def emit_def split: prod.splits sum.splits)

text \<open>
  C2. Whatever the server does, after the loop the committed target table
  holds its earlier rows followed by the rows of the first \<open>k\<close> chunks, where
  \<open>k\<close> is the number of chunks exactly when the loop succeeded; nothing is left
  pending and no other table is touched. A failure keeps the chunks already appended
  (no rollback across chunks, spec 4.3).
\<close>

theorem ingest_prefix:
  assumes "work (wdb w) = committed (wdb w)" "\<forall>c \<in> set cs. c \<noteq> []"
    "ingest fails i hdr cs tbl dbn rc w = (r, w')"
  shows "\<exists>k \<le> length cs.
           rows_of (committed (wdb w')) (dbn, tbl) =
             rows_of (committed (wdb w)) (dbn, tbl) @
             concat (map (\<lambda>c. frame_rows (chunk_frame hdr c)) (take k cs)) \<and>
           ((\<exists>n. r = Inr n) \<longleftrightarrow> k = length cs) \<and>
           work (wdb w') = committed (wdb w') \<and>
           (\<forall>key. key \<noteq> (dbn, tbl) \<longrightarrow> committed (wdb w') key = committed (wdb w) key)"
  using assms
proof (induction cs arbitrary: i rc w)
  case Nil
  then show ?case by (auto simp: return_st_def)
next
  case (Cons c cs)
  let ?w1 = "w\<lparr>trace := trace w @ [ReadChunk i, Log (LogInserting (length c))]\<rparr>"
  obtain r2 w2 where ts: "to_sql (fails i) (chunk_frame hdr c) tbl dbn ?w1 = (r2, w2)"
    by fastforce
  have ne: "rows (chunk_frame hdr c) \<noteq> []" using Cons.prems(2) by (simp add: chunk_frame_def)
  have clean1: "work (wdb ?w1) = committed (wdb ?w1)" using Cons.prems(1) by simp
  note step = to_sql_clean [OF ne clean1 ts]
  show ?case
  proof (cases r2)
    case (Inl e)
    with Cons.prems(3) ts have "r = Inl e" "w' = w2" by (simp_all add: ingest_Cons_apply del: ingest.simps)
    with step Inl show ?thesis by (intro exI [of _ 0]) simp
  next
    case (Inr u)
    with Cons.prems(3) ts have rest: "ingest fails (Suc i) hdr cs tbl dbn (rc + length c) w2 = (r, w')"
      by (simp add: ingest_Cons_apply del: ingest.simps)
    from step have clean2: "work (wdb w2) = committed (wdb w2)" by simp
    from Cons.IH [OF clean2 _ rest] Cons.prems(2) obtain k where
      k: "k \<le> length cs"
      "rows_of (committed (wdb w')) (dbn, tbl) =
         rows_of (committed (wdb w2)) (dbn, tbl) @ concat (map (\<lambda>c. frame_rows (chunk_frame hdr c)) (take k cs))"
      "(\<exists>n. r = Inr n) \<longleftrightarrow> k = length cs"
      "work (wdb w') = committed (wdb w')"
      "\<forall>key. key \<noteq> (dbn, tbl) \<longrightarrow> committed (wdb w') key = committed (wdb w2) key"
      by auto
    with step Inr show ?thesis by (intro exI [of _ "Suc k"]) simp
  qed
qed


lemma to_sql_create:
  assumes "rows f \<noteq> []" "\<not> fail" "work (wdb w) (dbn, tbl) = None"
  shows "\<exists>w'. to_sql fail f tbl dbn w = (Inr (), w') \<and>
           committed (wdb w') = (work (wdb w))((dbn, tbl) \<mapsto> \<lparr>tbl_cols = convert_dtypes f, tbl_rows = frame_rows f\<rparr>) \<and>
           work (wdb w') = committed (wdb w')"
  using assms convert_dtypes_fit [of f] convert_dtypes_storable [of f]
  by (simp add: to_sql_simps)

theorem ingest_success:
  assumes "work (wdb w) = committed (wdb w)" "committed (wdb w) (dbn, tbl) = Some tb"
    "\<forall>c \<in> set cs. c \<noteq> [] \<and> chunk_fits (tbl_cols tb) hdr c"
    "\<forall>j < length cs. \<not> fails (i + j)"
  shows "\<exists>w'. ingest fails i hdr cs tbl dbn rc w = (Inr (rc + length (concat cs)), w') \<and>
           committed (wdb w') (dbn, tbl) =
             Some (tb\<lparr>tbl_rows := tbl_rows tb @ concat (map (\<lambda>c. frame_rows (chunk_frame hdr c)) cs)\<rparr>) \<and>
           work (wdb w') = committed (wdb w')"
  using assms
proof (induction cs arbitrary: i rc w tb)
  case Nil
  then show ?case by (simp add: return_st_def)
next
  case (Cons c cs)
  let ?w1 = "w\<lparr>trace := trace w @ [ReadChunk i, Log (LogInserting (length c))]\<rparr>"
  have ne: "rows (chunk_frame hdr c) \<noteq> []" using Cons.prems(3) by (simp add: chunk_frame_def)
  have nf: "\<not> fails i" using Cons.prems(4) by (metis add_0_right length_Cons zero_less_Suc)
  have tb1: "work (wdb ?w1) (dbn, tbl) = Some tb" using Cons.prems(1,2) by simp
  have fit: "chunk_fits (tbl_cols tb) hdr c" using Cons.prems(3) by simp
  obtain w2 where ts: "to_sql (fails i) (chunk_frame hdr c) tbl dbn ?w1 = (Inr (), w2)"
      and cw2: "committed (wdb w2) =
                (work (wdb ?w1))((dbn, tbl) \<mapsto> tb\<lparr>tbl_rows := tbl_rows tb @ frame_rows (chunk_frame hdr c)\<rparr>)"
    using to_sql_append [OF ne nf tb1] fit by (auto simp: chunk_fits_def)
  have clean2: "work (wdb w2) = committed (wdb w2)"
    using to_sql_no_pending [OF ne ts] .
  let ?tb2 = "tb\<lparr>tbl_rows := tbl_rows tb @ frame_rows (chunk_frame hdr c)\<rparr>"
  have tb2: "committed (wdb w2) (dbn, tbl) = Some ?tb2" using cw2 by simp
  have rest_fits: "\<forall>c \<in> set cs. c \<noteq> [] \<and> chunk_fits (tbl_cols ?tb2) hdr c" using Cons.prems(3) by simp
  have rest_ok: "\<forall>j < length cs. \<not> fails (Suc i + j)" using Cons.prems(4) by auto
  from Cons.IH [OF clean2 tb2 rest_fits rest_ok] obtain w' where
    "ingest fails (Suc i) hdr cs tbl dbn (rc + length c) w2 = (Inr (rc + length c + length (concat cs)), w')"
    "committed (wdb w') (dbn, tbl) =
       Some (?tb2\<lparr>tbl_rows := tbl_rows ?tb2 @ concat (map (\<lambda>c. frame_rows (chunk_frame hdr c)) cs)\<rparr>)"
    "work (wdb w') = committed (wdb w')"
    by blast
  with ts show ?case by (simp add: ingest_Cons_apply add.assoc del: ingest.simps)
qed

lemma frame_rows_chunks:
  "concat (map (\<lambda>c. frame_rows (chunk_frame hdr c)) cs) = frame_rows \<lparr>header = hdr, rows = concat cs\<rparr>"
  by (induction cs) (simp_all add: frame_rows_def chunk_frame_def)

lemma rows_fit_same_header:
  "rows_fit (convert_dtypes (chunk_frame hdr c1)) (frame_rows (chunk_frame hdr c))"
  by (simp add: rows_fit_def frame_rows_def chunk_frame_def list_all_iff)

lemma rows_storable_append [simp]:
  "rows_storable cols (xs @ ys) \<longleftrightarrow> rows_storable cols xs \<and> rows_storable cols ys"
  by (simp add: rows_storable_def)

lemma rows_storable_concat:
  "rows_storable cols (concat (map (\<lambda>c. frame_rows (chunk_frame hdr c)) cs)) \<longleftrightarrow>
     (\<forall>c \<in> set cs. rows_storable cols (frame_rows (chunk_frame hdr c)))"
  by (induction cs) (simp_all add: rows_storable_def)

theorem ingest_fresh:
  assumes "work (wdb w) = committed (wdb w)" "committed (wdb w) (dbn, tbl) = None"
    "cs = c1 # rest" "\<forall>c \<in> set cs. c \<noteq> []" "\<forall>j. \<not> fails j"
    "rows_storable (convert_dtypes (chunk_frame hdr c1)) (frame_rows \<lparr>header = hdr, rows = concat cs\<rparr>)"
  shows "\<exists>w'. ingest fails i hdr cs tbl dbn rc w = (Inr (rc + length (concat cs)), w') \<and>
           committed (wdb w') (dbn, tbl) =
             Some \<lparr>tbl_cols = convert_dtypes (chunk_frame hdr c1), tbl_rows = frame_rows \<lparr>header = hdr, rows = concat cs\<rparr>\<rparr> \<and>
           work (wdb w') = committed (wdb w')"
proof -
  let ?cols = "convert_dtypes (chunk_frame hdr c1)"
  let ?w1 = "w\<lparr>trace := trace w @ [ReadChunk i, Log (LogInserting (length c1))]\<rparr>"
  have ne: "rows (chunk_frame hdr c1) \<noteq> []" using assms(3,4) by (simp add: chunk_frame_def)
  have absent: "work (wdb ?w1) (dbn, tbl) = None" using assms(1,2) by simp
  obtain w2 where ts: "to_sql (fails i) (chunk_frame hdr c1) tbl dbn ?w1 = (Inr (), w2)"
    and cw2: "committed (wdb w2) = (work (wdb ?w1))((dbn, tbl) \<mapsto>
                \<lparr>tbl_cols = ?cols, tbl_rows = frame_rows (chunk_frame hdr c1)\<rparr>)"
    and clean2: "work (wdb w2) = committed (wdb w2)"
    using to_sql_create [OF ne _ absent] assms(5) by blast
  have st: "\<forall>c \<in> set cs. rows_storable ?cols (frame_rows (chunk_frame hdr c))"
    using assms(6) rows_storable_concat [of ?cols hdr cs] frame_rows_chunks [of hdr cs] by simp
  have fits: "\<forall>c \<in> set rest. c \<noteq> [] \<and> chunk_fits ?cols hdr c"
    using assms(3,4) st rows_fit_same_header by (auto simp: chunk_fits_def)
  have tb2: "committed (wdb w2) (dbn, tbl) = Some \<lparr>tbl_cols = ?cols, tbl_rows = frame_rows (chunk_frame hdr c1)\<rparr>"
    using cw2 by simp
  have nf: "\<forall>j < length rest. \<not> fails (Suc i + j)" using assms(5) by simp
  from ingest_success [OF clean2 tb2 _ nf, where rc = "rc + length c1"] fits obtain w' where
    "ingest fails (Suc i) hdr rest tbl dbn (rc + length c1) w2 = (Inr (rc + length c1 + length (concat rest)), w')"
    "committed (wdb w') (dbn, tbl) =
       Some \<lparr>tbl_cols = ?cols, tbl_rows = frame_rows (chunk_frame hdr c1) @
                 concat (map (\<lambda>c. frame_rows (chunk_frame hdr c)) rest)\<rparr>"
    "work (wdb w') = committed (wdb w')"
    by auto
  moreover have "frame_rows (chunk_frame hdr c1) @ concat (map (\<lambda>c. frame_rows (chunk_frame hdr c)) rest) =
                 frame_rows \<lparr>header = hdr, rows = concat cs\<rparr>"
    using frame_rows_chunks [of hdr cs] assms(3) by simp
  ultimately show ?thesis
    using ts assms(3) by (simp add: ingest_Cons_apply add.assoc del: ingest.simps)
qed

lemmas eval_simps = to_sql_simps chunk_frame_def frame_rows_def convert_dtypes_def column_def
  cell_at_def infer_column_def rows_fit_def rows_storable_def storable_def list_all_iff start_def emit_def

text \<open>
  C4. In DELETE mode the \<open>DELETE FROM\<close> of line 143 is
  still pending when the first chunk is appended; if that append fails, awswrangler's
  rollback undoes the deletion with it, so the committed tables are exactly those from
  before the run touched them (in TRUNCATE mode the rows would already be gone).
\<close>

theorem delete_mode_failed_load_restores:
  assumes "work (wdb w) = committed (wdb w)" "committed (wdb w) (dbn, tbl) \<noteq> None"
    "normalize_delete_mode mode \<noteq> ''TRUNCATE''" "fails i"
    "prepare_table False True mode dbn tbl w = (r, w1)"
    "ingest fails i hdr cs tbl dbn rc w1 = (Inl e, w2)"
  shows "committed (wdb w2) = committed (wdb w)"
proof -
  have w1: "committed (wdb w1) = committed (wdb w)" "work (wdb w1) (dbn, tbl) \<noteq> None"
    using assms(1,2,3,5) by (auto simp: prepare_table_def table_exists_def world_simps)
  obtain c cs' where cs: "cs = c # cs'"
    using assms(6) by (cases cs) (auto simp: return_st_def)
  show ?thesis
  proof (cases "c = []")
    case True
    then show ?thesis using assms(6) w1
      by (auto simp: cs ingest_Cons_apply to_sql_simps chunk_frame_def)
  next
    case False
    then show ?thesis using assms(4,6) w1
      by (auto simp: cs ingest_Cons_apply to_sql_simps chunk_frame_def split: if_splits prod.splits sum.splits)
  qed
qed

theorem ingest_prefix_witness:
  "\<exists>k \<le> length [[[CInt 1]], [[CInt 2]]].
     rows_of (committed (wdb (snd (ingest (\<lambda>i. i = 1) 0 [''id''] [[[CInt 1]], [[CInt 2]]] ''sales'' ''shop'' 0
        (start [(''shop'', ''sales'') \<mapsto> \<lparr>tbl_cols = [(''id'', TInt)], tbl_rows = []\<rparr>]))))) (''shop'', ''sales'') =
       rows_of (committed (wdb (start [(''shop'', ''sales'') \<mapsto> \<lparr>tbl_cols = [(''id'', TInt)], tbl_rows = []\<rparr>])))
         (''shop'', ''sales'') @
       concat (map (\<lambda>c. frame_rows (chunk_frame [''id''] c)) (take k [[[CInt 1]], [[CInt 2]]])) \<and>
     ((\<exists>n. fst (ingest (\<lambda>i. i = 1) 0 [''id''] [[[CInt 1]], [[CInt 2]]] ''sales'' ''shop'' 0
        (start [(''shop'', ''sales'') \<mapsto> \<lparr>tbl_cols = [(''id'', TInt)], tbl_rows = []\<rparr>])) = Inr n)
      \<longleftrightarrow> k = length [[[CInt 1]], [[CInt 2]]]) \<and>
     work (wdb (snd (ingest (\<lambda>i. i = 1) 0 [''id''] [[[CInt 1]], [[CInt 2]]] ''sales'' ''shop'' 0
        (start [(''shop'', ''sales'') \<mapsto> \<lparr>tbl_cols = [(''id'', TInt)], tbl_rows = []\<rparr>])))) =
     committed (wdb (snd (ingest (\<lambda>i. i = 1) 0 [''id''] [[[CInt 1]], [[CInt 2]]] ''sales'' ''shop'' 0
        (start [(''shop'', ''sales'') \<mapsto> \<lparr>tbl_cols = [(''id'', TInt)], tbl_rows = []\<rparr>])))) \<and>
     (\<forall>key. key \<noteq> (''shop'', ''sales'') \<longrightarrow>
        committed (wdb (snd (ingest (\<lambda>i. i = 1) 0 [''id''] [[[CInt 1]], [[CInt 2]]] ''sales'' ''shop'' 0
          (start [(''shop'', ''sales'') \<mapsto> \<lparr>tbl_cols = [(''id'', TInt)], tbl_rows = []\<rparr>])))) key =
        committed (wdb (start [(''shop'', ''sales'') \<mapsto> \<lparr>tbl_cols = [(''id'', TInt)], tbl_rows = []\<rparr>])) key)"
  by (rule ingest_prefix [OF _ _ surjective_pairing]) (simp_all add: start_def)

theorem ingest_row_count_witness:
  "fst (ingest (\<lambda>_. False) 0 [''id''] (chunks 10000 (replicate 25000 [CInt 7])) ''sales'' ''shop'' 0
          (start Map.empty)) = Inr 25000 \<and>
   map length (chunks 10000 (replicate 25000 [CInt 7])) = [10000, 10000, 5000]"
proof -
  let ?r = "ingest (\<lambda>_. False) 0 [''id''] (chunks 10000 (replicate 25000 [CInt 7])) ''sales'' ''shop'' 0
              (start Map.empty)"
  have h: "fst ?r = Inr 25000"
    by (simp add: chunks_step eval_simps)
  have "?r = (Inr 25000, snd ?r)" using h by (metis prod.collapse)
  from ingest_row_count [OF this] h show ?thesis by (simp add: chunks_step)
qed

lemma ingest_empty_chunk:
  "ingest fails i hdr ([] # cs) tbl dbn rc w =
     (Inl EmptyDataFrame, w\<lparr>trace := trace w @ [ReadChunk i, Log (LogInserting 0)]\<rparr>)"
  by (simp add: to_sql_def chunk_frame_def world_simps)

lemma to_sql_unstorable:
  assumes "rows f \<noteq> []" "\<not> fail" "work (wdb w) (dbn, tbl) = Some tb"
    "rows_fit (tbl_cols tb) (frame_rows f)" "\<not> rows_storable (tbl_cols tb) (frame_rows f)"
  shows "\<exists>w'. to_sql fail f tbl dbn w = (Inl bad_value, w') \<and> committed (wdb w') = committed (wdb w)"
  using assms by (simp add: to_sql_simps)

text \<open>
  C19.
  Types are inferred per chunk (spec 9): the first chunk creates the table with the
  types inferred from it alone, and a later chunk with a value those types cannot store
  makes the server refuse the append; the run fails with the first chunk committed, although
  the types inferred from both chunks together would have stored every row.
\<close>

theorem ingest_per_chunk_types:
  assumes clean: "work (wdb w) = committed (wdb w)" and absent: "committed (wdb w) (dbn, tbl) = None"
    and ne: "c1 \<noteq> []" "c2 \<noteq> []" and ok: "\<not> fails i" "\<not> fails (Suc i)"
    and bad: "\<not> rows_storable (convert_dtypes (chunk_frame hdr c1)) (frame_rows (chunk_frame hdr c2))"
  shows "\<exists>w'. ingest fails i hdr (c1 # c2 # cs) tbl dbn rc w = (Inl bad_value, w') \<and>
           committed (wdb w') (dbn, tbl) =
             Some \<lparr>tbl_cols = convert_dtypes (chunk_frame hdr c1), tbl_rows = frame_rows (chunk_frame hdr c1)\<rparr> \<and>
           rows_storable (convert_dtypes (chunk_frame hdr (c1 @ c2))) (frame_rows (chunk_frame hdr (c1 @ c2)))"
proof -
  let ?cols = "convert_dtypes (chunk_frame hdr c1)"
  let ?tb = "\<lparr>tbl_cols = ?cols, tbl_rows = frame_rows (chunk_frame hdr c1)\<rparr>"
  let ?w1 = "w\<lparr>trace := trace w @ [ReadChunk i, Log (LogInserting (length c1))]\<rparr>"
  have ne1: "rows (chunk_frame hdr c1) \<noteq> []" and ne2: "rows (chunk_frame hdr c2) \<noteq> []"
    using ne by (simp_all add: chunk_frame_def)
  have "work (wdb ?w1) (dbn, tbl) = None" using clean absent by simp
  then obtain w2 where ts1: "to_sql (fails i) (chunk_frame hdr c1) tbl dbn ?w1 = (Inr (), w2)"
    and cw2: "committed (wdb w2) = (work (wdb ?w1))((dbn, tbl) \<mapsto> ?tb)"
    and clean2: "work (wdb w2) = committed (wdb w2)"
    using to_sql_create [OF ne1 ok(1)] by blast
  let ?w3 = "w2\<lparr>trace := trace w2 @ [ReadChunk (Suc i), Log (LogInserting (length c2))]\<rparr>"
  have tb3: "work (wdb ?w3) (dbn, tbl) = Some ?tb" using cw2 clean2 by simp
  obtain w' where ts2: "to_sql (fails (Suc i)) (chunk_frame hdr c2) tbl dbn ?w3 = (Inl bad_value, w')"
    and cw': "committed (wdb w') = committed (wdb ?w3)"
    using to_sql_unstorable [OF ne2 ok(2) tb3] rows_fit_same_header bad by auto
  have run: "ingest fails i hdr (c1 # c2 # cs) tbl dbn rc w = (Inl bad_value, w')"
    using ts1 ts2 by (simp add: ingest_Cons_apply del: ingest.simps)
  have "committed (wdb w') (dbn, tbl) = Some ?tb" using cw' cw2 by simp
  with run show ?thesis using convert_dtypes_storable by blast
qed

theorem ingest_per_chunk_types_witness:
  "fst (ingest (\<lambda>_. False) 0 [''code''] [[[CInt 1]], [[CStr ''A1'']]] ''sales'' ''shop'' 0 (start Map.empty))
     = Inl bad_value \<and>
   committed (wdb (snd (ingest (\<lambda>_. False) 0 [''code''] [[[CInt 1]], [[CStr ''A1'']]] ''sales'' ''shop'' 0
     (start Map.empty)))) (''shop'', ''sales'') = Some \<lparr>tbl_cols = [(''code'', TInt)], tbl_rows = [[CInt 1]]\<rparr>"
proof -
  have bad: "\<not> rows_storable (convert_dtypes (chunk_frame [''code''] [[CInt 1]]))
                (frame_rows (chunk_frame [''code''] [[CStr ''A1'']]))"
    by (simp add: eval_simps)
  obtain w' where
    r: "ingest (\<lambda>_. False) 0 [''code''] [[[CInt 1]], [[CStr ''A1'']]] ''sales'' ''shop'' 0 (start Map.empty)
          = (Inl bad_value, w')"
    and c: "committed (wdb w') (''shop'', ''sales'') =
          Some \<lparr>tbl_cols = convert_dtypes (chunk_frame [''code''] [[CInt 1]]),
                tbl_rows = frame_rows (chunk_frame [''code''] [[CInt 1]])\<rparr>"
    using ingest_per_chunk_types [OF _ _ _ _ _ _ bad, where w = "start Map.empty" and cs = "[]"
            and fails = "\<lambda>_. False" and i = 0 and rc = 0 and tbl = "''sales''" and dbn = "''shop''"]
    by (auto simp: start_def simp del: ingest.simps)
  have "convert_dtypes (chunk_frame [''code''] [[CInt 1]]) = [(''code'', TInt)]"
      "frame_rows (chunk_frame [''code''] [[CInt 1]]) = [[CInt 1]]"
    by (simp_all add: eval_simps)
  with r c show ?thesis by simp
qed

theorem delete_mode_failed_load_restores_witness:
  "committed (wdb (snd (ingest (\<lambda>_. True) 0 [''id''] [[[CInt 2]]] ''sales'' ''shop'' 0
      (snd (prepare_table False True ''delete'' ''shop'' ''sales''
         \<lparr>wdb = \<lparr>committed = [(''shop'', ''sales'') \<mapsto> \<lparr>tbl_cols = [(''id'', TInt)], tbl_rows = [[CInt 1]]\<rparr>],
                   work = [(''shop'', ''sales'') \<mapsto> \<lparr>tbl_cols = [(''id'', TInt)], tbl_rows = [[CInt 1]]\<rparr>]\<rparr>,
          trace = []\<rparr>)))))
   = [(''shop'', ''sales'') \<mapsto> \<lparr>tbl_cols = [(''id'', TInt)], tbl_rows = [[CInt 1]]\<rparr>]"
proof -
  let ?t = "\<lparr>tbl_cols = [(''id'', TInt)], tbl_rows = [[CInt 1]]\<rparr>"
  let ?w = "\<lparr>wdb = \<lparr>committed = [(''shop'', ''sales'') \<mapsto> ?t], work = [(''shop'', ''sales'') \<mapsto> ?t]\<rparr>, trace = []\<rparr>"
  let ?w1 = "snd (prepare_table False True ''delete'' ''shop'' ''sales'' ?w)"
  let ?m = "ingest (\<lambda>_. True) 0 [''id''] [[[CInt 2]]] ''sales'' ''shop'' 0 ?w1"
  have mode: "normalize_delete_mode ''delete'' \<noteq> ''TRUNCATE''"
    by (simp add: str_eval)
  have e: "fst ?m = Inl (DbError ''2013 lost connection during query'')"
    by (simp add: ingest_Cons_apply eval_simps prepare_table_def table_exists_def str_eval)
  have "?m = (Inl (DbError ''2013 lost connection during query''), snd ?m)"
    using e by (metis prod.collapse)
  from delete_mode_failed_load_restores [OF _ _ mode _ prod.collapse [symmetric] this]
  show ?thesis by simp
qed

lemma reads_append [simp]: "reads (xs @ ys) = reads xs @ reads ys"
  by (simp add: reads_def)

lemma to_sql_reads: "to_sql fail f tbl dbn w = (r, w') \<Longrightarrow> reads (trace w') = reads (trace w)"
  by (auto simp: to_sql_simps reads_def split: if_splits option.splits)

lemma ingest_reads:
  "ingest fails i hdr cs tbl dbn rc w = (r, w') \<Longrightarrow>
   \<exists>m \<le> length cs. reads (trace w') = reads (trace w) @ [i..<i + m] \<and>
     ((\<exists>n. r = Inr n) \<longrightarrow> m = length cs) \<and> (cs \<noteq> [] \<longrightarrow> 0 < m)"
proof (induction cs arbitrary: i rc w)
  case Nil
  then show ?case by (auto simp: return_st_def)
next
  case (Cons c cs)
  let ?w1 = "w\<lparr>trace := trace w @ [ReadChunk i, Log (LogInserting (length c))]\<rparr>"
  obtain r2 w2 where ts: "to_sql (fails i) (chunk_frame hdr c) tbl dbn ?w1 = (r2, w2)" by fastforce
  have rd: "reads (trace w2) = reads (trace w) @ [i]"
    using to_sql_reads [OF ts] by (simp add: reads_def)
  show ?case
  proof (cases r2)
    case (Inl e)
    with Cons.prems ts have "r = Inl e" "w' = w2" by (simp_all add: ingest_Cons_apply del: ingest.simps)
    with rd show ?thesis by (intro exI [of _ 1]) simp
  next
    case (Inr u)
    with Cons.prems ts have rest: "ingest fails (Suc i) hdr cs tbl dbn (rc + length c) w2 = (r, w')"
      by (simp add: ingest_Cons_apply del: ingest.simps)
    from Cons.IH [OF rest] obtain m where m: "m \<le> length cs"
      "reads (trace w') = reads (trace w2) @ [Suc i..<Suc i + m]" "(\<exists>n. r = Inr n) \<longrightarrow> m = length cs"
      by blast
    have "[i] @ [Suc i..<Suc i + m] = [i..<i + Suc m]" by (simp add: upt_rec)
    with m rd show ?thesis by (intro exI [of _ "Suc m"]) simp
  qed
qed

text \<open>
  C10. The loop of line 149 over the lazy reader terminates: when it
  completes, it has fetched the chunks \<open>0, 1, ...\<close> in order, exactly
  \<open>ceil(n / k)\<close> of them for \<open>n\<close> rows and chunk size \<open>k\<close>, and
  none twice.
\<close>

theorem chunk_loop_iterations:
  assumes "read_chunks k rs = Inr cs" "ingest fails 0 hdr cs tbl dbn 0 w = (Inr n, w')"
  shows "reads (trace w') = reads (trace w) @ [0..<(length rs + (nat k - 1)) div nat k]"
proof (cases "rs = []")
  case True
  with assms(1) have "cs = [[]]" by (simp add: read_chunks_def split: if_splits)
  with assms(2) show ?thesis by (simp add: ingest_empty_chunk del: ingest.simps)
next
  case False
  with assms(1) have k: "0 < nat k" and cs: "cs = chunks (nat k) rs"
    by (auto simp: read_chunks_def split: if_splits)
  from ingest_reads [OF assms(2)] have "reads (trace w') = reads (trace w) @ [0..<length cs]"
    by auto
  with cs k show ?thesis by (simp add: length_chunks)
qed

theorem chunk_loop_iterations_witness:
  "reads (trace (snd (ingest (\<lambda>_. False) 0 [''id''] (chunks 2 [[CInt 1], [CInt 2], [CInt 3]]) ''t'' ''d'' 0
      (start Map.empty)))) = [0, 1]"
proof -
  let ?m = "ingest (\<lambda>_. False) 0 [''id''] (chunks 2 [[CInt 1], [CInt 2], [CInt 3]]) ''t'' ''d'' 0 (start Map.empty)"
  have rc: "read_chunks 2 [[CInt 1], [CInt 2], [CInt 3]] = Inr (chunks 2 [[CInt 1], [CInt 2], [CInt 3]])"
    by (simp add: read_chunks_def)
  have "fst ?m = Inr 3"
    by (simp add: chunks_step eval_simps start_def)
  then have "?m = (Inr 3, snd ?m)" by (metis prod.collapse)
  from chunk_loop_iterations [OF rc this] show ?thesis
    by (simp add: start_def reads_def upt_rec)
qed

end
