(* ===== verification/Script.thy ===== *)
theory Script
  imports Ingest
begin

text \<open>
  The whole of \<open>src/load_csv_to_mysql.py\<close> as one run, statement by statement in
  source order (lines 65--172). The outside world the script talks to is \<open>env\<close>:
  whether the CA bundle download succeeds (line 85), the Secrets Manager contents
  (lines 92--93), whether the server accepts the connection (line 108), the S3
  objects as parsed frames (line 116), and which chunk inserts the server fails for
  reasons of its own. \<open>run\<close> threads the \<open>world\<close> (database and trace) through
  the steps; the first exception ends the run with the state reached, as an uncaught
  Python exception ends the process. pymysql dials port 3306 when given none
  (\<open>client_port\<close>).

  The lemmas fix what I/O happens before each configuration error, and give the
  end-to-end result of a drop-and-reload run.
\<close>

datatype secret_value = SecretJson secret_bundle | SecretMalformed

record env =
  ca_ok :: bool
  secrets :: "string \<rightharpoonup> secret_value"
  connect_ok :: bool
  objects :: "string \<rightharpoonup> frame"
  insert_fails :: "nat \<Rightarrow> bool"

definition fetch_ca :: "env \<Rightarrow> string \<Rightarrow> (unit, world) st" where
  "fetch_ca e url =
     bind_st (emit (Log LogGetCA)) (\<lambda>_.
     bind_st (emit (FetchCA url)) (\<lambda>_.
       if ca_ok e then return_st () else emit (Log LogCAError)))"

definition fetch_secret :: "env \<Rightarrow> config \<Rightarrow> (creds, world) st" where
  "fetch_secret e cfg =
     (case cfg_arn cfg of
        None \<Rightarrow> return_st (cfg_creds cfg)
      | Some arn \<Rightarrow>
          bind_st (emit (Log (LogFetchSecret arn))) (\<lambda>_.
          bind_st (emit (FetchSecret arn)) (\<lambda>_.
            case secrets e arn of
              None \<Rightarrow> raise_st (ClientError ''ResourceNotFoundException'')
            | Some sv \<Rightarrow>
                bind_st (emit (Log LogRetrievedSecret)) (\<lambda>_.
                  case sv of
                    SecretMalformed \<Rightarrow> raise_st JSONDecodeError
                  | SecretJson b \<Rightarrow> lift_res (merge_secret (cfg_creds cfg) b)))))"

definition client_port :: "int option \<Rightarrow> int" where
  "client_port p = (case p of None \<Rightarrow> 3306 | Some n \<Rightarrow> if n = 0 then 3306 else n)"

definition connect :: "env \<Rightarrow> creds \<Rightarrow> (unit, world) st" where
  "connect e c =
     bind_st (emit (Connect (the (c_host c)) (client_port (c_port c)) (the (c_user c)) (the (c_password c))
                        (the (c_name c)))) (\<lambda>_.
       if connect_ok e then return_st () else raise_st (DbError ''2003 cannot connect to MySQL server''))"

definition open_source :: "env \<Rightarrow> string \<Rightarrow> frame res" where
  "open_source e obj = (case objects e obj of None \<Rightarrow> Inl (ClientError ''404 Not Found'') | Some f \<Rightarrow> Inr f)"

definition load :: "env \<Rightarrow> config \<Rightarrow> string \<Rightarrow> (nat, world) st" where
  "load e cfg dbn =
     bind_st (lift_res (open_source e (cfg_object cfg))) (\<lambda>csv.
     bind_st (lift_res (read_chunks (cfg_chunk cfg) (rows csv))) (\<lambda>cs.
       ingest (insert_fails e) 0 (header csv) cs (cfg_table cfg) dbn 0))"

definition run :: "args \<Rightarrow> env \<Rightarrow> (unit, world) st" where
  "run a e =
     bind_st (emit (Log (LogArgs (logged_args a)))) (\<lambda>_.
     bind_st (lift_res (load_config a)) (\<lambda>cfg.
     bind_st (fetch_ca e (cfg_ssl_ca cfg)) (\<lambda>_.
     bind_st (fetch_secret e cfg) (\<lambda>c0.
     bind_st (lift_res (require_creds c0)) (\<lambda>c.
     bind_st (connect e c) (\<lambda>_.
     bind_st (prepare_table (cfg_drop cfg) (cfg_delete cfg) (cfg_mode cfg) (the (c_name c)) (cfg_table cfg)) (\<lambda>_.
     bind_st (load e cfg (the (c_name c))) (\<lambda>rc.
       verify (the (c_name c)) (cfg_table cfg) rc))))))))"

definition connected_prefix :: "args \<Rightarrow> env \<Rightarrow> creds \<Rightarrow> event list" where
  "connected_prefix a e c =
     [Log (LogArgs (logged_args a)), Log LogGetCA, FetchCA (ssl_ca_url a)] @ (if ca_ok e then [] else [Log LogCAError]) @
     [Connect (the (c_host c)) (client_port (c_port c)) (the (c_user c)) (the (c_password c)) (the (c_name c))]"

subsection \<open>Lemmas\<close>

lemmas st_simps = emit_def return_st_def raise_st_def bind_st_def lift_res_def

lemma fetch_ca_apply:
  "fetch_ca e url w =
     (Inr (), w\<lparr>trace := trace w @ [Log LogGetCA, FetchCA url] @ (if ca_ok e then [] else [Log LogCAError])\<rparr>)"
  by (simp add: fetch_ca_def st_simps)

lemma load_config_Inl:
  "load_config a = Inl err \<longleftrightarrow>
     \<not> valid_delete_mode (normalize_delete_mode (delete_mode a)) \<and>
     err = ArgError (normalize_delete_mode (delete_mode a) @ '' is not a valid delete mode'')"
  by (auto simp: load_config_def check_delete_mode_def Let_def)

text \<open>
  C23. An invalid \<open>--delete_mode\<close> ends the run with the usage error
  of line 79 before any I/O: the only event is the log line of the arguments.
\<close>

theorem run_invalid_mode:
  assumes "\<not> valid_delete_mode (normalize_delete_mode (delete_mode a))"
  shows "run a e w =
           (Inl (ArgError (normalize_delete_mode (delete_mode a) @ '' is not a valid delete mode'')),
            w\<lparr>trace := trace w @ [Log (LogArgs (logged_args a))]\<rparr>)"
  using assms by (simp add: run_def load_config_def check_delete_mode_def st_simps)

theorem run_invalid_mode_witness:
  "run ((default_args ''s3://b/k.csv'' ''sales'')\<lparr>delete_mode := ''bogus''\<rparr>)
       \<lparr>ca_ok = True, secrets = Map.empty, connect_ok = True, objects = Map.empty, insert_fails = (\<lambda>_. False)\<rparr>
       (start Map.empty)
   = (Inl (ArgError ''BOGUS is not a valid delete mode''),
      (start Map.empty)\<lparr>trace := [Log (LogArgs
         [(''s3_object'', PStr ''s3://b/k.csv''), (''db_host'', PNone), (''db_port'', PNone), (''db_name'', PNone),
          (''db_user'', PNone), (''db_secret_arn'', PNone), (''table_name'', PStr ''sales''),
          (''drop_table'', PBool False), (''delete_rows'', PBool False), (''delete_mode'', PStr ''bogus''),
          (''chunk_size'', PInt 10000),
          (''ssl_ca_url'', PStr ''https://s3.amazonaws.com/rds-downloads/rds-combined-ca-bundle.pem''),
          (''extra_py_files'', PNone), (''scriptLocation'', PNone), (''job_bookmark_option'', PNone),
          (''job_language'', PNone), (''connection_names'', PNone)])]\<rparr>)"
proof -
  have h: "\<not> valid_delete_mode (normalize_delete_mode (delete_mode
             ((default_args ''s3://b/k.csv'' ''sales'')\<lparr>delete_mode := ''bogus''\<rparr>)))"
    by (simp add: default_args_def str_eval)
  show ?thesis
    using run_invalid_mode [OF h, where e = "\<lparr>ca_ok = True, secrets = Map.empty, connect_ok = True,
            objects = Map.empty, insert_fails = (\<lambda>_. False)\<rparr>" and w = "start Map.empty"]
    by (simp add: default_args_def str_eval start_def logged_args_def args_dict_def py_opt_str_def)
qed

lemma load_config_Inr:
  "valid_delete_mode (normalize_delete_mode (delete_mode a)) \<Longrightarrow>
   load_config a = Inr \<lparr>cfg_object = s3_object a, cfg_creds = creds_of_args a, cfg_arn = db_secret_arn a,
            cfg_table = table_name a, cfg_drop = drop_table a, cfg_delete = delete_rows a,
            cfg_mode = normalize_delete_mode (delete_mode a), cfg_chunk = chunk_size a, cfg_ssl_ca = ssl_ca_url a\<rparr>"
  by (simp add: load_config_def check_delete_mode_def)

text \<open>
  C24. Without a secret, a missing required connection field ends the
  run with its configuration error before any database I/O, but only after the CA
  bundle has been requested from the network (line 85).
\<close>

theorem run_missing_creds:
  assumes "valid_delete_mode (normalize_delete_mode (delete_mode a))" "db_secret_arn a = None"
    "require_creds (creds_of_args a) = Inl err"
  shows "run a e w =
           (Inl err, w\<lparr>trace := trace w @ [Log (LogArgs (logged_args a)), Log LogGetCA, FetchCA (ssl_ca_url a)] @
                                 (if ca_ok e then [] else [Log LogCAError])\<rparr>)"
  using assms by (simp add: run_def load_config_Inr fetch_ca_apply fetch_secret_def st_simps)

theorem run_missing_creds_witness:
  "run (default_args ''s3://b/k.csv'' ''sales'')
       \<lparr>ca_ok = False, secrets = Map.empty, connect_ok = True, objects = Map.empty, insert_fails = (\<lambda>_. False)\<rparr>
       (start Map.empty)
   = (Inl (ArgError msg_user),
      (start Map.empty)\<lparr>trace := [Log (LogArgs (logged_args (default_args ''s3://b/k.csv'' ''sales''))), Log LogGetCA,
         FetchCA ''https://s3.amazonaws.com/rds-downloads/rds-combined-ca-bundle.pem'', Log LogCAError]\<rparr>)"
proof -
  have m: "valid_delete_mode (normalize_delete_mode (delete_mode (default_args ''s3://b/k.csv'' ''sales'')))"
    by (simp add: default_args_def str_eval)
  have n: "db_secret_arn (default_args ''s3://b/k.csv'' ''sales'') = None"
    by (simp add: default_args_def)
  have r: "require_creds (creds_of_args (default_args ''s3://b/k.csv'' ''sales'')) = Inl (ArgError msg_user)"
    by (simp add: require_creds_def creds_of_args_def default_args_def)
  show ?thesis
    using run_missing_creds [OF m n r, where e = "\<lparr>ca_ok = False, secrets = Map.empty, connect_ok = True,
            objects = Map.empty, insert_fails = (\<lambda>_. False)\<rparr>" and w = "start Map.empty"]
    by (simp add: default_args_def start_def)
qed

lemma run_connected:
  assumes "valid_delete_mode (normalize_delete_mode (delete_mode a))" "db_secret_arn a = None"
    "require_creds (creds_of_args a) = Inr c" "connect_ok e"
  shows "run a e w =
     bind_st (prepare_table (drop_table a) (delete_rows a) (normalize_delete_mode (delete_mode a)) (the (c_name c)) (table_name a))
       (\<lambda>_. bind_st (load e (projr (load_config a)) (the (c_name c))) (\<lambda>rc. verify (the (c_name c)) (table_name a) rc))
       (w\<lparr>trace := trace w @ connected_prefix a e c\<rparr>)"
  using assms
  by (simp add: run_def load_config_Inr fetch_ca_apply fetch_secret_def connect_def connected_prefix_def st_simps
           cong: prod.case_cong sum.case_cong)

lemma count_rows_apply:
  "committed (wdb w) = work (wdb w) \<Longrightarrow> work (wdb w) (dbn, tbl) = Some tb \<Longrightarrow>
   count_rows dbn tbl w = (Inr (length (tbl_rows tb)), w\<lparr>trace := trace w @ [Sql (SelectCount dbn tbl)]\<rparr>)"
  by (simp add: count_rows_def sql_def st_simps)

lemma length_frame_rows [simp]: "length (frame_rows f) = length (rows f)"
  by (simp add: frame_rows_def)

text \<open>
  C1. End to end with \<open>--drop_table\<close>: when the arguments are valid,
  the server accepts the connection and every insert, and every row of the file fits
  the column types inferred from the first chunk, the run succeeds, the committed table
  holds exactly the rows of the file with those types, and the last log lines report
  the same count for the table and for the file.
\<close>

theorem run_drop_reload:
  assumes mode: "valid_delete_mode (normalize_delete_mode (delete_mode a))"
    and arn: "db_secret_arn a = None" and cr: "require_creds (creds_of_args a) = Inr c"
    and drop: "drop_table a" and conn: "connect_ok e" and nofail: "\<forall>j. \<not> insert_fails e j"
    and obj: "objects e (s3_object a) = Some csv" and ne: "rows csv \<noteq> []" and k: "0 < chunk_size a"
    and fit: "rows_storable (convert_dtypes (chunk_frame (header csv) (take (nat (chunk_size a)) (rows csv))))
                (frame_rows csv)"
  shows "\<exists>w'. run a e w = (Inr (), w') \<and>
           committed (wdb w') (the (c_name c), table_name a) =
             Some \<lparr>tbl_cols = convert_dtypes (chunk_frame (header csv) (take (nat (chunk_size a)) (rows csv))),
                   tbl_rows = frame_rows csv\<rparr> \<and>
           (\<exists>pre. trace w' = pre @ [CloseConn, Log (LogDbCount (length (rows csv))),
                                     Log (LogCsvCount (length (rows csv))), Log LogFinished])"
proof -
  let ?d = "the (c_name c)" and ?t = "table_name a" and ?k = "nat (chunk_size a)"
  let ?cs = "chunks ?k (rows csv)" and ?c1 = "take ?k (rows csv)"
  let ?w1 = "w\<lparr>trace := trace w @ connected_prefix a e c\<rparr>"
  obtain w2 where prep: "prepare_table True (delete_rows a) (normalize_delete_mode (delete_mode a)) ?d ?t ?w1 = (Inr (), w2)"
      and clean2: "work (wdb w2) = committed (wdb w2)" and absent2: "committed (wdb w2) (?d, ?t) = None"
    by (simp add: prepare_table_drop)
  have kpos: "0 < ?k" using k by simp
  have cs: "?cs = ?c1 # chunks ?k (drop ?k (rows csv))" using kpos ne by (simp add: chunks_step)
  have cat: "concat ?cs = rows csv" using kpos by (rule concat_chunks)
  have nonempty: "\<forall>c \<in> set ?cs. c \<noteq> []" using chunks_bounded by blast
  have fit': "rows_storable (convert_dtypes (chunk_frame (header csv) ?c1))
                (frame_rows \<lparr>header = header csv, rows = concat ?cs\<rparr>)"
    using fit cat by simp
  obtain w3 where ing: "ingest (insert_fails e) 0 (header csv) ?cs ?t ?d 0 w2 = (Inr (length (rows csv)), w3)"
      and tb3: "committed (wdb w3) (?d, ?t) =
                Some \<lparr>tbl_cols = convert_dtypes (chunk_frame (header csv) ?c1), tbl_rows = frame_rows csv\<rparr>"
      and clean3: "work (wdb w3) = committed (wdb w3)"
    using ingest_fresh [OF clean2 absent2 cs nonempty nofail fit', where i = 0 and rc = 0] cat by auto
  have load: "load e (projr (load_config a)) ?d w2 = (Inr (length (rows csv)), w3)"
    using ing k obj mode ne by (simp add: load_def load_config_Inr open_source_def read_chunks_def st_simps)
  have cnt: "count_rows ?d ?t w3 = (Inr (length (rows csv)), w3\<lparr>trace := trace w3 @ [Sql (SelectCount ?d ?t)]\<rparr>)"
    using count_rows_apply [of w3 ?d ?t] clean3 tb3 by simp
  show ?thesis
    using run_connected [OF mode arn cr conn, of w] drop prep load cnt tb3 clean3
    by (simp add: verify_def close_conn_def close_db_def st_simps)
qed

lemmas run_eval = run_def default_args_def load_config_def check_delete_mode_def str_eval
  fetch_ca_def fetch_secret_def connect_def load_def open_source_def read_chunks_def chunks_step
  prepare_table_def table_exists_def verify_def count_rows_def close_conn_def close_db_def to_sql_simps
  frame_rows_def chunk_frame_def convert_dtypes_def column_def cell_at_def infer_column_def
  rows_fit_def rows_storable_def storable_def require_creds_def creds_of_args_def start_def list_all_iff

end
