(* ===== verification/SqlText.thy ===== *)
theory SqlText
  imports Database
begin

text \<open>
  The SQL text the script sends (lines 124, 133, 139, 143 and 165 of
  \<open>src/load_csv_to_mysql.py\<close>): each statement is built with \<open>str.format\<close>,
  the names pasted in unquoted as \<open>db.table\<close> (and between single quotes in the
  existence query). \<open>Database\<close> treats a statement's (database, table) pair as
  an opaque key; that is faithful exactly when the text determines the pair. The
  lemmas show it does for names that are plain MySQL identifiers, and that it does not
  in general: distinct targets can produce the same text, and a table name can smuggle
  a second table into a DROP.
\<close>

definition sq :: char where
  "sq = CHR 0x27"

definition dotted :: "string \<Rightarrow> string \<Rightarrow> string" where
  "dotted d t = d @ ''.'' @ t"

definition exists_sql :: "string \<Rightarrow> string \<Rightarrow> string" where
  "exists_sql d t =
     ''SELECT 1 as exist FROM INFORMATION_SCHEMA.TABLES WHERE TABLE_SCHEMA = '' @ [sq] @ d @ [sq] @
     '' AND TABLE_NAME='' @ [sq] @ t @ [sq]"

fun stmt_sql :: "stmt \<Rightarrow> string option" where
  "stmt_sql (SelectExists d t) = Some (exists_sql d t)"
| "stmt_sql (DropIfExists d t) = Some (''DROP TABLE IF EXISTS '' @ dotted d t)"
| "stmt_sql (Truncate d t) = Some (''TRUNCATE TABLE '' @ dotted d t)"
| "stmt_sql (DeleteFrom d t) = Some (''DELETE FROM '' @ dotted d t)"
| "stmt_sql (SelectCount d t) = Some (''SELECT count(*) as count FROM '' @ dotted d t)"
| "stmt_sql _ = None"

definition ident_char :: "char \<Rightarrow> bool" where
  "ident_char c \<longleftrightarrow>
     (let n = of_char c :: nat in (48 \<le> n \<and> n \<le> 57) \<or> (65 \<le> n \<and> n \<le> 90) \<or> (97 \<le> n \<and> n \<le> 122) \<or> n = 95 \<or> n = 36)"

definition sql_ident :: "string \<Rightarrow> bool" where
  "sql_ident n \<longleftrightarrow> n \<noteq> [] \<and> list_all ident_char n"

text \<open>
  Reading a statement back from its text, for names that are identifiers: strip the
  statement's fixed prefix, then split the rest at the separators the format string
  put in.
\<close>

fun strip_pre :: "string \<Rightarrow> string \<Rightarrow> string option" where
  "strip_pre [] s = Some s"
| "strip_pre (c # cs) [] = None"
| "strip_pre (c # cs) (d # ds) = (if c = d then strip_pre cs ds else None)"

definition split_at :: "char \<Rightarrow> string \<Rightarrow> (string \<times> string) option" where
  "split_at c s = (if c \<in> set s then Some (takeWhile (\<lambda>x. x \<noteq> c) s, tl (dropWhile (\<lambda>x. x \<noteq> c) s)) else None)"

definition parse_target :: "string \<Rightarrow> (string \<times> string) option" where
  "parse_target s =
     (case split_at CHR ''.'' s of
        Some (d, t) \<Rightarrow> if sql_ident d \<and> sql_ident t then Some (d, t) else None
      | None \<Rightarrow> None)"

definition parse_exists :: "string \<Rightarrow> (string \<times> string) option" where
  "parse_exists s =
     (case split_at sq s of
        Some (d, r) \<Rightarrow>
          (case strip_pre ('' AND TABLE_NAME='' @ [sq]) r of
             Some r' \<Rightarrow>
               (if r' \<noteq> [] \<and> last r' = sq \<and> sql_ident d \<and> sql_ident (butlast r')
                then Some (d, butlast r') else None)
           | None \<Rightarrow> None)
      | None \<Rightarrow> None)"

definition parse_stmt_sql :: "string \<Rightarrow> stmt option" where
  "parse_stmt_sql s =
     (case strip_pre ''DROP TABLE IF EXISTS '' s of
        Some r \<Rightarrow> map_option (\<lambda>(d, t). DropIfExists d t) (parse_target r)
      | None \<Rightarrow>
     (case strip_pre ''TRUNCATE TABLE '' s of
        Some r \<Rightarrow> map_option (\<lambda>(d, t). Truncate d t) (parse_target r)
      | None \<Rightarrow>
     (case strip_pre ''DELETE FROM '' s of
        Some r \<Rightarrow> map_option (\<lambda>(d, t). DeleteFrom d t) (parse_target r)
      | None \<Rightarrow>
     (case strip_pre ''SELECT count(*) as count FROM '' s of
        Some r \<Rightarrow> map_option (\<lambda>(d, t). SelectCount d t) (parse_target r)
      | None \<Rightarrow>
     (case strip_pre (''SELECT 1 as exist FROM INFORMATION_SCHEMA.TABLES WHERE TABLE_SCHEMA = '' @ [sq]) s of
        Some r \<Rightarrow> map_option (\<lambda>(d, t). SelectExists d t) (parse_exists r)
      | None \<Rightarrow> None)))))"

fun names_ident :: "stmt \<Rightarrow> bool" where
  "names_ident (SelectExists d t) = (sql_ident d \<and> sql_ident t)"
| "names_ident (DropIfExists d t) = (sql_ident d \<and> sql_ident t)"
| "names_ident (Truncate d t) = (sql_ident d \<and> sql_ident t)"
| "names_ident (DeleteFrom d t) = (sql_ident d \<and> sql_ident t)"
| "names_ident (SelectCount d t) = (sql_ident d \<and> sql_ident t)"
| "names_ident _ = False"

subsection \<open>Lemmas\<close>

lemma ident_not_dot: "sql_ident n \<Longrightarrow> CHR ''.'' \<notin> set n"
  by (auto simp: sql_ident_def list_all_iff ident_char_def Let_def)

lemma ident_not_sq: "sql_ident n \<Longrightarrow> sq \<notin> set n"
  by (auto simp: sql_ident_def list_all_iff ident_char_def Let_def sq_def)

lemma strip_pre_append [simp]: "strip_pre p (p @ r) = Some r"
  by (induction p) simp_all

lemma strip_pre_Some: "strip_pre p s = Some r \<Longrightarrow> s = p @ r"
  by (induction p s rule: strip_pre.induct) (auto split: if_splits)

lemma split_at_append: "c \<notin> set d \<Longrightarrow> split_at c (d @ c # t) = Some (d, t)"
  by (induction d) (auto simp: split_at_def)

lemma split_at_Some:
  assumes "split_at c s = Some (d, t)"
  shows "s = d @ c # t"
proof -
  from assms have c: "c \<in> set s" and d: "d = takeWhile (\<lambda>x. x \<noteq> c) s"
    and t: "t = tl (dropWhile (\<lambda>x. x \<noteq> c) s)"
    by (auto simp: split_at_def split: if_splits)
  from c have ne: "dropWhile (\<lambda>x. x \<noteq> c) s \<noteq> []" by (simp add: dropWhile_eq_Nil_conv)
  then obtain x xs where dw: "dropWhile (\<lambda>x. x \<noteq> c) s = x # xs"
    by (cases "dropWhile (\<lambda>x. x \<noteq> c) s") simp_all
  from hd_dropWhile [OF ne] dw have "x = c" by simp
  with dw t have "dropWhile (\<lambda>x. x \<noteq> c) s = c # t" by simp
  with d show ?thesis using takeWhile_dropWhile_id [of "\<lambda>x. x \<noteq> c" s] by simp
qed

lemma parse_target_dotted: "sql_ident d \<Longrightarrow> sql_ident t \<Longrightarrow> parse_target (dotted d t) = Some (d, t)"
  by (simp add: parse_target_def dotted_def split_at_append ident_not_dot)

lemma parse_target_Some:
  "parse_target s = Some (d, t) \<Longrightarrow> s = dotted d t \<and> sql_ident d \<and> sql_ident t"
  by (auto simp: parse_target_def dotted_def dest: split_at_Some split: option.splits if_splits)

lemma parse_exists_sql:
  "sql_ident d \<Longrightarrow> sql_ident t \<Longrightarrow>
   parse_exists (d @ [sq] @ '' AND TABLE_NAME='' @ [sq] @ t @ [sq]) = Some (d, t)"
  using split_at_append [OF ident_not_sq [of d], of "'' AND TABLE_NAME='' @ [sq] @ t @ [sq]"]
  by (simp add: parse_exists_def)

lemma parse_exists_Some:
  assumes "parse_exists s = Some (d, t)"
  shows "s = d @ [sq] @ '' AND TABLE_NAME='' @ [sq] @ t @ [sq] \<and> sql_ident d \<and> sql_ident t"
proof -
  from assms obtain r r' where sp: "split_at sq s = Some (d, r)"
    and st: "strip_pre ('' AND TABLE_NAME='' @ [sq]) r = Some r'"
    and r': "r' \<noteq> []" "last r' = sq" "t = butlast r'" and ids: "sql_ident d" "sql_ident t"
    by (auto simp: parse_exists_def split: option.splits if_splits)
  from r' have "r' = t @ [sq]" by (metis append_butlast_last_id)
  with split_at_Some [OF sp] strip_pre_Some [OF st] ids show ?thesis by simp
qed

lemma parse_exists_stmt:
  assumes "sql_ident d" "sql_ident t"
  shows "parse_stmt_sql (exists_sql d t) = Some (SelectExists d t)"
proof -
  let ?p = "''SELECT 1 as exist FROM INFORMATION_SCHEMA.TABLES WHERE TABLE_SCHEMA = '' @ [sq]"
  let ?r = "d @ [sq] @ '' AND TABLE_NAME='' @ [sq] @ t @ [sq]"
  have e: "exists_sql d t = ?p @ ?r" by (simp add: exists_sql_def)
  have n1: "strip_pre ''DROP TABLE IF EXISTS '' (?p @ ?r) = None" by simp
  have n2: "strip_pre ''TRUNCATE TABLE '' (?p @ ?r) = None" by simp
  have n3: "strip_pre ''DELETE FROM '' (?p @ ?r) = None" by simp
  have n4: "strip_pre ''SELECT count(*) as count FROM '' (?p @ ?r) = None" by simp
  have y: "strip_pre ?p (?p @ ?r) = Some ?r" by (rule strip_pre_append)
  show ?thesis
    unfolding e parse_stmt_sql_def n1 n2 n3 n4 y using parse_exists_sql [OF assms] by simp
qed

text \<open>
  C16. For the five statements the script writes itself, the SQL text
  determines the statement when the database and table names are MySQL identifiers:
  rendering with the format strings of lines 124--165 and parsing back are inverse,
  and the parser accepts nothing else.
\<close>

theorem stmt_sql_roundtrip:
  "parse_stmt_sql txt = Some s \<longleftrightarrow> names_ident s \<and> stmt_sql s = Some txt"
proof
  assume p: "parse_stmt_sql txt = Some s"
  show "names_ident s \<and> stmt_sql s = Some txt"
    using p unfolding parse_stmt_sql_def
    by (auto split: option.splits dest!: strip_pre_Some parse_target_Some parse_exists_Some
             simp: exists_sql_def)
next
  assume h: "names_ident s \<and> stmt_sql s = Some txt"
  then show "parse_stmt_sql txt = Some s"
  proof (cases s)
    case (SelectExists d t)
    with h show ?thesis by (auto simp: parse_exists_stmt)
  qed (auto simp: parse_stmt_sql_def parse_target_dotted)
qed

text \<open>
  Without identifier names the text no longer determines the target:
  the DROP of line 133 for database \<open>shop.sales\<close> and table \<open>x\<close> reads
  exactly like the one for \<open>shop\<close> and \<open>sales.x\<close>, and with
  \<open>--table_name "tmp, shop.customers"\<close> the disposition sends a DROP whose text
  names a second table, \<open>shop.customers\<close>.
\<close>

theorem drop_sql_injection:
  "stmt_sql (DropIfExists ''shop.sales'' ''x'') = stmt_sql (DropIfExists ''shop'' ''sales.x'') \<and>
   Sql (DropIfExists ''shop'' ''tmp, shop.customers'')
     \<in> set (trace (snd (prepare_table True del_rows mode ''shop'' ''tmp, shop.customers'' w))) \<and>
   stmt_sql (DropIfExists ''shop'' ''tmp, shop.customers'') = Some ''DROP TABLE IF EXISTS shop.tmp, shop.customers''"
  by (simp add: dotted_def prepare_table_def world_simps)

theorem stmt_sql_roundtrip_witness:
  "parse_stmt_sql ''DROP TABLE IF EXISTS shop.sales'' = Some (DropIfExists ''shop'' ''sales'')"
proof -
  have "names_ident (DropIfExists ''shop'' ''sales'') \<and>
        stmt_sql (DropIfExists ''shop'' ''sales'') = Some ''DROP TABLE IF EXISTS shop.sales''"
    by (simp add: sql_ident_def ident_char_def dotted_def)
  then show ?thesis using stmt_sql_roundtrip by blast
qed

end
