(* ===== verification/Runs.thy ===== *)
theory Runs
  imports Script SqlText
begin

text \<open>
  Properties of whole runs of \<open>src/load_csv_to_mysql.py\<close> that follow values from
  one step of the script to a later one. \<open>events_ok P\<close> says that every event of
  the trace satisfies \<open>P\<close>; it is carried through the operations with the rules
  \<open>pres_rules\<close> of \<open>Prelude\<close>. \<open>run_events\<close> is the general rule for a run: the
  credentials that reach \<open>pymysql.connect\<close> (line 108) keep the port of the
  arguments and take the database name from \<open>--db_name\<close> or from the secret's
  \<open>dbname\<close> (lines 96--100), and every later statement addresses that database and
  the table \<open>--table_name\<close>. The theorems show that the port dialled is always the
  argument's, and what a run leaves committed when the S3 source cannot be read.
\<close>

fun stmt_key :: "stmt \<Rightarrow> (string \<times> string) option" where
  "stmt_key (SelectExists d t) = Some (d, t)"
| "stmt_key (DropIfExists d t) = Some (d, t)"
| "stmt_key (Truncate d t) = Some (d, t)"
| "stmt_key (DeleteFrom d t) = Some (d, t)"
| "stmt_key (TableCheck d t) = Some (d, t)"
| "stmt_key (CreateTable d t _) = Some (d, t)"
| "stmt_key (InsertRows d t _) = Some (d, t)"
| "stmt_key (SelectCount d t) = Some (d, t)"
| "stmt_key Commit = None"
| "stmt_key Rollback = None"

definition events_ok :: "(event \<Rightarrow> bool) \<Rightarrow> world \<Rightarrow> bool" where
  "events_ok P w \<longleftrightarrow> list_all P (trace w)"

text \<open>The events the steps after the connection emit for database \<open>d\<close> and table \<open>t\<close>.\<close>

definition table_event :: "string \<Rightarrow> string \<Rightarrow> event \<Rightarrow> bool" where
  "table_event d t ev =
     (case ev of
        Sql s \<Rightarrow> stmt_key s = None \<or> stmt_key s = Some (d, t)
      | Log _ \<Rightarrow> True
      | ReadChunk _ \<Rightarrow> True
      | CloseConn \<Rightarrow> True
      | _ \<Rightarrow> False)"

definition port_is :: "int \<Rightarrow> event \<Rightarrow> bool" where
  "port_is p ev = (case ev of Connect _ q _ _ _ \<Rightarrow> q = p | _ \<Rightarrow> True)"

subsection \<open>Events of the operations\<close>

lemma rollback_on_error_pres:
  "preserves P m \<Longrightarrow> preserves P (sql Rollback) \<Longrightarrow> preserves P (rollback_on_error m)"
  by (auto simp: preserves_def rollback_on_error_def bind_st_def raise_st_def split: prod.splits sum.splits)

lemma events_emit: "P ev \<Longrightarrow> preserves (events_ok P) (emit ev)"
  by (simp add: preserves_def emit_def events_ok_def)

lemma events_sql: "P (Sql s) \<Longrightarrow> preserves (events_ok P) (sql s)"
  by (simp add: preserves_def sql_def events_ok_def split: prod.splits)

lemma events_close_conn: "P CloseConn \<Longrightarrow> preserves (events_ok P) close_conn"
  by (simp add: preserves_def close_conn_def events_ok_def)

lemma events_insert_st:
  "P (Sql (InsertRows dbn tbl rs)) \<Longrightarrow> preserves (events_ok P) (insert_st fail dbn tbl rs)"
  using events_sql [of P "InsertRows dbn tbl rs"]
  by (simp add: preserves_def insert_st_def events_ok_def)

lemmas ev_rules = pres_rules events_emit events_sql events_close_conn events_insert_st rollback_on_error_pres

lemma prepare_table_events:
  assumes "\<And>ev. table_event dbn tbl ev \<Longrightarrow> P ev"
  shows "preserves (events_ok P) (prepare_table drop_tbl del_rows mode dbn tbl)"
  unfolding prepare_table_def table_exists_def
  by (intro ev_rules; rule assms; simp add: table_event_def)

lemma to_sql_events:
  assumes "\<And>ev. table_event dbn tbl ev \<Longrightarrow> P ev"
  shows "preserves (events_ok P) (to_sql fail f tbl dbn)"
  unfolding to_sql_def
  by (intro ev_rules; rule assms; simp add: table_event_def)

lemma ingest_events:
  assumes "\<And>ev. table_event dbn tbl ev \<Longrightarrow> P ev"
  shows "preserves (events_ok P) (ingest fails i hdr cs tbl dbn rc)"
proof (induction cs arbitrary: i rc)
  case (Cons c cs)
  show ?case
    by (simp only: ingest.simps)
       (intro ev_rules to_sql_events Cons.IH; rule assms; simp add: table_event_def)
qed (simp add: preserves_return)

lemma load_events:
  assumes "\<And>ev. table_event dbn (cfg_table cfg) ev \<Longrightarrow> P ev"
  shows "preserves (events_ok P) (load e cfg dbn)"
  unfolding load_def by (intro ev_rules ingest_events assms)

lemma verify_events:
  assumes "\<And>ev. table_event dbn tbl ev \<Longrightarrow> P ev"
  shows "preserves (events_ok P) (verify dbn tbl rc)"
  unfolding verify_def count_rows_def
  by (intro ev_rules; rule assms; simp add: table_event_def)

subsection \<open>The credentials that reach the connection\<close>

lemma load_config_fields:
  "load_config a = Inr cfg \<Longrightarrow>
   cfg_creds cfg = creds_of_args a \<and> cfg_arn cfg = db_secret_arn a \<and> cfg_table cfg = table_name a \<and>
   cfg_ssl_ca cfg = ssl_ca_url a \<and> cfg_object cfg = s3_object a \<and> cfg_chunk cfg = chunk_size a"
  by (auto simp: load_config_def bind_res_eq_Inr)

lemma bundle_field_Some:
  "bundle_field b k = Some n \<longleftrightarrow> b k = Some (JStr n)"
  "Some n = bundle_field b k \<longleftrightarrow> b k = Some (JStr n)"
  by (auto simp: bundle_field_def py_of_jval_def split: option.splits jval.splits)

lemma fetch_secret_creds:
  assumes "fetch_secret e cfg w = (Inr c0, w')" "c_name c0 = Some n"
  shows "c_port c0 = c_port (cfg_creds cfg) \<and>
         (c_name (cfg_creds cfg) = Some n \<or>
          (\<exists>arn b. secrets e arn = Some (SecretJson b) \<and> b ''dbname'' = Some (JStr n)))"
proof (cases "cfg_arn cfg")
  case None
  with assms show ?thesis by (simp add: fetch_secret_def return_st_def)
next
  case (Some arn)
  with assms obtain b where sec: "secrets e arn = Some (SecretJson b)"
      and m: "merge_secret (cfg_creds cfg) b = Inr c0"
    by (auto simp: fetch_secret_def st_simps split: option.splits secret_value.splits sum.splits)
  from merge_secret_port_name [OF m] sec assms(2) show ?thesis
    by (auto simp: first_set_def bundle_field_Some split: option.splits)
qed

lemma fetch_secret_events:
  assumes "\<And>arn. P (Log (LogFetchSecret arn))" "\<And>arn. P (FetchSecret arn)" "P (Log LogRetrievedSecret)"
  shows "preserves (events_ok P) (fetch_secret e cfg)"
  unfolding fetch_secret_def
  by (intro ev_rules assms) (simp split: secret_value.split add: preserves_raise preserves_lift)

text \<open>
  A property of events holds along a run when it holds for the events of each step:
  the connection is made with credentials whose port is the argument's and whose
  database name is the argument's or the secret's, and the steps after it emit only
  events for that database and \<open>--table_name\<close>.
\<close>

lemma run_events:
  assumes args: "P (Log (LogArgs (logged_args a)))"
    and ca: "P (Log LogGetCA)" "P (FetchCA (ssl_ca_url a))" "P (Log LogCAError)"
    and sec: "\<And>arn. P (Log (LogFetchSecret arn))" "\<And>arn. P (FetchSecret arn)" "P (Log LogRetrievedSecret)"
    and conn: "\<And>c n. c_port c = db_port a \<Longrightarrow> c_name c = Some n \<Longrightarrow>
         db_name a = Some n \<or> (\<exists>arn b. secrets e arn = Some (SecretJson b) \<and> b ''dbname'' = Some (JStr n)) \<Longrightarrow>
         preserves (events_ok P) (connect e c) \<and> (\<forall>ev. table_event n (table_name a) ev \<longrightarrow> P ev)"
  shows "preserves (events_ok P) (run a e)"
  unfolding run_def
proof (rule preserves_bind [OF events_emit [where P = P, OF args]], rule preserves_bind_lift)
  fix cfg assume "load_config a = Inr cfg"
  note cf = load_config_fields [OF this]
  show "preserves (events_ok P) (bind_st (fetch_ca e (cfg_ssl_ca cfg)) (\<lambda>_.
      bind_st (fetch_secret e cfg) (\<lambda>c0. bind_st (lift_res (require_creds c0)) (\<lambda>c.
      bind_st (connect e c) (\<lambda>_.
      bind_st (prepare_table (cfg_drop cfg) (cfg_delete cfg) (cfg_mode cfg) (the (c_name c)) (cfg_table cfg)) (\<lambda>_.
      bind_st (load e cfg (the (c_name c))) (\<lambda>rc. verify (the (c_name c)) (cfg_table cfg) rc)))))))"
  proof (rule preserves_bind)
    show "preserves (events_ok P) (fetch_ca e (cfg_ssl_ca cfg))"
      unfolding fetch_ca_def using ca cf by (intro ev_rules) simp_all
  next
    fix u :: unit
    show "preserves (events_ok P) (bind_st (fetch_secret e cfg) (\<lambda>c0. bind_st (lift_res (require_creds c0)) (\<lambda>c.
      bind_st (connect e c) (\<lambda>_.
      bind_st (prepare_table (cfg_drop cfg) (cfg_delete cfg) (cfg_mode cfg) (the (c_name c)) (cfg_table cfg)) (\<lambda>_.
      bind_st (load e cfg (the (c_name c))) (\<lambda>rc. verify (the (c_name c)) (cfg_table cfg) rc))))))"
    proof (rule preserves_bind_ret [OF fetch_secret_events [OF sec]])
      fix c0 s s' assume fs: "fetch_secret e cfg s = (Inr c0, s')"
      show "preserves (events_ok P) (bind_st (lift_res (require_creds c0)) (\<lambda>c.
        bind_st (connect e c) (\<lambda>_.
        bind_st (prepare_table (cfg_drop cfg) (cfg_delete cfg) (cfg_mode cfg) (the (c_name c)) (cfg_table cfg)) (\<lambda>_.
        bind_st (load e cfg (the (c_name c))) (\<lambda>rc. verify (the (c_name c)) (cfg_table cfg) rc)))))"
      proof (rule preserves_bind_lift)
        fix c assume "require_creds c0 = Inr c"
        then have c: "c = c0" and "c_name c \<noteq> None" by (auto simp: require_creds_def split: if_splits)
        then obtain n where n: "c_name c = Some n" by blast
        from fetch_secret_creds [OF fs, of n] c n cf
        have "c_port c = db_port a"
          and "db_name a = Some n \<or> (\<exists>arn b. secrets e arn = Some (SecretJson b) \<and> b ''dbname'' = Some (JStr n))"
          by (simp_all add: creds_of_args_def)
        then have cn: "preserves (events_ok P) (connect e c)"
            and tb: "\<And>ev. table_event n (table_name a) ev \<Longrightarrow> P ev"
          using conn n by blast+
        show "preserves (events_ok P) (bind_st (connect e c) (\<lambda>_.
          bind_st (prepare_table (cfg_drop cfg) (cfg_delete cfg) (cfg_mode cfg) (the (c_name c)) (cfg_table cfg)) (\<lambda>_.
          bind_st (load e cfg (the (c_name c))) (\<lambda>rc. verify (the (c_name c)) (cfg_table cfg) rc))))"
          using n cf
          by (intro ev_rules cn prepare_table_events load_events verify_events; simp add: tb)
      qed
    qed
  qed
qed

subsection \<open>The port dialled\<close>

text \<open>
  C17.
  Every connection a run makes dials the port given by \<open>--db_port\<close>, or pymysql's
  3306 when there is none, whatever the secret holds: line 100 reads the secret's
  port and discards it.
\<close>

theorem run_dials_args_port:
  assumes "events_ok (port_is (client_port (db_port a))) w"
  shows "events_ok (port_is (client_port (db_port a))) (snd (run a e w))"
proof -
  have "preserves (events_ok (port_is (client_port (db_port a)))) (run a e)"
  proof (rule run_events)
    fix c :: creds and n :: string assume "c_port c = db_port a"
    then show "preserves (events_ok (port_is (client_port (db_port a)))) (connect e c) \<and>
        (\<forall>ev. table_event n (table_name a) ev \<longrightarrow> port_is (client_port (db_port a)) ev)"
      unfolding connect_def
      by (intro conjI ev_rules allI impI) (simp_all add: port_is_def table_event_def split: event.splits)
  qed (simp_all add: port_is_def)
  then show ?thesis using assms by (rule preservesD)
qed

theorem run_dials_args_port_witness:
  "events_ok (port_is 3306) (snd (run ((default_args ''s3://b/k.csv'' ''sales'')\<lparr>db_secret_arn := Some ''arn:secret''\<rparr>)
     \<lparr>ca_ok = True,
      secrets = [''arn:secret'' \<mapsto> SecretJson [''username'' \<mapsto> JStr ''admin'', ''password'' \<mapsto> JStr ''pw'',
                 ''host'' \<mapsto> JStr ''db.example.com'', ''dbname'' \<mapsto> JStr ''shop'', ''port'' \<mapsto> JStr ''3307'']],
      connect_ok = True, objects = Map.empty, insert_fails = (\<lambda>_. False)\<rparr>
     (start Map.empty)))"
proof -
  let ?a = "(default_args ''s3://b/k.csv'' ''sales'')\<lparr>db_secret_arn := Some ''arn:secret''\<rparr>"
  have "events_ok (port_is (client_port (db_port ?a))) (start Map.empty)"
    by (simp add: events_ok_def start_def)
  from run_dials_args_port [OF this] show ?thesis
    by (simp add: default_args_def client_port_def)
qed

subsection \<open>A source that cannot be read\<close>

lemma prepare_table_result:
  "\<exists>w'. prepare_table drop_tbl del_rows mode dbn tbl w = (Inr (), w') \<and>
     committed (wdb w') =
       (if drop_tbl \<or> (del_rows \<and> work (wdb w) (dbn, tbl) \<noteq> None \<and> normalize_delete_mode mode = ''TRUNCATE'')
        then tables_after_prepare drop_tbl del_rows dbn tbl (work (wdb w)) else committed (wdb w)) \<and>
     work (wdb w') = tables_after_prepare drop_tbl del_rows dbn tbl (work (wdb w))"
  by (auto simp: prepare_table_def table_exists_def tables_after_prepare_def world_simps split: option.splits)

lemma load_source_failure:
  assumes "objects e (cfg_object cfg) = None \<or> cfg_chunk cfg < 1 \<or>
           (\<exists>csv. objects e (cfg_object cfg) = Some csv \<and> rows csv = [])"
  shows "\<exists>w'. load e cfg dbn w =
     (Inl (case objects e (cfg_object cfg) of
             None \<Rightarrow> ClientError ''404 Not Found''
           | Some csv \<Rightarrow> if cfg_chunk cfg < 1 then ValueError ''chunksize must be an integer >=1'' else EmptyDataFrame),
      w') \<and> wdb w' = wdb w"
  using assms
  by (auto simp: load_def open_source_def read_chunks_def st_simps ingest_empty_chunk
           split: option.splits simp del: ingest.simps)

text \<open>
  C8.
  The table disposition of lines 130--145 runs before the lazy reader of line 116
  first touches S3 (line 149). When the source cannot be read -- no such object, a
  chunk size below 1, or a file with a header and no rows, whose one empty chunk
  \<open>to_sql\<close> refuses -- the run fails with that error, and the committed tables are
  exactly what the disposition committed: with \<open>--drop_table\<close> the table is gone,
  in TRUNCATE mode it is emptied, and in DELETE mode or with neither flag it is as
  before (the pending DELETE is discarded).
\<close>

theorem run_source_failure:
  assumes mode: "valid_delete_mode (normalize_delete_mode (delete_mode a))"
    and arn: "db_secret_arn a = None" and cr: "require_creds (creds_of_args a) = Inr c"
    and conn: "connect_ok e" and clean: "work (wdb w) = committed (wdb w)"
    and src: "objects e (s3_object a) = None \<or> chunk_size a < 1 \<or>
              (\<exists>csv. objects e (s3_object a) = Some csv \<and> rows csv = [])"
  shows "fst (run a e w) =
           Inl (case objects e (s3_object a) of
                  None \<Rightarrow> ClientError ''404 Not Found''
                | Some csv \<Rightarrow> if chunk_size a < 1 then ValueError ''chunksize must be an integer >=1''
                             else EmptyDataFrame) \<and>
         committed (wdb (snd (run a e w))) =
           (if drop_table a \<or> (delete_rows a \<and> committed (wdb w) (the (c_name c), table_name a) \<noteq> None \<and>
                               normalize_delete_mode (delete_mode a) = ''TRUNCATE'')
            then tables_after_prepare (drop_table a) (delete_rows a) (the (c_name c)) (table_name a) (committed (wdb w))
            else committed (wdb w))"
proof -
  let ?d = "the (c_name c)" and ?t = "table_name a" and ?m = "normalize_delete_mode (delete_mode a)"
  let ?cfg = "projr (load_config a)"
  let ?w1 = "w\<lparr>trace := trace w @ connected_prefix a e c\<rparr>"
  obtain w2 where prep: "prepare_table (drop_table a) (delete_rows a) ?m ?d ?t ?w1 = (Inr (), w2)"
    and c2: "committed (wdb w2) =
       (if drop_table a \<or> (delete_rows a \<and> work (wdb ?w1) (?d, ?t) \<noteq> None \<and> normalize_delete_mode ?m = ''TRUNCATE'')
        then tables_after_prepare (drop_table a) (delete_rows a) ?d ?t (work (wdb ?w1)) else committed (wdb ?w1))"
    using prepare_table_result by blast
  have cfg: "cfg_object ?cfg = s3_object a" "cfg_chunk ?cfg = chunk_size a"
    using mode by (simp_all add: load_config_Inr)
  have "objects e (cfg_object ?cfg) = None \<or> cfg_chunk ?cfg < 1 \<or>
        (\<exists>csv. objects e (cfg_object ?cfg) = Some csv \<and> rows csv = [])"
    using src cfg by simp
  from load_source_failure [OF this, of ?d w2] obtain w3 where
    ld: "load e ?cfg ?d w2 =
       (Inl (case objects e (cfg_object ?cfg) of
               None \<Rightarrow> ClientError ''404 Not Found''
             | Some csv \<Rightarrow> if cfg_chunk ?cfg < 1 then ValueError ''chunksize must be an integer >=1''
                          else EmptyDataFrame), w3)"
    and w3: "wdb w3 = wdb w2" by blast
  have "run a e w = (Inl (case objects e (cfg_object ?cfg) of
               None \<Rightarrow> ClientError ''404 Not Found''
             | Some csv \<Rightarrow> if cfg_chunk ?cfg < 1 then ValueError ''chunksize must be an integer >=1''
                          else EmptyDataFrame), w3)"
    using run_connected [OF mode arn cr conn, of w] prep ld by (simp add: bind_st_apply)
  then show ?thesis
    using ld w3 c2 cfg clean by (auto simp: normalize_delete_mode_idem)
qed

theorem run_source_failure_witness:
  "fst (run ((default_args ''s3://b/empty.csv'' ''sales'')\<lparr>db_host := Some ''h'', db_name := Some ''shop'',
              db_user := Some ''etl'', db_password := Some ''pw'', drop_table := True\<rparr>)
       \<lparr>ca_ok = True, secrets = Map.empty, connect_ok = True,
        objects = [''s3://b/empty.csv'' \<mapsto> \<lparr>header = [''id''], rows = []\<rparr>], insert_fails = (\<lambda>_. False)\<rparr>
       (start [(''shop'', ''sales'') \<mapsto> \<lparr>tbl_cols = [(''id'', TInt)], tbl_rows = [[CInt 1]]\<rparr>]))
     = Inl EmptyDataFrame \<and>
   committed (wdb (snd (run ((default_args ''s3://b/empty.csv'' ''sales'')\<lparr>db_host := Some ''h'', db_name := Some ''shop'',
              db_user := Some ''etl'', db_password := Some ''pw'', drop_table := True\<rparr>)
       \<lparr>ca_ok = True, secrets = Map.empty, connect_ok = True,
        objects = [''s3://b/empty.csv'' \<mapsto> \<lparr>header = [''id''], rows = []\<rparr>], insert_fails = (\<lambda>_. False)\<rparr>
       (start [(''shop'', ''sales'') \<mapsto> \<lparr>tbl_cols = [(''id'', TInt)], tbl_rows = [[CInt 1]]\<rparr>]))))
     (''shop'', ''sales'') = None"
proof -
  let ?a = "(default_args ''s3://b/empty.csv'' ''sales'')\<lparr>db_host := Some ''h'', db_name := Some ''shop'',
              db_user := Some ''etl'', db_password := Some ''pw'', drop_table := True\<rparr>"
  let ?e = "\<lparr>ca_ok = True, secrets = Map.empty, connect_ok = True,
        objects = [''s3://b/empty.csv'' \<mapsto> \<lparr>header = [''id''], rows = []\<rparr>], insert_fails = (\<lambda>_. False)\<rparr>"
  let ?w = "start [(''shop'', ''sales'') \<mapsto> \<lparr>tbl_cols = [(''id'', TInt)], tbl_rows = [[CInt 1]]\<rparr>]"
  have mode: "valid_delete_mode (normalize_delete_mode (delete_mode ?a))"
    by (simp add: default_args_def str_eval)
  have cr: "require_creds (creds_of_args ?a) = Inr (creds_of_args ?a)"
    by (simp add: require_creds_def creds_of_args_def default_args_def)
  have src: "objects ?e (s3_object ?a) = None \<or> chunk_size ?a < 1 \<or>
             (\<exists>csv. objects ?e (s3_object ?a) = Some csv \<and> rows csv = [])"
    by (simp add: default_args_def)
  from run_source_failure [OF mode _ cr _ _ src, where w = ?w]
  show ?thesis
    by (simp add: default_args_def creds_of_args_def start_def tables_after_prepare_def)
qed

end
