(* ===== verification/Integrity.thy ===== *)
theory Integrity
  imports Runs
begin

text \<open>
  Invariants of the whole script, stated over the \<open>world\<close> and proved
  operation by operation with the rules \<open>pres_rules\<close> of \<open>Prelude\<close>.
  \<open>untouched k X\<close>: the table under key \<open>k\<close> is \<open>X\<close> both committed and in
  the connection's view; the script keeps it for every key whose table name is not
  \<open>--table_name\<close>. \<open>names_ok t\<close>: every statement sent addresses table
  \<open>t\<close> in a database whose name is an identifier. \<open>inserts_within k\<close>: no INSERT
  carries more than \<open>k\<close> rows.
\<close>

definition untouched :: "string \<times> string \<Rightarrow> table option \<Rightarrow> world \<Rightarrow> bool" where
  "untouched k X w \<longleftrightarrow> committed (wdb w) k = X \<and> work (wdb w) k = X"

definition names_ok :: "string \<Rightarrow> event \<Rightarrow> bool" where
  "names_ok t ev =
     (case ev of
        Sql s \<Rightarrow> (case stmt_key s of None \<Rightarrow> True | Some (d, t') \<Rightarrow> t' = t \<and> sql_ident d \<and> sql_ident t')
      | _ \<Rightarrow> True)"

definition ev_within :: "nat \<Rightarrow> event \<Rightarrow> bool" where
  "ev_within k ev = (case ev of Sql (InsertRows _ _ rs) \<Rightarrow> length rs \<le> k | _ \<Rightarrow> True)"

definition inserts_within :: "nat \<Rightarrow> world \<Rightarrow> bool" where
  "inserts_within k = events_ok (ev_within k)"

subsection \<open>Tables other than the target\<close>

lemma sql_untouched: "stmt_key s \<noteq> Some k \<Longrightarrow> preserves (untouched k X) (sql s)"
  by (cases s) (auto simp: preserves_def sql_def untouched_def ddl_def dml_def split: option.splits)

lemma emit_untouched [pres_rules]: "preserves (untouched k X) (emit e)"
  by (simp add: preserves_def emit_def untouched_def)

lemma close_conn_untouched [pres_rules]: "preserves (untouched k X) close_conn"
  by (simp add: preserves_def close_conn_def close_db_def untouched_def)

lemma untouched_rules:
  "tbl \<noteq> snd k \<Longrightarrow> preserves (untouched k X) (sql (SelectExists dbn tbl))"
  "tbl \<noteq> snd k \<Longrightarrow> preserves (untouched k X) (sql (DropIfExists dbn tbl))"
  "tbl \<noteq> snd k \<Longrightarrow> preserves (untouched k X) (sql (Truncate dbn tbl))"
  "tbl \<noteq> snd k \<Longrightarrow> preserves (untouched k X) (sql (DeleteFrom dbn tbl))"
  "tbl \<noteq> snd k \<Longrightarrow> preserves (untouched k X) (sql (TableCheck dbn tbl))"
  "tbl \<noteq> snd k \<Longrightarrow> preserves (untouched k X) (sql (CreateTable dbn tbl cols))"
  "tbl \<noteq> snd k \<Longrightarrow> preserves (untouched k X) (sql (SelectCount dbn tbl))"
  "preserves (untouched k X) (sql Commit)"
  "preserves (untouched k X) (sql Rollback)"
  by (auto intro!: sql_untouched)

lemma insert_st_untouched:
  "tbl \<noteq> snd k \<Longrightarrow> preserves (untouched k X) (insert_st fail dbn tbl rs)"
proof -
  assume "tbl \<noteq> snd k"
  then have "stmt_key (InsertRows dbn tbl rs) \<noteq> Some k" by auto
  from sql_untouched [OF this, of X] show ?thesis
    by (auto simp: preserves_def insert_st_def untouched_def)
qed

lemmas un_rules = pres_rules untouched_rules insert_st_untouched rollback_on_error_pres

lemma prepare_table_untouched:
  "tbl \<noteq> snd k \<Longrightarrow> preserves (untouched k X) (prepare_table drop_tbl del_rows mode dbn tbl)"
  unfolding prepare_table_def table_exists_def by (intro un_rules)

lemma to_sql_untouched: "tbl \<noteq> snd k \<Longrightarrow> preserves (untouched k X) (to_sql fail f tbl dbn)"
  unfolding to_sql_def by (intro un_rules)

lemma ingest_untouched:
  "tbl \<noteq> snd k \<Longrightarrow> preserves (untouched k X) (ingest fails i hdr cs tbl dbn rc)"
proof (induction cs arbitrary: i rc)
  case (Cons c cs)
  show ?case
    by (simp only: ingest.simps) (intro un_rules to_sql_untouched Cons.IH [OF Cons.prems] Cons.prems)
qed (simp add: preserves_return)

lemma load_untouched: "cfg_table cfg \<noteq> snd k \<Longrightarrow> preserves (untouched k X) (load e cfg dbn)"
  unfolding load_def by (intro un_rules ingest_untouched)

lemma verify_untouched: "tbl \<noteq> snd k \<Longrightarrow> preserves (untouched k X) (verify dbn tbl rc)"
  unfolding verify_def count_rows_def by (intro un_rules)

lemma fetch_secret_untouched: "preserves (untouched k X) (fetch_secret e cfg)"
  unfolding fetch_secret_def
  by (intro pres_rules) (simp split: secret_value.split add: preserves_raise preserves_lift)

lemma names_ok_step:
  assumes "sql_ident t" "sql_ident n" "table_event n t ev"
  shows "names_ok t ev"
  using assms by (auto simp: names_ok_def table_event_def split: event.splits)

text \<open>
  C7. Where \<open>--table_name\<close> and every database name the run may connect with
  (\<open>--db_name\<close>, or the secret's \<open>dbname\<close>) are identifiers, the script only
  ever addresses and changes the table named by \<open>--table_name\<close>: every statement it
  sends names that table in a database with an identifier name, so that its text
  denotes exactly that statement (\<open>SqlText\<close>), and every other table, in any
  database, is left exactly as it was, committed and in the connection's view, however
  the run ends. Other names are excluded because their text can address a second table
  (\<open>drop_sql_injection\<close>).
\<close>

theorem run_keeps_other_tables:
  assumes ident: "sql_ident (table_name a)" "\<forall>n. db_name a = Some n \<longrightarrow> sql_ident n"
      "\<forall>arn b n. secrets e arn = Some (SecretJson b) \<longrightarrow> b ''dbname'' = Some (JStr n) \<longrightarrow> sql_ident n"
    and other: "table_name a \<noteq> snd k" and un: "untouched k X w"
    and ev: "events_ok (names_ok (table_name a)) w"
  shows "untouched k X (snd (run a e w)) \<and> events_ok (names_ok (table_name a)) (snd (run a e w))"
proof
  have "preserves (untouched k X) (run a e)"
    unfolding run_def
  proof (rule preserves_bind [OF emit_untouched], rule preserves_bind_lift)
    fix cfg assume "load_config a = Inr cfg"
    then have "cfg_table cfg \<noteq> snd k" using other by (simp add: load_config_fields)
    then show "preserves (untouched k X) (bind_st (fetch_ca e (cfg_ssl_ca cfg)) (\<lambda>_.
        bind_st (fetch_secret e cfg) (\<lambda>c0. bind_st (lift_res (require_creds c0)) (\<lambda>c.
        bind_st (connect e c) (\<lambda>_.
        bind_st (prepare_table (cfg_drop cfg) (cfg_delete cfg) (cfg_mode cfg) (the (c_name c)) (cfg_table cfg)) (\<lambda>_.
        bind_st (load e cfg (the (c_name c))) (\<lambda>rc. verify (the (c_name c)) (cfg_table cfg) rc)))))))"
      unfolding fetch_ca_def connect_def
      by (intro un_rules fetch_secret_untouched prepare_table_untouched load_untouched verify_untouched)
  qed
  then show "untouched k X (snd (run a e w))" using un by (rule preservesD)
next
  have "preserves (events_ok (names_ok (table_name a))) (run a e)"
  proof (rule run_events)
    fix c :: creds and n :: string
    assume "db_name a = Some n \<or> (\<exists>arn b. secrets e arn = Some (SecretJson b) \<and> b ''dbname'' = Some (JStr n))"
    then have "sql_ident n" using ident(2,3) by blast
    then have "\<forall>ev. table_event n (table_name a) ev \<longrightarrow> names_ok (table_name a) ev"
      using ident(1) names_ok_step by blast
    moreover have "preserves (events_ok (names_ok (table_name a))) (connect e c)"
      unfolding connect_def by (intro ev_rules) (simp_all add: names_ok_def)
    ultimately show "preserves (events_ok (names_ok (table_name a))) (connect e c) \<and>
        (\<forall>ev. table_event n (table_name a) ev \<longrightarrow> names_ok (table_name a) ev)" by blast
  qed (simp_all add: names_ok_def)
  then show "events_ok (names_ok (table_name a)) (snd (run a e w))" using ev by (rule preservesD)
qed

theorem run_keeps_other_tables_witness:
  "untouched (''shop'', ''customers'') (Some \<lparr>tbl_cols = [(''id'', TInt)], tbl_rows = [[CInt 5]]\<rparr>)
     (snd (run ((default_args ''s3://b/k.csv'' ''sales'')\<lparr>db_host := Some ''h'', db_name := Some ''shop'',
                  db_user := Some ''u'', db_password := Some ''p'', drop_table := True\<rparr>)
     \<lparr>ca_ok = True, secrets = Map.empty, connect_ok = True,
      objects = [''s3://b/k.csv'' \<mapsto> \<lparr>header = [''id''], rows = [[CInt 1]]\<rparr>],
      insert_fails = (\<lambda>_. False)\<rparr>
     (start [(''shop'', ''customers'') \<mapsto> \<lparr>tbl_cols = [(''id'', TInt)], tbl_rows = [[CInt 5]]\<rparr>,
             (''shop'', ''sales'') \<mapsto> \<lparr>tbl_cols = [(''id'', TInt)], tbl_rows = [[CInt 7]]\<rparr>]))) \<and>
   events_ok (names_ok ''sales'')
     (snd (run ((default_args ''s3://b/k.csv'' ''sales'')\<lparr>db_host := Some ''h'', db_name := Some ''shop'',
                  db_user := Some ''u'', db_password := Some ''p'', drop_table := True\<rparr>)
     \<lparr>ca_ok = True, secrets = Map.empty, connect_ok = True,
      objects = [''s3://b/k.csv'' \<mapsto> \<lparr>header = [''id''], rows = [[CInt 1]]\<rparr>],
      insert_fails = (\<lambda>_. False)\<rparr>
     (start [(''shop'', ''customers'') \<mapsto> \<lparr>tbl_cols = [(''id'', TInt)], tbl_rows = [[CInt 5]]\<rparr>,
             (''shop'', ''sales'') \<mapsto> \<lparr>tbl_cols = [(''id'', TInt)], tbl_rows = [[CInt 7]]\<rparr>])))"
proof -
  let ?a = "(default_args ''s3://b/k.csv'' ''sales'')\<lparr>db_host := Some ''h'', db_name := Some ''shop'',
                  db_user := Some ''u'', db_password := Some ''p'', drop_table := True\<rparr>"
  let ?w = "start [(''shop'', ''customers'') \<mapsto> \<lparr>tbl_cols = [(''id'', TInt)], tbl_rows = [[CInt 5]]\<rparr>,
             (''shop'', ''sales'') \<mapsto> \<lparr>tbl_cols = [(''id'', TInt)], tbl_rows = [[CInt 7]]\<rparr>]"
  have i1: "sql_ident (table_name ?a)" and i2: "\<forall>n. db_name ?a = Some n \<longrightarrow> sql_ident n"
    by (simp_all add: default_args_def sql_ident_def ident_char_def)
  have o: "table_name ?a \<noteq> snd (''shop'', ''customers'')" by (simp add: default_args_def)
  have u: "untouched (''shop'', ''customers'') (Some \<lparr>tbl_cols = [(''id'', TInt)], tbl_rows = [[CInt 5]]\<rparr>) ?w"
    by (simp add: untouched_def start_def)
  have v: "events_ok (names_ok (table_name ?a)) ?w" by (simp add: events_ok_def start_def)
  from run_keeps_other_tables [OF i1 i2 _ o u v, where e = "\<lparr>ca_ok = True, secrets = Map.empty, connect_ok = True,
      objects = [''s3://b/k.csv'' \<mapsto> \<lparr>header = [''id''], rows = [[CInt 1]]\<rparr>], insert_fails = (\<lambda>_. False)\<rparr>"]
  show ?thesis by (simp add: default_args_def)
qed

subsection \<open>Size of the INSERT batches\<close>

lemma emit_within: "ev_within k e \<Longrightarrow> preserves (inserts_within k) (emit e)"
  unfolding inserts_within_def by (rule events_emit)

lemma sql_within: "ev_within k (Sql s) \<Longrightarrow> preserves (inserts_within k) (sql s)"
  unfolding inserts_within_def by (rule events_sql)

lemma close_conn_within [pres_rules]: "preserves (inserts_within k) close_conn"
  unfolding inserts_within_def by (rule events_close_conn) (simp add: ev_within_def)

lemma insert_st_within: "length rs \<le> k \<Longrightarrow> preserves (inserts_within k) (insert_st fail dbn tbl rs)"
  unfolding inserts_within_def by (rule events_insert_st) (simp add: ev_within_def)

lemmas within_rules = pres_rules emit_within sql_within insert_st_within rollback_on_error_pres

lemma to_sql_within: "length (rows f) \<le> k \<Longrightarrow> preserves (inserts_within k) (to_sql fail f tbl dbn)"
  unfolding to_sql_def by (intro within_rules) (simp_all add: ev_within_def frame_rows_def)

lemma ingest_within:
  "\<forall>c \<in> set cs. length c \<le> k \<Longrightarrow> preserves (inserts_within k) (ingest fails i hdr cs tbl dbn rc)"
proof (induction cs arbitrary: i rc)
  case (Cons c cs)
  then have "length (rows (chunk_frame hdr c)) \<le> k" by (simp add: chunk_frame_def)
  with Cons show ?case
    by (simp only: ingest.simps) (intro within_rules to_sql_within Cons.IH, simp_all add: ev_within_def)
qed (simp add: preserves_return)

lemma load_within: "preserves (inserts_within (nat (cfg_chunk cfg))) (load e cfg dbn)"
  unfolding load_def
proof (intro preserves_bind_lift)
  fix csv cs assume "read_chunks (cfg_chunk cfg) (rows csv) = Inr cs"
  then have "\<forall>c \<in> set cs. length c \<le> nat (cfg_chunk cfg)"
    using chunks_bounded by (auto simp: read_chunks_def split: if_splits)
  then show "preserves (inserts_within (nat (cfg_chunk cfg))) (ingest (insert_fails e) 0 (header csv) cs (cfg_table cfg) dbn 0)"
    by (rule ingest_within)
qed

text \<open>
  C9. Memory per iteration is bounded as the option's help text
  promises: no INSERT a run sends carries more than \<open>--chunk_size\<close> rows, whatever the
  file, the server and the path taken.
\<close>

theorem run_insert_batches_bounded:
  assumes "inserts_within (nat (chunk_size a)) w"
  shows "inserts_within (nat (chunk_size a)) (snd (run a e w))"
proof -
  have "preserves (inserts_within (nat (chunk_size a))) (run a e)"
    unfolding run_def
  proof (rule preserves_bind [OF emit_within], simp add: ev_within_def, rule preserves_bind_lift)
    fix cfg assume "load_config a = Inr cfg"
    then have k: "cfg_chunk cfg = chunk_size a" by (simp add: load_config_fields)
    show "preserves (inserts_within (nat (chunk_size a))) (bind_st (fetch_ca e (cfg_ssl_ca cfg)) (\<lambda>_.
        bind_st (fetch_secret e cfg) (\<lambda>c0. bind_st (lift_res (require_creds c0)) (\<lambda>c.
        bind_st (connect e c) (\<lambda>_.
        bind_st (prepare_table (cfg_drop cfg) (cfg_delete cfg) (cfg_mode cfg) (the (c_name c)) (cfg_table cfg)) (\<lambda>_.
        bind_st (load e cfg (the (c_name c))) (\<lambda>rc. verify (the (c_name c)) (cfg_table cfg) rc)))))))"
      unfolding fetch_ca_def connect_def fetch_secret_def prepare_table_def table_exists_def verify_def
        count_rows_def
      by (intro within_rules load_within [of cfg, unfolded k] preserves_case_option,
          simp_all add: ev_within_def preserves_raise preserves_lift split: secret_value.split)
  qed
  then show ?thesis using assms by (rule preservesD)
qed

theorem run_insert_batches_bounded_witness:
  "inserts_within 2 (snd (run ((default_args ''s3://b/k.csv'' ''sales'')\<lparr>db_host := Some ''h'', db_name := Some ''shop'',
                         db_user := Some ''u'', db_password := Some ''p'', chunk_size := 2\<rparr>)
     \<lparr>ca_ok = True, secrets = Map.empty, connect_ok = True,
      objects = [''s3://b/k.csv'' \<mapsto> \<lparr>header = [''id''], rows = [[CInt 1], [CInt 2], [CInt 3]]\<rparr>],
      insert_fails = (\<lambda>_. False)\<rparr>
     (start Map.empty)))"
proof -
  have "inserts_within (nat (chunk_size ((default_args ''s3://b/k.csv'' ''sales'')\<lparr>db_host := Some ''h'',
          db_name := Some ''shop'', db_user := Some ''u'', db_password := Some ''p'', chunk_size := 2\<rparr>)))
          (start Map.empty)"
    by (simp add: inserts_within_def events_ok_def start_def)
  from run_insert_batches_bounded [OF this] show ?thesis by simp
qed

end
