(* ===== verification/Tracing.thy ===== *)
theory Tracing
  imports Script
begin

text \<open>
  What a statement does to the database, what it returns, and which events it appends
  never depend on the events already in the trace: the script writes its log and
  its I/O but never reads them back. \<open>trace_free m\<close> says so of \<open>m\<close>: run from
  any state, \<open>m\<close> behaves as it does from the same database with an empty trace,
  with the old trace kept in front. Every operation of the script is trace-free, so
  two runs that reach the same database along different traces continue alike. The
  consequence for the script: a failed CA download (lines 84--87) changes nothing
  but the one error line it logs.
\<close>

definition bare :: "world \<Rightarrow> world" where
  "bare w = \<lparr>wdb = wdb w, trace = []\<rparr>"

definition trace_free :: "('a, world) st \<Rightarrow> bool" where
  "trace_free m \<longleftrightarrow>
     (\<forall>w. m w = (fst (m (bare w)), \<lparr>wdb = wdb (snd (m (bare w))), trace = trace w @ trace (snd (m (bare w)))\<rparr>))"

lemma trace_freeD:
  "trace_free m \<Longrightarrow> m (bare w) = (r, \<lparr>wdb = d, trace = t\<rparr>) \<Longrightarrow> m w = (r, \<lparr>wdb = d, trace = trace w @ t\<rparr>)"
  unfolding trace_free_def by (metis fst_conv snd_conv world.select_convs)

lemma bare_world [simp]: "bare \<lparr>wdb = d, trace = t\<rparr> = \<lparr>wdb = d, trace = []\<rparr>"
  by (simp add: bare_def)

lemma trace_free_I:
  assumes "\<And>w. \<exists>r d t. m (bare w) = (r, \<lparr>wdb = d, trace = t\<rparr>) \<and> m w = (r, \<lparr>wdb = d, trace = trace w @ t\<rparr>)"
  shows "trace_free m"
  unfolding trace_free_def
proof
  fix w
  from assms [of w] obtain r d t
    where "m (bare w) = (r, \<lparr>wdb = d, trace = t\<rparr>)" "m w = (r, \<lparr>wdb = d, trace = trace w @ t\<rparr>)"
    by blast
  then show "m w = (fst (m (bare w)), \<lparr>wdb = wdb (snd (m (bare w))), trace = trace w @ trace (snd (m (bare w)))\<rparr>)"
    by simp
qed

lemma world_split: "\<exists>r d t. p = (r, \<lparr>wdb = d, trace = t\<rparr>)"
  by (metis prod.exhaust world.cases)

lemma trace_free_return [pres_rules]: "trace_free (return_st a)"
  by (simp add: trace_free_def return_st_def bare_def)

lemma trace_free_raise [pres_rules]: "trace_free (raise_st e)"
  by (simp add: trace_free_def raise_st_def bare_def)

lemma trace_free_lift [pres_rules]: "trace_free (lift_res r)"
  by (simp add: trace_free_def lift_res_def bare_def)

lemma trace_free_emit [pres_rules]: "trace_free (emit ev)"
  by (simp add: trace_free_def emit_def bare_def)

lemma trace_free_sql [pres_rules]: "trace_free (sql s)"
  by (simp add: trace_free_def sql_def bare_def split: prod.splits)

lemma trace_free_close_conn [pres_rules]: "trace_free close_conn"
  by (simp add: trace_free_def close_conn_def bare_def)

lemma trace_free_insert_st [pres_rules]: "trace_free (insert_st fail dbn tbl rs)"
  by (simp add: trace_free_def insert_st_def sql_def bare_def split: prod.splits)

lemma trace_free_if [pres_rules]:
  "trace_free a \<Longrightarrow> trace_free b \<Longrightarrow> trace_free (if c then a else b)"
  by simp

lemma trace_free_case_option [pres_rules]:
  "trace_free a \<Longrightarrow> (\<And>x. trace_free (f x)) \<Longrightarrow> trace_free (case opt of None \<Rightarrow> a | Some x \<Rightarrow> f x)"
  by (cases opt) simp_all

lemma trace_free_bind [pres_rules]:
  assumes m: "trace_free m" and f: "\<And>a. trace_free (f a)"
  shows "trace_free (bind_st m f)"
proof (rule trace_free_I)
  fix w
  obtain r d t where mb: "m (bare w) = (r, \<lparr>wdb = d, trace = t\<rparr>)" using world_split [of "m (bare w)"] by blast
  have mw: "m w = (r, \<lparr>wdb = d, trace = trace w @ t\<rparr>)" using trace_freeD [OF m mb] .
  show "\<exists>r d t. bind_st m f (bare w) = (r, \<lparr>wdb = d, trace = t\<rparr>) \<and>
                bind_st m f w = (r, \<lparr>wdb = d, trace = trace w @ t\<rparr>)"
  proof (cases r)
    case (Inl e)
    with mb mw show ?thesis by (simp add: bind_st_def)
  next
    case (Inr a)
    obtain r' d' t' where fb: "f a \<lparr>wdb = d, trace = []\<rparr> = (r', \<lparr>wdb = d', trace = t'\<rparr>)"
      using world_split [of "f a \<lparr>wdb = d, trace = []\<rparr>"] by blast
    have f1: "f a \<lparr>wdb = d, trace = t\<rparr> = (r', \<lparr>wdb = d', trace = t @ t'\<rparr>)"
      using trace_freeD [OF f, of a "\<lparr>wdb = d, trace = t\<rparr>"] fb by simp
    have f2: "f a \<lparr>wdb = d, trace = trace w @ t\<rparr> = (r', \<lparr>wdb = d', trace = (trace w @ t) @ t'\<rparr>)"
      using trace_freeD [OF f, of a "\<lparr>wdb = d, trace = trace w @ t\<rparr>"] fb by simp
    from Inr mb mw f1 f2 show ?thesis by (simp add: bind_st_def)
  qed
qed


lemma trace_free_rollback_on_error [pres_rules]: "trace_free m \<Longrightarrow> trace_free (rollback_on_error m)"
proof (rule trace_free_I)
  fix w assume m: "trace_free m"
  obtain r d t where mb: "m (bare w) = (r, \<lparr>wdb = d, trace = t\<rparr>)" using world_split [of "m (bare w)"] by blast
  have mw: "m w = (r, \<lparr>wdb = d, trace = trace w @ t\<rparr>)" using trace_freeD [OF m mb] .
  show "\<exists>r d t. rollback_on_error m (bare w) = (r, \<lparr>wdb = d, trace = t\<rparr>) \<and>
                rollback_on_error m w = (r, \<lparr>wdb = d, trace = trace w @ t\<rparr>)"
    using mb mw by (cases r) (simp_all add: rollback_on_error_apply)
qed

lemma trace_free_prepare_table: "trace_free (prepare_table drop_tbl del_rows mode dbn tbl)"
  unfolding prepare_table_def table_exists_def by (intro pres_rules)

lemma trace_free_to_sql: "trace_free (to_sql fail f tbl dbn)"
  unfolding to_sql_def by (intro pres_rules)

lemma trace_free_ingest: "trace_free (ingest fails i hdr cs tbl dbn rc)"
proof (induction cs arbitrary: i rc)
  case (Cons c cs)
  show ?case by (simp only: ingest.simps) (intro pres_rules trace_free_to_sql Cons.IH)
qed (simp add: trace_free_return)

lemma trace_free_verify: "trace_free (verify dbn tbl rc)"
  unfolding verify_def count_rows_def by (intro pres_rules)

lemma trace_free_load: "trace_free (load e cfg dbn)"
  unfolding load_def by (intro pres_rules trace_free_ingest)

lemma trace_free_fetch_secret: "trace_free (fetch_secret e cfg)"
  unfolding fetch_secret_def
  by (intro pres_rules) (simp split: secret_value.split add: trace_free_raise trace_free_lift)

lemma trace_free_connect: "trace_free (connect e c)"
  unfolding connect_def by (intro pres_rules)

lemma env_ca_irrelevant:
  "fetch_secret (e\<lparr>ca_ok := b\<rparr>) = fetch_secret e"
  "connect (e\<lparr>ca_ok := b\<rparr>) = connect e"
  "load (e\<lparr>ca_ok := b\<rparr>) = load e"
  by (simp_all add: fun_eq_iff fetch_secret_def connect_def load_def open_source_def cong: option.case_cong)

lemma fetch_ca_bind:
  assumes k: "trace_free (k ())"
  shows "fst (bind_st (fetch_ca e url) k w) = fst (bind_st (fetch_ca (e\<lparr>ca_ok := True\<rparr>) url) k w) \<and>
         wdb (snd (bind_st (fetch_ca e url) k w)) = wdb (snd (bind_st (fetch_ca (e\<lparr>ca_ok := True\<rparr>) url) k w)) \<and>
         removeAll (Log LogCAError) (trace (snd (bind_st (fetch_ca e url) k w))) =
           removeAll (Log LogCAError) (trace (snd (bind_st (fetch_ca (e\<lparr>ca_ok := True\<rparr>) url) k w)))"
proof -
  obtain r d t where kb: "k () (bare w) = (r, \<lparr>wdb = d, trace = t\<rparr>)" using world_split [of "k () (bare w)"] by blast
  have "k () s = (r, \<lparr>wdb = d, trace = trace s @ t\<rparr>)" if "wdb s = wdb w" for s
    using trace_freeD [OF k, of s] kb that by (simp add: bare_def)
  then show ?thesis by (simp add: bind_st_def fetch_ca_apply)
qed

text \<open>
  C22. A failed download of the CA bundle is logged and otherwise ignored
  (lines 84--87): the run returns the same result, leaves the same database and emits
  the same events as the run in which the download succeeds, but for the error line.
\<close>

theorem run_ca_failure_only_logged:
  "fst (run a e w) = fst (run a (e\<lparr>ca_ok := True\<rparr>) w) \<and>
   wdb (snd (run a e w)) = wdb (snd (run a (e\<lparr>ca_ok := True\<rparr>) w)) \<and>
   removeAll (Log LogCAError) (trace (snd (run a e w))) =
     removeAll (Log LogCAError) (trace (snd (run a (e\<lparr>ca_ok := True\<rparr>) w)))"
proof (cases "load_config a")
  case (Inl err)
  then show ?thesis by (simp add: run_def bind_st_def emit_def lift_res_def)
next
  case (Inr cfg)
  let ?k = "\<lambda>_::unit. bind_st (fetch_secret e cfg) (\<lambda>c0. bind_st (lift_res (require_creds c0)) (\<lambda>c.
        bind_st (connect e c) (\<lambda>_.
        bind_st (prepare_table (cfg_drop cfg) (cfg_delete cfg) (cfg_mode cfg) (the (c_name c)) (cfg_table cfg)) (\<lambda>_.
        bind_st (load e cfg (the (c_name c))) (\<lambda>rc. verify (the (c_name c)) (cfg_table cfg) rc)))))"
  let ?w1 = "w\<lparr>trace := trace w @ [Log (LogArgs (logged_args a))]\<rparr>"
  have r1: "run a e w = bind_st (fetch_ca e (cfg_ssl_ca cfg)) ?k ?w1"
    by (simp add: run_def Inr emit_def bind_st_apply)
  have r2: "run a (e\<lparr>ca_ok := True\<rparr>) w = bind_st (fetch_ca (e\<lparr>ca_ok := True\<rparr>) (cfg_ssl_ca cfg)) ?k ?w1"
    by (simp add: run_def Inr emit_def bind_st_apply env_ca_irrelevant)
  have k: "trace_free (?k ())"
    by (intro pres_rules trace_free_fetch_secret trace_free_connect trace_free_prepare_table
        trace_free_load trace_free_verify)
  show ?thesis using fetch_ca_bind [OF k, of e "cfg_ssl_ca cfg" ?w1] r1 r2 by simp
qed

end
