(* ===== verification/Argv.thy ===== *)
theory Argv
  imports Script
begin

text \<open>
  The command line of \<open>src/load_csv_to_mysql.py\<close> (lines 26--65): the option
  declarations of the \<open>add_argument\<close> calls and what \<open>parse_args()\<close> makes of
  them. argparse is library code; its processing is modelled from its documentation
  for the declarations the script makes. Every token is first classified (lines
  before \<open>--\<close>; an ambiguous abbreviation is an error at this point), then the
  tokens are consumed left to right into the namespace \<open>vars(args)\<close>, which starts
  with every option's default: an option with a value takes the \<open>=\<close> part or the
  next token, \<open>type=int\<close> converts with \<open>int()\<close>, \<open>store_true\<close> sets
  \<open>True\<close>, a later occurrence overrides an earlier one, \<open>-h\<close> stops with the
  usage. Then the required options are checked and, by \<open>parse_args\<close>, leftover
  tokens are refused. \<open>main\<close> runs the script on a parsed command line.
\<close>

datatype optkind = KStr | KInt | KFlag | KHelp

definition options :: "(string \<times> string \<times> optkind) list" where
  "options =
     [(''-h'', ''help'', KHelp), (''--help'', ''help'', KHelp),
      (''--s3_object'', ''s3_object'', KStr), (''--db_host'', ''db_host'', KStr),
      (''--db_port'', ''db_port'', KInt), (''--db_name'', ''db_name'', KStr),
      (''--db_user'', ''db_user'', KStr), (''--db_password'', ''db_password'', KStr),
      (''--db_secret_arn'', ''db_secret_arn'', KStr), (''--table_name'', ''table_name'', KStr),
      (''--drop_table'', ''drop_table'', KFlag), (''--delete_rows'', ''delete_rows'', KFlag),
      (''--delete_mode'', ''delete_mode'', KStr), (''--chunk_size'', ''chunk_size'', KInt),
      (''--ssl_ca_url'', ''ssl_ca_url'', KStr),
      (''--extra-py-files'', ''extra_py_files'', KStr), (''--scriptLocation'', ''scriptLocation'', KStr),
      (''--job-bookmark-option'', ''job_bookmark_option'', KStr),
      (''--job-language'', ''job_language'', KStr), (''--connection-names'', ''connection_names'', KStr)]"

definition required_opts :: "string list" where
  "required_opts = [''--s3_object'', ''--table_name'']"

definition defaults_ns :: "string \<rightharpoonup> pyval" where
  "defaults_ns = map_of
     [(''s3_object'', PNone), (''db_host'', PNone), (''db_port'', PNone), (''db_name'', PNone),
      (''db_user'', PNone), (''db_password'', PNone), (''db_secret_arn'', PNone), (''table_name'', PNone),
      (''drop_table'', PBool False), (''delete_rows'', PBool False), (''delete_mode'', PStr ''TRUNCATE''),
      (''chunk_size'', PInt 10000),
      (''ssl_ca_url'', PStr ''https://s3.amazonaws.com/rds-downloads/rds-combined-ca-bundle.pem''),
      (''extra_py_files'', PNone), (''scriptLocation'', PNone), (''job_bookmark_option'', PNone),
      (''job_language'', PNone), (''connection_names'', PNone)]"

fun join :: "string \<Rightarrow> string list \<Rightarrow> string" where
  "join sep [] = []"
| "join sep [x] = x"
| "join sep (x # y # xs) = x @ sep @ join sep (y # xs)"

definition py_repr_str :: "string \<Rightarrow> string" where
  "py_repr_str v = CHR 0x27 # v @ [CHR 0x27]"

definition neg_number :: "string \<Rightarrow> bool" where
  "neg_number s \<longleftrightarrow>
     (case s of
        c # ds \<Rightarrow> c = CHR ''-'' \<and>
          ((ds \<noteq> [] \<and> list_all py_isdigit ds) \<or>
           (let r = dropWhile py_isdigit ds in
              r \<noteq> [] \<and> hd r = CHR ''.'' \<and> tl r \<noteq> [] \<and> list_all py_isdigit (tl r)))
      | [] \<Rightarrow> False)"

datatype tokclass = TArg | TDash | TUnknown | TOpt string string optkind "string option"

definition exact_opt :: "string \<Rightarrow> (string \<times> optkind) option" where
  "exact_opt s = map_of options s"

definition prefix_matches :: "string \<Rightarrow> (string \<times> string \<times> optkind \<times> string option) list" where
  "prefix_matches s =
     (if take 2 s = ''--'' then
        (let p = takeWhile (\<lambda>c. c \<noteq> CHR ''='') s;
             x = (if CHR ''='' \<in> set s then Some (tl (dropWhile (\<lambda>c. c \<noteq> CHR ''='') s)) else None)
         in [(nm, d, k, x). (nm, d, k) \<leftarrow> options, take (length p) nm = p])
      else [(nm, d, k, Some (drop 2 s)). (nm, d, k) \<leftarrow> options, nm = take 2 s])"

definition classify :: "string \<Rightarrow> tokclass res" where
  "classify s =
     (if s = [] \<or> hd s \<noteq> CHR ''-'' then Inr TArg
      else case exact_opt s of
        Some (d, k) \<Rightarrow> Inr (TOpt s d k None)
      | None \<Rightarrow>
          if length s = 1 then Inr TArg
          else (case (if CHR ''='' \<in> set s then exact_opt (takeWhile (\<lambda>c. c \<noteq> CHR ''='') s) else None) of
            Some (d, k) \<Rightarrow> Inr (TOpt (takeWhile (\<lambda>c. c \<noteq> CHR ''='') s) d k
                                   (Some (tl (dropWhile (\<lambda>c. c \<noteq> CHR ''='') s))))
          | None \<Rightarrow>
              (case prefix_matches s of
                 [(nm, d, k, x)] \<Rightarrow> Inr (TOpt nm d k x)
               | [] \<Rightarrow> if neg_number s \<or> CHR '' '' \<in> set s then Inr TArg else Inr TUnknown
               | ms \<Rightarrow> Inl (ArgError (''ambiguous option: '' @ takeWhile (\<lambda>c. c \<noteq> CHR ''='') s @
                                      '' could match '' @ join '', '' (map fst ms))))))"

fun classify_all :: "string list \<Rightarrow> (string \<times> tokclass) list res" where
  "classify_all [] = Inr []"
| "classify_all (s # ss) =
     (if s = ''--'' then Inr ((s, TDash) # map (\<lambda>t. (t, TArg)) ss)
      else bind_res (classify s) (\<lambda>c. bind_res (classify_all ss) (\<lambda>cs. Inr ((s, c) # cs))))"

definition convert :: "string \<Rightarrow> optkind \<Rightarrow> string \<Rightarrow> pyval res" where
  "convert nm k v =
     (if k = KInt then
        (case py_int v of
           Some n \<Rightarrow> Inr (PInt n)
         | None \<Rightarrow> Inl (ArgError (''argument '' @ nm @ '': invalid int value: '' @ py_repr_str v)))
      else Inr (PStr v))"

fun consume :: "(string \<times> tokclass) list \<Rightarrow> (string \<rightharpoonup> pyval) \<Rightarrow> string list \<Rightarrow> string list
                \<Rightarrow> ((string \<rightharpoonup> pyval) \<times> string list \<times> string list) res" where
  "consume [] ns seen ex = Inr (ns, seen, ex)"
| "consume ((s, TArg) # r) ns seen ex = consume r ns seen (ex @ [s])"
| "consume ((s, TUnknown) # r) ns seen ex = consume r ns seen (ex @ [s])"
| "consume ((s, TDash) # r) ns seen ex = consume r ns seen ex"
| "consume ((s, TOpt nm d KHelp x) # r) ns seen ex =
     (case x of
        None \<Rightarrow> Inl HelpExit
      | Some v \<Rightarrow> Inl (ArgError (''argument -h/--help: ignored explicit argument '' @ py_repr_str v)))"
| "consume ((s, TOpt nm d KFlag x) # r) ns seen ex =
     (case x of
        None \<Rightarrow> consume r (ns(d \<mapsto> PBool True)) (seen @ [nm]) ex
      | Some v \<Rightarrow> Inl (ArgError (''argument '' @ nm @ '': ignored explicit argument '' @ py_repr_str v)))"
| "consume ((s, TOpt nm d k (Some v)) # r) ns seen ex =
     bind_res (convert nm k v) (\<lambda>pv. consume r (ns(d \<mapsto> pv)) (seen @ [nm]) ex)"
| "consume ((s, TOpt nm d k None) # (v, TArg) # r) ns seen ex =
     bind_res (convert nm k v) (\<lambda>pv. consume r (ns(d \<mapsto> pv)) (seen @ [nm]) ex)"
| "consume ((s, TOpt nm d k None) # (t, TDash) # (v, TArg) # r) ns seen ex =
     bind_res (convert nm k v) (\<lambda>pv. consume r (ns(d \<mapsto> pv)) (seen @ [nm]) ex)"
| "consume ((s, TOpt nm d k None) # r) ns seen ex =
     Inl (ArgError (''argument '' @ nm @ '': expected one argument''))"

definition ns_opt_str :: "(string \<rightharpoonup> pyval) \<Rightarrow> string \<Rightarrow> string option" where
  "ns_opt_str ns k = (case ns k of Some (PStr s) \<Rightarrow> Some s | _ \<Rightarrow> None)"

definition ns_str :: "(string \<rightharpoonup> pyval) \<Rightarrow> string \<Rightarrow> string" where
  "ns_str ns k = (case ns k of Some (PStr s) \<Rightarrow> s | _ \<Rightarrow> [])"

definition ns_int :: "(string \<rightharpoonup> pyval) \<Rightarrow> string \<Rightarrow> int option" where
  "ns_int ns k = (case ns k of Some (PInt n) \<Rightarrow> Some n | _ \<Rightarrow> None)"

definition ns_bool :: "(string \<rightharpoonup> pyval) \<Rightarrow> string \<Rightarrow> bool" where
  "ns_bool ns k \<longleftrightarrow> ns k = Some (PBool True)"

definition args_of_ns :: "(string \<rightharpoonup> pyval) \<Rightarrow> args" where
  "args_of_ns ns =
     \<lparr>s3_object = ns_str ns ''s3_object'', db_host = ns_opt_str ns ''db_host'', db_port = ns_int ns ''db_port'',
      db_name = ns_opt_str ns ''db_name'', db_user = ns_opt_str ns ''db_user'',
      db_password = ns_opt_str ns ''db_password'', db_secret_arn = ns_opt_str ns ''db_secret_arn'',
      table_name = ns_str ns ''table_name'', drop_table = ns_bool ns ''drop_table'',
      delete_rows = ns_bool ns ''delete_rows'', delete_mode = ns_str ns ''delete_mode'',
      chunk_size = (case ns_int ns ''chunk_size'' of Some n \<Rightarrow> n | None \<Rightarrow> 10000),
      ssl_ca_url = ns_str ns ''ssl_ca_url'', extra_py_files = ns_opt_str ns ''extra_py_files'',
      scriptLocation = ns_opt_str ns ''scriptLocation'', job_bookmark_option = ns_opt_str ns ''job_bookmark_option'',
      job_language = ns_opt_str ns ''job_language'', connection_names = ns_opt_str ns ''connection_names''\<rparr>"

definition parse_argv :: "string list \<Rightarrow> args res" where
  "parse_argv argv =
     bind_res (classify_all argv) (\<lambda>cs.
     bind_res (consume cs defaults_ns [] []) (\<lambda>(ns, seen, ex).
       let miss = filter (\<lambda>nm. nm \<notin> set seen) required_opts in
       if miss \<noteq> [] then Inl (ArgError (''the following arguments are required: '' @ join '', '' miss))
       else if ex \<noteq> [] then Inl (ArgError (''unrecognized arguments: '' @ join '' '' ex))
       else Inr (args_of_ns ns)))"

definition main :: "string list \<Rightarrow> env \<Rightarrow> (unit, world) st" where
  "main argv e w = (case parse_argv argv of Inl ex \<Rightarrow> (Inl ex, w) | Inr a \<Rightarrow> run a e w)"

text \<open>
  The canonical command line for a configuration: every option that is set, in the
  order of the declarations, \<open>--opt value\<close>, flags alone when true. A value is
  \<open>plain\<close> when argparse cannot take it for an option (it does not start with
  \<open>-\<close>).
\<close>

definition flag_opts :: "string list" where
  "flag_opts = [''--drop_table'', ''--delete_rows'']"

definition flag_val :: "bool \<Rightarrow> string option" where
  "flag_val b = (if b then Some [] else None)"

definition argv_fields :: "args \<Rightarrow> (string \<times> string option) list" where
  "argv_fields a =
     [(''--s3_object'', Some (s3_object a)), (''--db_host'', db_host a),
      (''--db_port'', map_option py_str_int (db_port a)), (''--db_name'', db_name a),
      (''--db_user'', db_user a), (''--db_password'', db_password a),
      (''--db_secret_arn'', db_secret_arn a), (''--table_name'', Some (table_name a)),
      (''--drop_table'', flag_val (drop_table a)), (''--delete_rows'', flag_val (delete_rows a)),
      (''--delete_mode'', Some (delete_mode a)), (''--chunk_size'', Some (py_str_int (chunk_size a))),
      (''--ssl_ca_url'', Some (ssl_ca_url a)), (''--extra-py-files'', extra_py_files a),
      (''--scriptLocation'', scriptLocation a), (''--job-bookmark-option'', job_bookmark_option a),
      (''--job-language'', job_language a), (''--connection-names'', connection_names a)]"

definition render_field :: "string \<times> string option \<Rightarrow> string list" where
  "render_field f =
     (case f of (nm, None) \<Rightarrow> [] | (nm, Some v) \<Rightarrow> if nm \<in> set flag_opts then [nm] else [nm, v])"

definition render_argv :: "args \<Rightarrow> string list" where
  "render_argv a = concat (map render_field (argv_fields a))"

definition plain :: "string \<Rightarrow> bool" where
  "plain v \<longleftrightarrow> v = [] \<or> hd v \<noteq> CHR ''-''"

definition plain_opt :: "string option \<Rightarrow> bool" where
  "plain_opt x = (case x of None \<Rightarrow> True | Some v \<Rightarrow> plain v)"

definition args_plain :: "args \<Rightarrow> bool" where
  "args_plain a \<longleftrightarrow>
     plain (s3_object a) \<and> plain_opt (db_host a) \<and> plain_opt (db_name a) \<and> plain_opt (db_user a) \<and>
     plain_opt (db_password a) \<and> plain_opt (db_secret_arn a) \<and> plain (table_name a) \<and>
     plain (delete_mode a) \<and> plain (ssl_ca_url a) \<and> plain_opt (extra_py_files a) \<and>
     plain_opt (scriptLocation a) \<and> plain_opt (job_bookmark_option a) \<and> plain_opt (job_language a) \<and>
     plain_opt (connection_names a)"

definition field_ok :: "string \<times> string option \<Rightarrow> bool" where
  "field_ok f =
     (case f of (nm, x) \<Rightarrow>
       (case exact_opt nm of
          None \<Rightarrow> False
        | Some (d, k) \<Rightarrow> k \<noteq> KHelp \<and> (k = KFlag \<longleftrightarrow> nm \<in> set flag_opts) \<and> nm \<noteq> ''--'' \<and>
            (case x of
               None \<Rightarrow> True
             | Some v \<Rightarrow> k = KFlag \<or> (classify v = Inr TArg \<and> v \<noteq> ''--'' \<and> (k = KInt \<longrightarrow> py_int v \<noteq> None)))))"

definition step_ns :: "string \<times> string option \<Rightarrow> (string \<rightharpoonup> pyval) \<Rightarrow> (string \<rightharpoonup> pyval)" where
  "step_ns f ns =
     (case f of (nm, x) \<Rightarrow>
       (case x of
          None \<Rightarrow> ns
        | Some v \<Rightarrow>
            (case exact_opt nm of
               None \<Rightarrow> ns
             | Some (d, k) \<Rightarrow> ns(d \<mapsto> (if k = KFlag then PBool True else if k = KInt then PInt (the (py_int v))
                                        else PStr v)))))"

definition step_seen :: "string \<times> string option \<Rightarrow> string list \<Rightarrow> string list" where
  "step_seen f seen = (case f of (nm, None) \<Rightarrow> seen | (nm, Some _) \<Rightarrow> seen @ [nm])"

subsection \<open>Lemmas\<close>

lemma exact_opt_hd: "exact_opt nm = Some (d, k) \<Longrightarrow> nm \<noteq> [] \<and> hd nm = CHR ''-''"
  by (auto simp: exact_opt_def options_def split: if_splits)

lemma exact_opt_dash [simp]: "exact_opt ''--'' = None"
  by (simp add: exact_opt_def options_def)

lemma classify_exact: "exact_opt nm = Some (d, k) \<Longrightarrow> classify nm = Inr (TOpt nm d k None)"
  using exact_opt_hd [of nm d k] by (simp add: classify_def)

lemma field_step:
  assumes "field_ok f"
  shows "bind_res (classify_all (render_field f @ ts)) (\<lambda>cs. consume cs ns seen ex) =
         bind_res (classify_all ts) (\<lambda>cs. consume cs (step_ns f ns) (step_seen f seen) ex)"
proof -
  obtain nm x where f: "f = (nm, x)" by fastforce
  show ?thesis
  proof (cases x)
    case None
    then show ?thesis by (simp add: f render_field_def step_ns_def step_seen_def)
  next
    case (Some v)
    from assms f obtain d k where ex: "exact_opt nm = Some (d, k)"
      by (auto simp: field_ok_def split: option.splits)
    have cn: "classify nm = Inr (TOpt nm d k None)" using ex by (rule classify_exact)
    show ?thesis
    proof (cases k)
      case KFlag
      with assms f ex Some cn show ?thesis
        by (simp add: field_ok_def render_field_def step_ns_def step_seen_def)
    next
      case KHelp
      with assms f ex show ?thesis by (simp add: field_ok_def)
    next
      case KStr
      with assms f ex Some cn show ?thesis
        by (simp add: field_ok_def render_field_def step_ns_def step_seen_def convert_def)
    next
      case KInt
      with assms f ex Some cn show ?thesis
        by (auto simp: field_ok_def render_field_def step_ns_def step_seen_def convert_def)
    qed
  qed
qed

lemma fields_steps:
  "\<forall>f \<in> set fs. field_ok f \<Longrightarrow>
   bind_res (classify_all (concat (map render_field fs) @ ts)) (\<lambda>cs. consume cs ns seen ex) =
   bind_res (classify_all ts) (\<lambda>cs. consume cs (fold step_ns fs ns) (fold step_seen fs seen) ex)"
proof (induction fs arbitrary: ns seen)
  case (Cons f fs)
  then show ?case using field_step [of f "concat (map render_field fs) @ ts" ns seen ex] by simp
qed simp

lemma classify_plain: "plain v \<Longrightarrow> classify v = Inr TArg"
  by (auto simp: classify_def plain_def)

lemma plain_not_dash: "plain v \<Longrightarrow> v \<noteq> ''--''"
  by (auto simp: plain_def)



lemma classify_str_int: "classify (py_str_int n) = Inr TArg"
proof (cases "n < 0")
  case False
  then obtain c ds where cd: "py_str_int n = c # ds" "c \<noteq> CHR ''-''"
    using py_int_nat_digits_shape [of "nat n"] by (auto simp: py_str_int_def)
  then show ?thesis by (simp add: classify_def)
next
  case True
  let ?ds = "nat_digits (nat (- n))"
  have s: "py_str_int n = CHR ''-'' # ?ds" using True by (simp add: py_str_int_def)
  obtain c cs where cd: "?ds = c # cs" using nat_digits_not_Nil by (cases ?ds) auto
  have dig: "\<forall>x \<in> set ?ds. py_isdigit x" using nat_digits_isdigit by blast
  then have c: "py_isdigit c" using cd by simp
  have noeq: "CHR ''='' \<notin> set ?ds" "CHR '' '' \<notin> set ?ds"
    using dig by (auto simp: py_isdigit_def)
  have cc: "c \<noteq> CHR ''-''" "c \<noteq> CHR ''h''" using c by (auto simp: py_isdigit_def)
  have ne: "exact_opt (CHR ''-'' # ?ds) = None"
    using cc by (simp add: cd exact_opt_def options_def)
  have pm: "prefix_matches (CHR ''-'' # ?ds) = []"
    using cc by (simp add: cd prefix_matches_def options_def)
  have nn: "neg_number (CHR ''-'' # ?ds)"
    using dig nat_digits_not_Nil by (simp add: neg_number_def list_all_iff)
  show ?thesis using cd ne pm nn noeq by (simp add: s classify_def)
qed

lemma field_ok_str:
  "exact_opt nm \<noteq> None \<Longrightarrow> snd (the (exact_opt nm)) = KStr \<Longrightarrow> nm \<notin> set flag_opts \<Longrightarrow> plain_opt x \<Longrightarrow>
   field_ok (nm, x)"
  by (auto simp: field_ok_def plain_opt_def classify_plain plain_not_dash split: option.splits)

lemma field_ok_int:
  "exact_opt nm \<noteq> None \<Longrightarrow> snd (the (exact_opt nm)) = KInt \<Longrightarrow> nm \<notin> set flag_opts \<Longrightarrow>
   field_ok (nm, map_option py_str_int x)"
proof -
  assume a: "exact_opt nm \<noteq> None" "snd (the (exact_opt nm)) = KInt" "nm \<notin> set flag_opts"
  have "py_int ''--'' = None" by (simp add: py_int_def py_strip_def py_isspace_def py_int_unsigned_def py_isdigit_def)
  then have "py_str_int n \<noteq> ''--''" for n using py_int_py_str_int [of n] by auto
  with a show ?thesis
    by (auto simp: field_ok_def classify_str_int py_int_py_str_int split: option.splits)
qed

lemma field_ok_int_Some:
  "exact_opt nm \<noteq> None \<Longrightarrow> snd (the (exact_opt nm)) = KInt \<Longrightarrow> nm \<notin> set flag_opts \<Longrightarrow>
   field_ok (nm, Some (py_str_int n))"
  using field_ok_int [of nm "Some n"] by simp

lemma field_ok_flag:
  "exact_opt nm \<noteq> None \<Longrightarrow> snd (the (exact_opt nm)) = KFlag \<Longrightarrow> nm \<in> set flag_opts \<Longrightarrow>
   field_ok (nm, flag_val b)"
  by (auto simp: field_ok_def exact_opt_hd flag_val_def)

lemma argv_fields_ok: "args_plain a \<Longrightarrow> \<forall>f \<in> set (argv_fields a). field_ok f"
  unfolding args_plain_def argv_fields_def
  by (simp add: field_ok_str field_ok_int field_ok_int_Some field_ok_flag plain_opt_def exact_opt_def options_def flag_opts_def)

lemma step_seen_mono: "set seen \<subseteq> set (fold step_seen fs seen)"
proof (induction fs arbitrary: seen)
  case (Cons f fs)
  obtain nm x where f: "f = (nm, x)" by fastforce
  have "set seen \<subseteq> set (step_seen f seen)" by (cases x) (auto simp: f step_seen_def)
  with Cons.IH [of "step_seen f seen"] show ?case by simp
qed simp

lemma step_seen_mem: "(nm, Some v) \<in> set fs \<Longrightarrow> nm \<in> set (fold step_seen fs seen)"
proof (induction fs arbitrary: seen)
  case (Cons f fs)
  show ?case
  proof (cases "f = (nm, Some v)")
    case True
    then have "nm \<in> set (step_seen f seen)" by (simp add: step_seen_def)
    with step_seen_mono [of "step_seen f seen" fs] True show ?thesis by auto
  next
    case False
    with Cons show ?thesis by simp
  qed
qed simp

lemma step_ns_other:
  "exact_opt nm \<noteq> None \<Longrightarrow> k \<noteq> fst (the (exact_opt nm)) \<Longrightarrow> step_ns (nm, x) ns k = ns k"
  by (auto simp: step_ns_def split: option.splits)
lemma step_ns_same:
  "exact_opt nm = Some (d, kd) \<Longrightarrow>
   step_ns (nm, x) ns d = (case x of None \<Rightarrow> ns d | Some v \<Rightarrow> Some (if kd = KFlag then PBool True
                                  else if kd = KInt then PInt (the (py_int v)) else PStr v))"
  by (auto simp: step_ns_def split: option.splits)
lemma exact_opt_vals:
  "exact_opt ''--s3_object'' = Some (''s3_object'', KStr)"
  "exact_opt ''--db_host'' = Some (''db_host'', KStr)"
  "exact_opt ''--db_port'' = Some (''db_port'', KInt)"
  "exact_opt ''--db_name'' = Some (''db_name'', KStr)"
  "exact_opt ''--db_user'' = Some (''db_user'', KStr)"
  "exact_opt ''--db_password'' = Some (''db_password'', KStr)"
  "exact_opt ''--db_secret_arn'' = Some (''db_secret_arn'', KStr)"
  "exact_opt ''--table_name'' = Some (''table_name'', KStr)"
  "exact_opt ''--drop_table'' = Some (''drop_table'', KFlag)"
  "exact_opt ''--delete_rows'' = Some (''delete_rows'', KFlag)"
  "exact_opt ''--delete_mode'' = Some (''delete_mode'', KStr)"
  "exact_opt ''--chunk_size'' = Some (''chunk_size'', KInt)"
  "exact_opt ''--ssl_ca_url'' = Some (''ssl_ca_url'', KStr)"
  "exact_opt ''--extra-py-files'' = Some (''extra_py_files'', KStr)"
  "exact_opt ''--scriptLocation'' = Some (''scriptLocation'', KStr)"
  "exact_opt ''--job-bookmark-option'' = Some (''job_bookmark_option'', KStr)"
  "exact_opt ''--job-language'' = Some (''job_language'', KStr)"
  "exact_opt ''--connection-names'' = Some (''connection_names'', KStr)"
  by (simp_all add: exact_opt_def options_def)
lemma args_of_ns_sel:
  "s3_object (args_of_ns ns) = ns_str ns ''s3_object''"
  "db_host (args_of_ns ns) = ns_opt_str ns ''db_host''"
  "db_port (args_of_ns ns) = ns_int ns ''db_port''"
  "db_name (args_of_ns ns) = ns_opt_str ns ''db_name''"
  "db_user (args_of_ns ns) = ns_opt_str ns ''db_user''"
  "db_password (args_of_ns ns) = ns_opt_str ns ''db_password''"
  "db_secret_arn (args_of_ns ns) = ns_opt_str ns ''db_secret_arn''"
  "table_name (args_of_ns ns) = ns_str ns ''table_name''"
  "drop_table (args_of_ns ns) = ns_bool ns ''drop_table''"
  "delete_rows (args_of_ns ns) = ns_bool ns ''delete_rows''"
  "delete_mode (args_of_ns ns) = ns_str ns ''delete_mode''"
  "chunk_size (args_of_ns ns) = (case ns_int ns ''chunk_size'' of Some n \<Rightarrow> n | None \<Rightarrow> 10000)"
  "ssl_ca_url (args_of_ns ns) = ns_str ns ''ssl_ca_url''"
  "extra_py_files (args_of_ns ns) = ns_opt_str ns ''extra_py_files''"
  "scriptLocation (args_of_ns ns) = ns_opt_str ns ''scriptLocation''"
  "job_bookmark_option (args_of_ns ns) = ns_opt_str ns ''job_bookmark_option''"
  "job_language (args_of_ns ns) = ns_opt_str ns ''job_language''"
  "connection_names (args_of_ns ns) = ns_opt_str ns ''connection_names''"
  by (simp_all add: args_of_ns_def)

lemma args_of_fields: "args_of_ns (fold step_ns (argv_fields a) defaults_ns) = a"
  by (intro args.equality)
     (simp_all add: args_of_ns_sel argv_fields_def step_ns_other step_ns_same exact_opt_vals defaults_ns_def
        ns_str_def ns_opt_str_def ns_int_def ns_bool_def flag_val_def py_int_py_str_int
        cong: option.case_cong split: option.split)

text \<open>
  C18. The declarations of lines 42--62 parse back every configuration they can
  express: writing a configuration as a command line (each set option once, flags
  alone) and parsing it gives that configuration, including negative ports and chunk
  sizes, as long as no string value starts with \<open>-\<close>.
\<close>

theorem argv_roundtrip: "args_plain a \<Longrightarrow> parse_argv (render_argv a) = Inr a"
proof -
  assume p: "args_plain a"
  have core: "bind_res (classify_all (render_argv a)) (\<lambda>cs. consume cs defaults_ns [] []) =
              Inr (fold step_ns (argv_fields a) defaults_ns, fold step_seen (argv_fields a) [], [])"
    using fields_steps [OF argv_fields_ok [OF p], of "[]" defaults_ns "[]" "[]"] by (simp add: render_argv_def)
  have req: "filter (\<lambda>nm. nm \<notin> set (fold step_seen (argv_fields a) [])) required_opts = []"
    using step_seen_mem [of "''--s3_object''" "s3_object a" "argv_fields a" "[]"]
          step_seen_mem [of "''--table_name''" "table_name a" "argv_fields a" "[]"]
    by (simp add: required_opts_def argv_fields_def)
  have "parse_argv (render_argv a) =
        bind_res (bind_res (classify_all (render_argv a)) (\<lambda>cs. consume cs defaults_ns [] []))
          (\<lambda>(ns, seen, ex). let miss = filter (\<lambda>nm. nm \<notin> set seen) required_opts in
             if miss \<noteq> [] then Inl (ArgError (''the following arguments are required: '' @ join '', '' miss))
             else if ex \<noteq> [] then Inl (ArgError (''unrecognized arguments: '' @ join '' '' ex))
             else Inr (args_of_ns ns))"
    by (simp add: parse_argv_def)
  with core req show ?thesis by (simp add: args_of_fields)
qed

text \<open>
  argparse's default \<open>allow_abbrev\<close> applies to the script's options:
  \<open>--s3\<close>, \<open>--table\<close> and \<open>--drop\<close> are taken for \<open>--s3_object\<close>,
  \<open>--table_name\<close> and \<open>--drop_table\<close>, while \<open>--delete\<close> is refused as
  ambiguous. The flag table of the spec lists only the full names.
\<close>

theorem argv_abbreviations:
  "parse_argv [''--s3'', ''s3://b/k.csv'', ''--table'', ''sales'', ''--drop'']
     = Inr ((default_args ''s3://b/k.csv'' ''sales'')\<lparr>drop_table := True\<rparr>) \<and>
   parse_argv [''--s3_object'', ''s3://b/k.csv'', ''--table_name'', ''sales'', ''--delete'']
     = Inl (ArgError ''ambiguous option: --delete could match --delete_rows, --delete_mode'')"
  by (simp add: parse_argv_def classify_def exact_opt_def options_def prefix_matches_def neg_number_def
       consume.simps convert_def defaults_ns_def required_opts_def args_of_ns_def ns_str_def ns_opt_str_def
       ns_int_def ns_bool_def default_args_def)

text \<open>
  \<open>--chunk_size\<close> is declared \<open>type=int\<close> with no range, so
  \<open>--chunk_size 0\<close> is accepted; with \<open>--drop_table\<close> the table is dropped
  (line 133) before the lazy reader first runs and refuses the chunk size (line 149),
  so the run fails with the table gone.
\<close>

theorem main_zero_chunk_size_drops_table:
  "fst (main [''--s3_object'', ''s3://b/k.csv'', ''--table_name'', ''sales'', ''--db_host'', ''h'', ''--db_name'', ''shop'',
         ''--db_user'', ''etl'', ''--db_password'', ''pw'', ''--drop_table'', ''--chunk_size'', ''0'']
     \<lparr>ca_ok = True, secrets = Map.empty, connect_ok = True,
      objects = [''s3://b/k.csv'' \<mapsto> \<lparr>header = [''id''], rows = [[CInt 1]]\<rparr>], insert_fails = (\<lambda>_. False)\<rparr>
     (start [(''shop'', ''sales'') \<mapsto> \<lparr>tbl_cols = [(''id'', TInt)], tbl_rows = [[CInt 5]]\<rparr>]))
   = Inl (ValueError ''chunksize must be an integer >=1'') \<and>
   committed (wdb (snd (main [''--s3_object'', ''s3://b/k.csv'', ''--table_name'', ''sales'', ''--db_host'', ''h'',
         ''--db_name'', ''shop'', ''--db_user'', ''etl'', ''--db_password'', ''pw'', ''--drop_table'', ''--chunk_size'', ''0'']
     \<lparr>ca_ok = True, secrets = Map.empty, connect_ok = True,
      objects = [''s3://b/k.csv'' \<mapsto> \<lparr>header = [''id''], rows = [[CInt 1]]\<rparr>], insert_fails = (\<lambda>_. False)\<rparr>
     (start [(''shop'', ''sales'') \<mapsto> \<lparr>tbl_cols = [(''id'', TInt)], tbl_rows = [[CInt 5]]\<rparr>]))))
     (''shop'', ''sales'') = None"
proof -
  let ?argv = "[''--s3_object'', ''s3://b/k.csv'', ''--table_name'', ''sales'', ''--db_host'', ''h'', ''--db_name'', ''shop'',
         ''--db_user'', ''etl'', ''--db_password'', ''pw'', ''--drop_table'', ''--chunk_size'', ''0'']"
  have p: "parse_argv ?argv = Inr ((default_args ''s3://b/k.csv'' ''sales'')\<lparr>db_host := Some ''h'', db_name := Some ''shop'',
             db_user := Some ''etl'', db_password := Some ''pw'', drop_table := True, chunk_size := 0\<rparr>)"
    by (simp add: parse_argv_def classify_def exact_opt_def options_def prefix_matches_def neg_number_def
       consume.simps convert_def defaults_ns_def required_opts_def args_of_ns_def ns_str_def ns_opt_str_def
       ns_int_def ns_bool_def default_args_def py_int_def py_strip_def py_isspace_def py_int_unsigned_def
       py_isdigit_def digit_val_def)
  show ?thesis by (simp add: main_def p run_eval)
qed

theorem argv_roundtrip_witness:
  "parse_argv [''--s3_object'', ''s3://b/k.csv'', ''--db_port'', ''-7'', ''--table_name'', ''sales'',
               ''--drop_table'', ''--delete_mode'', ''TRUNCATE'', ''--chunk_size'', ''10000'',
               ''--ssl_ca_url'', ''https://s3.amazonaws.com/rds-downloads/rds-combined-ca-bundle.pem'']
   = Inr ((default_args ''s3://b/k.csv'' ''sales'')\<lparr>db_port := Some (-7), drop_table := True\<rparr>)"
proof -
  let ?a = "(default_args ''s3://b/k.csv'' ''sales'')\<lparr>db_port := Some (-7), drop_table := True\<rparr>"
  have p: "args_plain ?a" by (simp add: args_plain_def default_args_def plain_def plain_opt_def)
  have r: "render_argv ?a = [''--s3_object'', ''s3://b/k.csv'', ''--db_port'', ''-7'', ''--table_name'', ''sales'',
               ''--drop_table'', ''--delete_mode'', ''TRUNCATE'', ''--chunk_size'', ''10000'',
               ''--ssl_ca_url'', ''https://s3.amazonaws.com/rds-downloads/rds-combined-ca-bundle.pem'']"
    by (simp add: render_argv_def argv_fields_def default_args_def render_field_def flag_val_def flag_opts_def
                  py_str_int_def nat_digits.simps char_of_eq_iff)
  from argv_roundtrip [OF p] r show ?thesis by simp
qed

end
