(* ===== verification/Logging.thy ===== *)
theory Logging
  imports Argv Tracing
begin

text \<open>
  What the script prints on stdout. Lines 15--23 of \<open>src/load_csv_to_mysql.py\<close>
  configure logging twice over: \<open>logging.basicConfig(stream=sys.stdout, level=INFO)\<close>
  gives the root logger a handler with the default format
  \<open>%(levelname)s:%(name)s:%(message)s\<close>, and lines 18--22 give the script's
  logger \<open>__main__\<close> a second stdout handler with the format
  \<open>%(asctime)s - %(name)s - %(levelname)s - %(message)s\<close>. A record is handled by
  the logger's own handlers and then, since the logger propagates, by the root's:
  every \<open>log.info\<close>/\<open>log.error\<close> call prints two lines, the second handler's
  first. The message texts are those of the log calls (lines 66--172); the dictionary
  of line 66 is printed as Python's \<open>str(dict)\<close>. Timestamps are a parameter
  \<open>stamp\<close> (the i-th record's \<open>asctime\<close>); string repr is modelled for
  printable ASCII (quote choice and escaping of quotes and backslashes).
\<close>

datatype level = INFO | ERROR

definition level_name :: "level \<Rightarrow> string" where
  "level_name l = (case l of INFO \<Rightarrow> ''INFO'' | ERROR \<Rightarrow> ''ERROR'')"

fun msg_level :: "logmsg \<Rightarrow> level" where
  "msg_level LogCAError = ERROR"
| "msg_level _ = INFO"

fun py_escape :: "char \<Rightarrow> string \<Rightarrow> string" where
  "py_escape q [] = []"
| "py_escape q (c # cs) =
     (if c = CHR 0x5C \<or> c = q then CHR 0x5C # c # py_escape q cs else c # py_escape q cs)"

definition py_str_repr :: "string \<Rightarrow> string" where
  "py_str_repr s =
     (if CHR 0x27 \<in> set s \<and> CHR 0x22 \<notin> set s then CHR 0x22 # py_escape CHR 0x22 s @ [CHR 0x22]
      else CHR 0x27 # py_escape CHR 0x27 s @ [CHR 0x27])"

definition py_val_repr :: "pyval \<Rightarrow> string" where
  "py_val_repr v =
     (case v of PStr s \<Rightarrow> py_str_repr s | PInt n \<Rightarrow> py_str_int n
      | PBool b \<Rightarrow> (if b then ''True'' else ''False'') | PNone \<Rightarrow> ''None'')"

definition dict_repr :: "(string \<times> pyval) list \<Rightarrow> string" where
  "dict_repr d = ''{'' @ join '', '' (map (\<lambda>(k, v). py_str_repr k @ '': '' @ py_val_repr v) d) @ ''}''"

fun msg_text :: "logmsg \<Rightarrow> string" where
  "msg_text (LogArgs d) = dict_repr d"
| "msg_text LogGetCA = ''Getting CA Bundle from URL.''"
| "msg_text LogCAError = ''An Unexpected Error Occurred when retrieving the SSL CA bundle...''"
| "msg_text (LogFetchSecret arn) = ''Fetching Secret: '' @ arn"
| "msg_text LogRetrievedSecret = ''Retrieved secret''"
| "msg_text (LogDrop d t) = ''DROP TABLE IF EXISTS '' @ d @ ''.'' @ t"
| "msg_text (LogTruncate d t) = ''TRUNCATE TABLE '' @ d @ ''.'' @ t"
| "msg_text (LogDelete d t) = ''DELETE FROM '' @ d @ ''.'' @ t"
| "msg_text LogSkipDelete = ''Table doesn'' @ [CHR 0x27] @ ''t exist, skipping row deletion.''"
| "msg_text (LogInserting n) = ''Inserting '' @ py_str_int (int n) @ '' rows''"
| "msg_text (LogDbCount n) = ''DB Table row count: '' @ py_str_int (int n)"
| "msg_text (LogCsvCount n) = ''CSV row count: '' @ py_str_int (int n)"
| "msg_text LogFinished = ''Finished''"

definition logger_name :: string where
  "logger_name = ''__main__''"

definition handler_line :: "string \<Rightarrow> logmsg \<Rightarrow> string" where
  "handler_line ts m = ts @ '' - '' @ logger_name @ '' - '' @ level_name (msg_level m) @ '' - '' @ msg_text m"

definition basic_line :: "logmsg \<Rightarrow> string" where
  "basic_line m = level_name (msg_level m) @ '':'' @ logger_name @ '':'' @ msg_text m"

definition log_records :: "event list \<Rightarrow> logmsg list" where
  "log_records tr = concat (map (\<lambda>ev. case ev of Log m \<Rightarrow> [m] | _ \<Rightarrow> []) tr)"

definition stdout_lines :: "(nat \<Rightarrow> string) \<Rightarrow> event list \<Rightarrow> string list" where
  "stdout_lines stamp tr =
     concat (map (\<lambda>(i, m). [handler_line (stamp i) m, basic_line m]) (enumerate 0 (log_records tr)))"

subsection \<open>Lemmas\<close>

lemma log_records_append [simp]: "log_records (t1 @ t2) = log_records t1 @ log_records t2"
  by (simp add: log_records_def)

lemma log_records_Nil [simp]: "log_records [] = []"
  by (simp add: log_records_def)

lemma log_records_Log [simp]: "log_records (Log m # t) = m # log_records t"
  by (simp add: log_records_def)

lemma stdout_lines_Nil [simp]: "stdout_lines stamp [] = []"
  by (simp add: stdout_lines_def)

lemma enumerate_shift:
  "map (\<lambda>(i, m). g i m) (enumerate k xs) = map (\<lambda>(i, m). g (k + i) m) (enumerate 0 xs)"
proof (induction xs arbitrary: k g)
  case Nil
  then show ?case by simp
next
  case (Cons x xs)
  have "map (\<lambda>(i, m). g i m) (enumerate (Suc k) xs) = map (\<lambda>(i, m). g (Suc k + i) m) (enumerate 0 xs)"
    by (rule Cons.IH)
  moreover have "map (\<lambda>(i, m). g (k + i) m) (enumerate (Suc 0) xs) =
      map (\<lambda>(i, m). g (k + (Suc 0 + i)) m) (enumerate 0 xs)"
    by (rule Cons.IH)
  ultimately show ?case by simp
qed

lemma stdout_lines_append:
  "stdout_lines stamp (t1 @ t2) =
     stdout_lines stamp t1 @ stdout_lines (\<lambda>i. stamp (length (log_records t1) + i)) t2"
proof -
  let ?g = "\<lambda>i m. [handler_line (stamp i) m, basic_line m]"
  have "map (\<lambda>(i, m). ?g i m) (enumerate (length (log_records t1)) (log_records t2)) =
        map (\<lambda>(i, m). ?g (length (log_records t1) + i) m) (enumerate 0 (log_records t2))"
    by (rule enumerate_shift)
  then show ?thesis by (simp add: stdout_lines_def enumerate_append_eq)
qed

lemma stdout_lines_Log:
  "stdout_lines stamp (Log m # t) =
     handler_line (stamp 0) m # basic_line m # stdout_lines (\<lambda>i. stamp (Suc i)) t"
proof -
  have "stdout_lines stamp [Log m] = [handler_line (stamp 0) m, basic_line m]"
    by (simp add: stdout_lines_def)
  then show ?thesis using stdout_lines_append [of stamp "[Log m]" t] by simp
qed

lemma trace_free_fetch_ca: "trace_free (fetch_ca e url)"
  unfolding fetch_ca_def by (intro pres_rules)

lemma run_trace_shape:
  "\<exists>t. trace (snd (run a e w)) = trace w @ Log (LogArgs (logged_args a)) # t"
proof -
  let ?k = "\<lambda>_::unit. bind_st (lift_res (load_config a)) (\<lambda>cfg.
     bind_st (fetch_ca e (cfg_ssl_ca cfg)) (\<lambda>_.
     bind_st (fetch_secret e cfg) (\<lambda>c0.
     bind_st (lift_res (require_creds c0)) (\<lambda>c.
     bind_st (connect e c) (\<lambda>_.
     bind_st (prepare_table (cfg_drop cfg) (cfg_delete cfg) (cfg_mode cfg) (the (c_name c)) (cfg_table cfg)) (\<lambda>_.
     bind_st (load e cfg (the (c_name c))) (\<lambda>rc. verify (the (c_name c)) (cfg_table cfg) rc)))))))"
  let ?w1 = "w\<lparr>trace := trace w @ [Log (LogArgs (logged_args a))]\<rparr>"
  have k: "trace_free (?k ())"
    by (intro pres_rules trace_free_fetch_ca trace_free_fetch_secret trace_free_connect
        trace_free_prepare_table trace_free_load trace_free_verify)
  have r: "run a e w = ?k () ?w1"
    by (simp add: run_def emit_def bind_st_apply)
  obtain r0 d t where kb: "?k () (bare ?w1) = (r0, \<lparr>wdb = d, trace = t\<rparr>)"
    using world_split [of "?k () (bare ?w1)"] by blast
  show ?thesis using trace_freeD [OF k kb] r by simp
qed

text \<open>
  C20. Whatever happens later, the first lines a run prints are the dictionary of its
  arguments (line 66) printed twice: once by the script's own handler (lines 18--22)
  with timestamp, logger name and level, and once more by the root handler of
  \<open>basicConfig\<close> (line 15) to which the record propagates. The dictionary holds
  every argument of \<open>vars(args)\<close>, in declaration order, except \<open>db_password\<close>.
\<close>

theorem run_stdout_args_first:
  "(\<exists>rest. stdout_lines stamp (trace (snd (run a e w))) =
     stdout_lines stamp (trace w) @
     (stamp (length (log_records (trace w))) @ '' - __main__ - INFO - '' @ dict_repr (logged_args a)) #
     (''INFO:__main__:'' @ dict_repr (logged_args a)) # rest) \<and>
   map fst (logged_args a) =
     [''s3_object'', ''db_host'', ''db_port'', ''db_name'', ''db_user'', ''db_secret_arn'', ''table_name'',
      ''drop_table'', ''delete_rows'', ''delete_mode'', ''chunk_size'', ''ssl_ca_url'', ''extra_py_files'',
      ''scriptLocation'', ''job_bookmark_option'', ''job_language'', ''connection_names''] \<and>
   set (logged_args a) \<subseteq> set (args_dict a)"
proof -
  obtain t where "trace (snd (run a e w)) = trace w @ Log (LogArgs (logged_args a)) # t"
    using run_trace_shape by blast
  then have "\<exists>rest. stdout_lines stamp (trace (snd (run a e w))) =
     stdout_lines stamp (trace w) @
     handler_line (stamp (length (log_records (trace w)))) (LogArgs (logged_args a)) #
     basic_line (LogArgs (logged_args a)) # rest"
    by (simp add: stdout_lines_append stdout_lines_Log)
  moreover have "map fst (logged_args a) =
     [''s3_object'', ''db_host'', ''db_port'', ''db_name'', ''db_user'', ''db_secret_arn'', ''table_name'',
      ''drop_table'', ''delete_rows'', ''delete_mode'', ''chunk_size'', ''ssl_ca_url'', ''extra_py_files'',
      ''scriptLocation'', ''job_bookmark_option'', ''job_language'', ''connection_names'']"
    by (simp add: logged_args_def args_dict_def)
  moreover have "set (logged_args a) \<subseteq> set (args_dict a)"
    by (auto simp: logged_args_def)
  ultimately show ?thesis
    by (simp add: handler_line_def basic_line_def logger_name_def level_name_def)
qed

text \<open>
  Concretely, a run rejected for \<open>--delete_mode bogus\<close> prints exactly these two
  lines: the same message once per handler.
\<close>

theorem run_invalid_mode_stdout:
  "stdout_lines (\<lambda>_. ''2026-11-09 06:41:52,034'')
     (trace (snd (run ((default_args ''s3://b/k.csv'' ''sales'')\<lparr>delete_mode := ''bogus'', db_password := Some ''pw''\<rparr>)
       \<lparr>ca_ok = True, secrets = Map.empty, connect_ok = True, objects = Map.empty, insert_fails = (\<lambda>_. False)\<rparr>
       (start Map.empty)))) =
   [''2026-11-09 06:41:52,034 - __main__ - INFO - {'s3_object': 's3://b/k.csv', 'db_host': None, 'db_port': None, 'db_name': None, 'db_user': None, 'db_secret_arn': None, 'table_name': 'sales', 'drop_table': False, 'delete_rows': False, 'delete_mode': 'bogus', 'chunk_size': 10000, 'ssl_ca_url': 'https://s3.amazonaws.com/rds-downloads/rds-combined-ca-bundle.pem', 'extra_py_files': None, 'scriptLocation': None, 'job_bookmark_option': None, 'job_language': None, 'connection_names': None}'',
    ''INFO:__main__:{'s3_object': 's3://b/k.csv', 'db_host': None, 'db_port': None, 'db_name': None, 'db_user': None, 'db_secret_arn': None, 'table_name': 'sales', 'drop_table': False, 'delete_rows': False, 'delete_mode': 'bogus', 'chunk_size': 10000, 'ssl_ca_url': 'https://s3.amazonaws.com/rds-downloads/rds-combined-ca-bundle.pem', 'extra_py_files': None, 'scriptLocation': None, 'job_bookmark_option': None, 'job_language': None, 'connection_names': None}'']"
proof -
  let ?a = "(default_args ''s3://b/k.csv'' ''sales'')\<lparr>delete_mode := ''bogus'', db_password := Some ''pw''\<rparr>"
  let ?e = "\<lparr>ca_ok = True, secrets = Map.empty, connect_ok = True, objects = Map.empty, insert_fails = (\<lambda>_. False)\<rparr>"
  have "\<not> valid_delete_mode (normalize_delete_mode (delete_mode ?a))"
    by (simp add: default_args_def str_eval)
  then have cfg: "load_config ?a = Inl (ArgError (normalize_delete_mode (delete_mode ?a) @ '' is not a valid delete mode''))"
    by (simp add: load_config_Inl)
  have tr: "trace (snd (run ?a ?e (start Map.empty))) = [Log (LogArgs (logged_args ?a))]"
    by (simp add: run_def cfg bind_st_def emit_def lift_res_def raise_st_def start_def)
  have d: "logged_args ?a =
      [(''s3_object'', PStr ''s3://b/k.csv''), (''db_host'', PNone), (''db_port'', PNone), (''db_name'', PNone),
       (''db_user'', PNone), (''db_secret_arn'', PNone), (''table_name'', PStr ''sales''),
       (''drop_table'', PBool False), (''delete_rows'', PBool False), (''delete_mode'', PStr ''bogus''),
       (''chunk_size'', PInt 10000),
       (''ssl_ca_url'', PStr ''https://s3.amazonaws.com/rds-downloads/rds-combined-ca-bundle.pem''),
       (''extra_py_files'', PNone), (''scriptLocation'', PNone), (''job_bookmark_option'', PNone),
       (''job_language'', PNone), (''connection_names'', PNone)]"
    by (simp add: default_args_def logged_args_def args_dict_def py_opt_str_def)
  have n: "py_str_int 10000 = ''10000''"
    by (simp add: py_str_int_def nat_digits.simps char_of_eq_iff)
  have m: "dict_repr (logged_args ?a) = ''{'s3_object': 's3://b/k.csv', 'db_host': None, 'db_port': None, 'db_name': None, 'db_user': None, 'db_secret_arn': None, 'table_name': 'sales', 'drop_table': False, 'delete_rows': False, 'delete_mode': 'bogus', 'chunk_size': 10000, 'ssl_ca_url': 'https://s3.amazonaws.com/rds-downloads/rds-combined-ca-bundle.pem', 'extra_py_files': None, 'scriptLocation': None, 'job_bookmark_option': None, 'job_language': None, 'connection_names': None}''"
    by (simp only: d) (simp add: dict_repr_def py_str_repr_def py_val_repr_def n)
  show ?thesis
    by (simp add: tr stdout_lines_Log handler_line_def basic_line_def logger_name_def level_name_def m)
qed

end
