(* ===== verification/Spec2Isabelle.thy ===== *)
theory Spec2Isabelle
  imports Integrity Tracing SqlText Argv Logging
begin

text \<open>
  \<^bold>\<open>A verification model of \<open>src/load_csv_to_mysql.py\<close>.\<close>

  The program is one AWS Glue Python-shell script that loads a CSV object from S3
  into a MySQL table. It runs top to bottom: it parses and validates its arguments
  (lines 42--80), downloads the RDS CA bundle (83--87), optionally fetches a Secrets
  Manager bundle and merges it into the connection fields (89--105), connects with
  pymysql (108--114), opens a lazy chunked reader on the object (116--119), prepares
  the target table (drop, truncate, delete or nothing; 121--145), appends the chunks
  one by one with awswrangler (149--161), and finally compares the table's row
  count with the number of rows read (164--172).

  \<^bold>\<open>Theories.\<close>
  \<^item> \<open>Prelude\<close>: Python exceptions as the datatype \<open>py_exc\<close>, results
    \<open>py_exc + 'a\<close>, and the state-and-exception monad \<open>('a, 's) st\<close> in which a
    raised exception keeps the state reached.
  \<^item> \<open>PyStr\<close>: the builtins \<open>str.strip\<close>, \<open>str.upper\<close>, \<open>int()\<close> and
    \<open>str(int)\<close> on ASCII, with idempotence and the round trip
    \<open>int(str(n)) = n\<close>.
  \<^item> \<open>Config\<close>: the argument record, the delete-mode check of lines 76--80
    (\<open>check_delete_mode\<close>: accepted exactly when the value is white space around a
    case variant of TRUNCATE or DELETE), the secret merge of lines 96--100
    (\<open>merge_secret\<close>) and the required-field checks of lines 102--105
    (\<open>require_creds\<close>). The merge is proved to refine a specification
    (\<open>spec_resolve\<close>: explicit field first, then the bundle's) on every field
    but the port, which line 100 reads and throws away.
  \<^item> \<open>Dtypes\<close>: pandas cells and \<open>convert_dtypes\<close> (line 150) as a join
    in the semilattice of column types (\<open>coltype\<close> is an instance of
    \<open>semilattice_sup\<close>); a column's type depends only on the set of value kinds in
    it, and a single string makes it a string column.
  \<^item> \<open>Chunks\<close>: the chunking of the lazy reader, a terminating \<open>function\<close>
    whose chunks partition the rows in order, with their number and bounds; a file
    with a header and no rows yields one empty chunk, as pandas does.
  \<^item> \<open>Database\<close>: MySQL with pymysql's \<open>autocommit=False\<close>
    (\<open>committed\<close> and \<open>work\<close>ing tables; DDL commits implicitly, DML waits
    for COMMIT, close discards), the script's statements \<open>table_exists\<close>,
    \<open>prepare_table\<close>, \<open>count_rows\<close>, \<open>close_conn\<close>, and awswrangler's
    \<open>to_sql\<close> in append mode. Every I/O and log line is an \<open>event\<close> of the
    \<open>world\<close>'s \<open>trace\<close>.
  \<^item> \<open>Ingest\<close>: the chunk loop \<open>ingest\<close> (lines 149--161) and the
    verification step \<open>verify\<close> (164--172).
  \<^item> \<open>Script\<close>: the outside world as \<open>env\<close> and the whole script as
    \<open>run\<close>, every step in source order.
  \<^item> \<open>Runs\<close>: invariants of the events of a run (\<open>events_ok\<close>) and the
    rule \<open>run_events\<close> that follows the credentials from the secret merge to the
    connection; from it, the port dialled is always the argument's, and the outcome of
    a run whose source cannot be read (missing object, chunk size below 1, no rows):
    the run fails after the table disposition has committed.
  \<^item> \<open>Integrity\<close>: two invariants of every run, on every path: for identifier
    names, every statement addresses \<open>--table_name\<close> and no other table changes
    (\<open>untouched\<close>, \<open>names_ok\<close>), and no INSERT carries more than
    \<open>--chunk_size\<close> rows (\<open>inserts_within\<close>). They are proved operation by
    operation with \<open>preserves\<close> and the rule collection \<open>pres_rules\<close> of
    \<open>Prelude\<close>.
  \<^item> \<open>Tracing\<close>: every operation is \<open>trace_free\<close> (it never reads the
    events already emitted), so a failed CA download changes nothing but its error
    line.
  \<^item> \<open>SqlText\<close>: the exact SQL text of the statements the script formats
    (\<open>stmt_sql\<close>), a parser for it, and the round trip that makes the opaque
    (database, table) keys of \<open>Database\<close> faithful for identifier names, with
    the counterexample for other names.
  \<^item> \<open>Argv\<close>: the option declarations of lines 26--62 and argparse's
    \<open>parse_args\<close> on them (\<open>parse_argv\<close>): token classification with
    abbreviations, consumption into the namespace of defaults, \<open>type=int\<close>,
    flags, required options; \<open>main\<close> runs the script on a command line. A
    configuration written as a command line parses back to itself.
  \<^item> \<open>Logging\<close>: what the script prints. \<open>stdout_lines\<close> renders the log
    records of a trace through the two stdout handlers of lines 15--23, the
    logger's own (\<open>handler_line\<close>, with timestamp) and, by propagation, the
    root handler of \<open>basicConfig\<close> (\<open>basic_line\<close>); \<open>msg_text\<close> gives the text of
    each log call, the argument dictionary of line 66 as Python's \<open>str(dict)\<close>.
  \<^item> This theory: the end-to-end drop-and-reload theorem applied to a concrete
    file of 25000 rows in chunks of 10000.

  \<^bold>\<open>What the lemmas show.\<close> The returned row count is the number of rows read;
  the chunk loop ends after fetching chunks \<open>0, 1, ...\<close> in order,
  \<open>ceil(n/k)\<close> of them when it completes; whatever the server does, the committed
  table holds its old rows followed by a prefix of the chunks, all of them exactly when
  the loop succeeds; types come from the first chunk, so a later chunk they cannot
  store fails the load after the first is committed; a failed first append in DELETE
  mode restores the deleted rows; the table disposition follows the flags with
  \<open>--drop_table\<close> taking precedence, and only DROP and TRUNCATE commit at once;
  when the source cannot be read the run fails after the disposition, so a dropped
  table is lost and a truncated one stays empty, while a pending DELETE is discarded;
  for identifier names no run touches another table; a failed CA download only adds
  its error line; the port dialled is always \<open>--db_port\<close> or 3306, never the
  secret's; a drop-and-reload run that succeeds leaves exactly the file's rows and logs
  equal counts; each configuration error ends the run before any database I/O. Every
  message is printed twice, once per handler, and a run's output starts with its
  arguments without the password.

  \<^bold>\<open>Modelling choices.\<close> Library code (pandas, awswrangler, pymysql, MySQL,
  boto3) is modelled from its documented behaviour in the spec, not from source.
  CSV parsing is not modelled: an object is a frame of already parsed cells. Server
  failures the model does not otherwise explain are an oracle \<open>insert_fails\<close> on
  the chunk index, so every failure branch is reachable. Secrets are JSON objects of
  strings or nulls. MySQL's value check (\<open>storable\<close>) is simplified: a string
  fits only a text column, with no range check of BOOLEAN (TINYINT) columns and no
  TEXT length limit. No fuel is needed: every loop of the script is over a finite
  list, and \<open>chunks\<close> terminates by the length of what is left.

  \<^bold>\<open>Not modelled.\<close> The timestamps of log lines (a parameter),
  \<open>repr\<close> of non-printable characters, and the INFO records of library loggers
  (boto3, botocore) that also reach the root handler; argparse's combined short flags, its exact \<open>repr\<close> quoting in error
  messages and the usage text of \<open>--help\<close>; the CA file written by
  \<open>urlretrieve\<close> and its use for TLS; authentication, timeouts and connection
  failures other than a refused connection; what MySQL does with a statement whose
  text is not the rendering of identifier names (\<open>SqlText\<close> shows such texts
  exist; the database model keys tables by the names themselves).
\<close>

theorem run_drop_reload_witness:
  "\<exists>w'. run ((default_args ''s3://b/export.csv'' ''sales'')\<lparr>db_host := Some ''db'', db_name := Some ''shop'',
                 db_user := Some ''etl'', db_password := Some ''pw'', drop_table := True\<rparr>)
            \<lparr>ca_ok = True, secrets = Map.empty, connect_ok = True,
             objects = [''s3://b/export.csv'' \<mapsto> \<lparr>header = [''id''], rows = replicate 25000 [CInt 7]\<rparr>],
             insert_fails = (\<lambda>_. False)\<rparr>
            (start Map.empty) = (Inr (), w') \<and>
     committed (wdb w') (''shop'', ''sales'') =
       Some \<lparr>tbl_cols = [(''id'', TInt)], tbl_rows = replicate 25000 [CInt 7]\<rparr> \<and>
     (\<exists>pre. trace w' = pre @ [CloseConn, Log (LogDbCount 25000), Log (LogCsvCount 25000), Log LogFinished])"
proof -
  let ?a = "(default_args ''s3://b/export.csv'' ''sales'')\<lparr>db_host := Some ''db'', db_name := Some ''shop'',
                 db_user := Some ''etl'', db_password := Some ''pw'', drop_table := True\<rparr>"
  let ?csv = "\<lparr>header = [''id''], rows = replicate 25000 [CInt 7]\<rparr>"
  let ?e = "\<lparr>ca_ok = True, secrets = Map.empty, connect_ok = True,
             objects = [''s3://b/export.csv'' \<mapsto> ?csv], insert_fails = (\<lambda>_. False)\<rparr>"
  have mode: "valid_delete_mode (normalize_delete_mode (delete_mode ?a))"
    by (simp add: default_args_def str_eval)
  have cr: "require_creds (creds_of_args ?a) = Inr (creds_of_args ?a)"
    by (simp add: require_creds_def creds_of_args_def default_args_def)
  have fit: "rows_storable (convert_dtypes (chunk_frame (header ?csv) (take (nat (chunk_size ?a)) (rows ?csv))))
               (frame_rows ?csv)"
    by (simp add: default_args_def chunk_frame_def convert_dtypes_def column_def cell_at_def infer_column_def
                  frame_rows_def rows_storable_def storable_def list_all_iff)
  have cols: "convert_dtypes (chunk_frame [''id''] (replicate 10000 [CInt 7])) = [(''id'', TInt)]"
    by (simp add: chunk_frame_def convert_dtypes_def column_def cell_at_def infer_column_def)
  have fr: "frame_rows ?csv = replicate 25000 [CInt 7]"
    by (simp add: frame_rows_def cell_at_def)
  from run_drop_reload [OF mode _ cr, where e = ?e and csv = ?csv and w = "start Map.empty"] fit
  show ?thesis
    by (simp add: default_args_def creds_of_args_def cols fr)
qed

end
